(* ===== verification/Chat_Prelude.thy ===== *)
theory Chat_Prelude
  imports Main
begin

text \<open>
  The JavaScript runtime the chat hooks run on, as far as they use it. The hooks hand
  around values decoded by \<open>JSON.parse\<close> whose fields are typed \<open>any\<close>, concatenate
  them with \<open>+=\<close>, interpolate them into template literals, test them with \<open>||\<close>, and
  cut strings with \<open>trim()\<close> and \<open>split('\n')\<close>. This theory gives each of these a
  definition with the language's semantics:
  \<^item> \<open>jsv\<close>: the values \<open>JSON.parse\<close> can produce, plus \<open>undefined\<close> (an absent
    property) and \<open>NaN\<close> (what \<open>+\<close> gives on \<open>undefined\<close>); numbers are integers;
  \<^item> \<open>js_to_string\<close> (\<open>String(v)\<close>, template interpolation), \<open>js_truthy\<close> and
    \<open>js_or\<close> (\<open>a || b\<close>), \<open>js_plus\<close> (\<open>a + b\<close>), \<open>js_get\<close> (\<open>v.k\<close>);
  \<^item> \<open>js_trim\<close> and \<open>js_split\<close>, with the lemmas the line buffer needs: \<open>split\<close>
    never returns an empty array, and joining its pieces gives back the string.
  Strings are \<open>char list\<close>s of code points 0-255; whitespace is what the
  ECMAScript \<open>WhiteSpace\<close> and \<open>LineTerminator\<close> classes hold in that range.
\<close>

named_theorems js_simps "evaluation rules of the JavaScript runtime model"

section \<open>Values\<close>

datatype jsv =
    JUndef
  | JNull
  | JBool bool
  | JNum int
  | JNaN
  | JStr string
  | JArr "jsv list"
  | JObj "(string \<times> jsv) list"

type_synonym timestamp = nat

section \<open>Number to string\<close>

fun nat_str :: "nat \<Rightarrow> string" where
  "nat_str n = (if n < 10 then [char_of (48 + n)]
                else nat_str (n div 10) @ [char_of (48 + n mod 10)])"

definition int_str :: "int \<Rightarrow> string" where
  "int_str i = (if i < 0 then CHR ''-'' # nat_str (nat (- i)) else nat_str (nat i))"

declare nat_str.simps [simp del]

lemma nat_str_not_Nil [simp]: "nat_str n \<noteq> []"
  by (subst nat_str.simps) simp

section \<open>Conversions\<close>

fun js_join :: "string \<Rightarrow> string list \<Rightarrow> string" where
  "js_join sep [] = []"
| "js_join sep [x] = x"
| "js_join sep (x # xs) = x @ sep @ js_join sep xs"

text \<open>\<open>String(v)\<close>: \<open>Array.prototype.toString\<close> joins the elements with commas,
  writing \<open>null\<close> and \<open>undefined\<close> elements as empty strings.\<close>

fun js_to_string :: "jsv \<Rightarrow> string" and js_elem_string :: "jsv \<Rightarrow> string" where
  "js_to_string JUndef = ''undefined''"
| "js_to_string JNull = ''null''"
| "js_to_string (JBool b) = (if b then ''true'' else ''false'')"
| "js_to_string (JNum i) = int_str i"
| "js_to_string JNaN = ''NaN''"
| "js_to_string (JStr s) = s"
| "js_to_string (JArr xs) = js_join '','' (map js_elem_string xs)"
| "js_to_string (JObj kvs) = ''[object Object]''"
| "js_elem_string JUndef = []"
| "js_elem_string JNull = []"
| "js_elem_string (JBool b) = js_to_string (JBool b)"
| "js_elem_string (JNum i) = js_to_string (JNum i)"
| "js_elem_string JNaN = js_to_string JNaN"
| "js_elem_string (JStr s) = s"
| "js_elem_string (JArr xs) = js_to_string (JArr xs)"
| "js_elem_string (JObj kvs) = js_to_string (JObj kvs)"

fun js_truthy :: "jsv \<Rightarrow> bool" where
  "js_truthy JUndef = False"
| "js_truthy JNull = False"
| "js_truthy (JBool b) = b"
| "js_truthy (JNum i) = (i \<noteq> 0)"
| "js_truthy JNaN = False"
| "js_truthy (JStr s) = (s \<noteq> [])"
| "js_truthy (JArr xs) = True"
| "js_truthy (JObj kvs) = True"

text \<open>\<open>a || b\<close>\<close>

definition js_or :: "jsv \<Rightarrow> jsv \<Rightarrow> jsv" where
  "js_or a b = (if js_truthy a then a else b)"

text \<open>\<open>a + b\<close>: objects and arrays become strings (\<open>ToPrimitive\<close>); if either side is
  then a string the result is the concatenation, otherwise numeric addition, where
  \<open>undefined\<close> and \<open>NaN\<close> give \<open>NaN\<close>.\<close>

fun js_to_primitive :: "jsv \<Rightarrow> jsv" where
  "js_to_primitive (JArr xs) = JStr (js_to_string (JArr xs))"
| "js_to_primitive (JObj kvs) = JStr (js_to_string (JObj kvs))"
| "js_to_primitive v = v"

fun js_to_number :: "jsv \<Rightarrow> int option" where
  "js_to_number JNull = Some 0"
| "js_to_number (JBool b) = Some (if b then 1 else 0)"
| "js_to_number (JNum i) = Some i"
| "js_to_number _ = None"

fun js_is_string :: "jsv \<Rightarrow> bool" where
  "js_is_string (JStr s) = True"
| "js_is_string _ = False"

definition js_plus :: "jsv \<Rightarrow> jsv \<Rightarrow> jsv" where
  "js_plus a b =
     (let pa = js_to_primitive a; pb = js_to_primitive b in
      if js_is_string pa \<or> js_is_string pb
      then JStr (js_to_string pa @ js_to_string pb)
      else (case (js_to_number pa, js_to_number pb) of
              (Some x, Some y) \<Rightarrow> JNum (x + y)
            | _ \<Rightarrow> JNaN))"

text \<open>\<open>v.k\<close> on a value that is not \<open>null\<close> or \<open>undefined\<close>: an own property of an
  object (\<open>JSON.parse\<close> keeps the last of duplicate keys), \<open>undefined\<close> otherwise.
  On \<open>null\<close> and \<open>undefined\<close> the access throws; \<open>js_nullish\<close> is that test.\<close>

fun js_get :: "jsv \<Rightarrow> string \<Rightarrow> jsv" where
  "js_get (JObj kvs) k = (case map_of (rev kvs) k of Some v \<Rightarrow> v | None \<Rightarrow> JUndef)"
| "js_get v k = JUndef"

definition js_nullish :: "jsv \<Rightarrow> bool" where
  "js_nullish v \<longleftrightarrow> v = JUndef \<or> v = JNull"

section \<open>Strings\<close>

text \<open>The characters of the model (code points 0-255) that \<open>String.prototype.trim\<close>
  removes: tab, line feed, vertical tab, form feed, carriage return, space and the
  no-break space U+00A0 (ECMAScript's WhiteSpace and LineTerminator).\<close>

definition js_is_ws :: "char \<Rightarrow> bool" where
  "js_is_ws c \<longleftrightarrow> c \<in> {CHR '' '', CHR 0x09, CHR 0x0A, CHR 0x0B, CHR 0x0C, CHR 0x0D, CHR 0xA0}"

definition js_trim :: "string \<Rightarrow> string" where
  "js_trim s = rev (dropWhile js_is_ws (rev (dropWhile js_is_ws s)))"

text \<open>\<open>s.split(c)\<close> for a one-character separator: the pieces between the
  separators, an empty piece where two separators meet or the string starts or ends
  with one, and \<open>['']\<close> for the empty string.\<close>

fun js_split :: "char \<Rightarrow> string \<Rightarrow> string list" where
  "js_split c [] = [[]]"
| "js_split c (x # xs) =
     (if x = c then [] # js_split c xs
      else (case js_split c xs of [] \<Rightarrow> [[x]] | l # ls \<Rightarrow> (x # l) # ls))"

definition NL :: char where
  "NL = CHR 0x0A"

section \<open>Arrays\<close>

text \<open>\<open>xs.map(f)\<close> with a callback that may throw: the first exception (\<open>Inl\<close>)
  ends the loop, otherwise the mapped array.\<close>

fun map_except :: "('a \<Rightarrow> 'e + 'b) \<Rightarrow> 'a list \<Rightarrow> 'e + 'b list" where
  "map_except f [] = Inr []"
| "map_except f (x # xs) =
     (case f x of
        Inl e \<Rightarrow> Inl e
      | Inr y \<Rightarrow> (case map_except f xs of Inl e \<Rightarrow> Inl e | Inr ys \<Rightarrow> Inr (y # ys)))"

text \<open>Sequencing of computations that may throw: the first exception (\<open>Inl\<close>) wins.\<close>

definition bind_ex :: "'e + 'a \<Rightarrow> ('a \<Rightarrow> 'e + 'b) \<Rightarrow> 'e + 'b" where
  "bind_ex x f = (case x of Inl e \<Rightarrow> Inl e | Inr a \<Rightarrow> f a)"

section \<open>Lemmas\<close>

lemma js_split_not_Nil [simp]: "js_split c s \<noteq> []"
  by (induction s) (auto split: list.splits)

lemma js_split_Cons_other [js_simps]:
  "x \<noteq> c \<Longrightarrow> js_split c (x # xs) =
     (x # hd (js_split c xs)) # tl (js_split c xs)"
  by (cases "js_split c xs") auto

lemma js_split_sep_free [simp]: "c \<notin> set s \<Longrightarrow> js_split c s = [s]"
  by (induction s) auto

lemma js_split_append:
  "js_split c (s @ t) =
     butlast (js_split c s) @ (last (js_split c s) @ hd (js_split c t)) # tl (js_split c t)"
proof (induction s)
  case Nil
  show ?case by (cases "js_split c t") auto
next
  case (Cons x s)
  show ?case
  proof (cases "x = c")
    case True
    with Cons.IH show ?thesis by simp
  next
    case False
    obtain l ls where ls: "js_split c s = l # ls"
      by (cases "js_split c s") auto
    with Cons.IH False show ?thesis
      by (cases ls) (simp_all add: js_simps)
  qed
qed

lemma js_split_append_sep [simp]:
  "js_split c (s @ c # t) = js_split c s @ js_split c t"
  using js_split_append [of c s "c # t"]
  by (cases "js_split c t") (simp_all add: snoc_eq_iff_butlast)

lemma js_split_pieces_sep_free: "l \<in> set (js_split c s) \<Longrightarrow> c \<notin> set l"
  by (induction s arbitrary: l) (auto split: if_splits list.splits)

lemma js_join_Cons_Cons [simp]:
  "js_join sep (x # y # ys) = x @ sep @ js_join sep (y # ys)"
  by simp

lemma js_join_split: "js_join [c] (js_split c s) = s"
proof (induction s)
  case Nil
  show ?case by simp
next
  case (Cons x s)
  then show ?case
    by (cases "js_split c s" rule: list.exhaust, simp,
        rename_tac l ls, case_tac ls) auto
qed

lemma all_set_dropWhile: "(\<forall>x \<in> set (dropWhile P s). P x) \<longleftrightarrow> (\<forall>x \<in> set s. P x)"
  by (induction s) auto

lemma js_trim_Nil_iff: "js_trim s = [] \<longleftrightarrow> (\<forall>x \<in> set s. js_is_ws x)"
  by (simp add: js_trim_def dropWhile_eq_Nil_conv all_set_dropWhile)

lemma js_plus_Str [js_simps]:
  "js_plus (JStr s) v = JStr (s @ js_to_string v)"
  by (cases v) (simp_all add: js_plus_def)

lemma js_or_Str_Nil [js_simps]: "js_or v (JStr []) = (if js_truthy v then v else JStr [])"
  by (simp add: js_or_def)

lemma js_to_string_Str [simp]: "js_to_string (JStr s) = s"
  by simp

lemma map_except_Inr:
  "(\<forall>x \<in> set xs. f x = Inr (g x)) \<Longrightarrow> map_except f xs = Inr (map g xs)"
  by (induction xs) auto

lemma map_except_Inl:
  "map_except f xs = Inl e \<Longrightarrow> \<exists>x \<in> set xs. f x = Inl e"
  by (induction xs) (auto split: sum.splits)

lemma map_except_append_Inr [simp]:
  "f x = Inr y \<Longrightarrow> map_except f (xs @ [x]) = map_sum id (\<lambda>ys. ys @ [y]) (map_except f xs)"
  by (induction xs) (auto split: sum.splits)

lemma map_except_Inr_map:
  "map_except f xs = Inr ys \<Longrightarrow> list_all2 (\<lambda>x y. f x = Inr y) xs ys"
  by (induction xs arbitrary: ys) (auto split: sum.splits)

lemma map_except_not_Inl:
  "(\<forall>x \<in> set xs. \<not> isl (f x)) \<Longrightarrow> \<exists>ys. map_except f xs = Inr ys"
  by (induction xs) (auto split: sum.splits)

lemma map_except_isl:
  "x \<in> set xs \<Longrightarrow> isl (f x) \<Longrightarrow> isl (map_except f xs)"
  by (induction xs) (auto split: sum.splits)

lemma map_sum_Inr_iff [simp]: "map_sum f g x = Inr r \<longleftrightarrow> (\<exists>y. x = Inr y \<and> r = g y)"
  by (cases x) auto

lemma bind_ex_simps [simp]: "bind_ex (Inl e) f = Inl e" "bind_ex (Inr a) f = f a"
  by (simp_all add: bind_ex_def)

lemma bind_ex_Inr_iff: "bind_ex x f = Inr b \<longleftrightarrow> (\<exists>a. x = Inr a \<and> f a = Inr b)"
  by (cases x) (simp_all add: bind_ex_def)

lemma bind_ex_Inl_iff:
  "bind_ex x f = Inl e \<longleftrightarrow> x = Inl e \<or> (\<exists>a. x = Inr a \<and> f a = Inl e)"
  by (cases x) (simp_all add: bind_ex_def)

lemma bind_ex_assoc [simp]: "bind_ex (bind_ex x f) g = bind_ex x (\<lambda>a. bind_ex (f a) g)"
  by (cases x) (simp_all add: bind_ex_def)

lemma bind_ex_cong [fundef_cong]:
  "x = y \<Longrightarrow> (\<And>a. y = Inr a \<Longrightarrow> f a = g a) \<Longrightarrow> bind_ex x f = bind_ex y g"
  by (cases y) (auto simp: bind_ex_def)

lemma isl_bind_ex [simp]: "isl (bind_ex x f) \<longleftrightarrow> isl x \<or> (\<exists>a. x = Inr a \<and> isl (f a))"
  by (cases x) (simp_all add: bind_ex_def)

end
