(* ===== verification/Line_Buffer.thy ===== *)
theory Line_Buffer
  imports Chat_Prelude
begin

text \<open>
  The read loop that both chat hooks (\<open>src/src/hooks/useChatStream.ts\<close>, lines 70-142,
  and \<open>src/src/hooks/useChatNoStream.ts\<close>, lines 63-105) run over the response body:
  each chunk is appended to a buffer, the buffer is split at newlines, the last piece
  (an incomplete line) is kept as the new buffer and every other piece is a complete
  line, handed to the hook's line handler unless it is blank. The loop is written here
  once, over the handler: \<open>h st t l\<close> is the hook's handling of line \<open>l\<close> at
  \<open>Date.now() = t\<close>. Chunks are the decoder's output strings, each with the time at
  which it is handled.

  The main results: the complete lines and the remaining buffer are the pieces of
  \<open>split('\n')\<close> of the whole text, however the text was cut into chunks
  (\<open>collect_split\<close>), so that the loop with a fixed clock depends on the
  concatenation of the chunks only (\<open>read_loop_rechunk\<close>).
\<close>

definition feed :: "string \<Rightarrow> string \<Rightarrow> string list \<times> string" where
  \<comment> \<open>\<open>buffer += chunk; lines = buffer.split('\n'); buffer = lines.pop() || ''\<close>;
      \<open>split\<close> returns at least one piece, and \<open>|| ''\<close> maps \<open>''\<close> to itself\<close>
  "feed buffer chunk =
     (let lines = js_split NL (buffer @ chunk) in (butlast lines, last lines))"

definition handle_lines ::
  "('s \<Rightarrow> timestamp \<Rightarrow> string \<Rightarrow> 's) \<Rightarrow> timestamp \<Rightarrow> string list \<Rightarrow> 's \<Rightarrow> 's" where
  \<comment> \<open>\<open>for (const line of lines) { if (line.trim() === '') continue; ... }\<close>\<close>
  "handle_lines h t ls st = fold (\<lambda>l s. if js_trim l = [] then s else h s t l) ls st"

fun read_loop ::
  "('s \<Rightarrow> timestamp \<Rightarrow> string \<Rightarrow> 's) \<Rightarrow> 's \<times> string \<Rightarrow> (timestamp \<times> string) list
   \<Rightarrow> 's \<times> string" where
  "read_loop h (st, buf) [] = (st, buf)"
| "read_loop h (st, buf) ((t, c) # cs) =
     (let (ls, buf') = feed buf c in read_loop h (handle_lines h t ls st, buf') cs)"

definition finish_buffer :: "('s \<Rightarrow> string \<Rightarrow> 's) \<Rightarrow> 's \<Rightarrow> string \<Rightarrow> 's" where
  \<comment> \<open>\<open>if (buffer.trim() !== '') { ... }\<close> after the loop\<close>
  "finish_buffer fin st buf = (if js_trim buf \<noteq> [] then fin st buf else st)"

text \<open>The lines alone, without a handler: what the loop hands out.\<close>

fun collect :: "string \<Rightarrow> string list \<Rightarrow> string list \<times> string" where
  "collect buf [] = ([], buf)"
| "collect buf (c # cs) =
     (let (ls, buf') = feed buf c; (ls', rest) = collect buf' cs in (ls @ ls', rest))"

section \<open>Lemmas\<close>

lemma handle_lines_append [simp]:
  "handle_lines h t (xs @ ys) st = handle_lines h t ys (handle_lines h t xs st)"
  by (simp add: handle_lines_def)

lemma handle_lines_Nil [simp]: "handle_lines h t [] st = st"
  by (simp add: handle_lines_def)

lemma handle_lines_Cons [simp]:
  "handle_lines h t (l # ls) st =
     handle_lines h t ls (if js_trim l = [] then st else h st t l)"
  by (simp add: handle_lines_def)

lemma last_js_split_sep_free: "c \<notin> set (last (js_split c s))"
  by (rule js_split_pieces_sep_free [of _ c s]) simp

lemma js_split_sep_free_append:
  "c \<notin> set s \<Longrightarrow> js_split c (s @ t) = (s @ hd (js_split c t)) # tl (js_split c t)"
  by (simp add: js_split_append)

lemma feed_split:
  "fst (feed buf c) @ js_split NL (snd (feed buf c) @ t) = js_split NL (buf @ c @ t)"
proof -
  let ?s = "buf @ c"
  have "js_split NL (?s @ t) =
          butlast (js_split NL ?s) @ (last (js_split NL ?s) @ hd (js_split NL t))
            # tl (js_split NL t)"
    by (rule js_split_append)
  moreover have "js_split NL (last (js_split NL ?s) @ t) =
                   (last (js_split NL ?s) @ hd (js_split NL t)) # tl (js_split NL t)"
    by (rule js_split_sep_free_append [OF last_js_split_sep_free])
  ultimately show ?thesis by (simp add: feed_def Let_def)
qed

lemma feed_buffer_sep_free: "NL \<notin> set (snd (feed buf c))"
  by (simp add: feed_def Let_def last_js_split_sep_free)

lemma collect_split_gen:
  "NL \<notin> set buf \<Longrightarrow>
     fst (collect buf cs) @ [snd (collect buf cs)] = js_split NL (buf @ concat cs)"
proof (induction cs arbitrary: buf)
  case Nil
  then show ?case by simp
next
  case (Cons c cs)
  obtain ls buf' where fb: "feed buf c = (ls, buf')" by fastforce
  have "fst (collect buf (c # cs)) @ [snd (collect buf (c # cs))] =
          ls @ (fst (collect buf' cs) @ [snd (collect buf' cs)])"
    by (simp add: fb split: prod.splits)
  also have "\<dots> = ls @ js_split NL (buf' @ concat cs)"
    using feed_buffer_sep_free [of buf c] by (simp add: fb Cons.IH)
  also have "\<dots> = js_split NL (buf @ c @ concat cs)"
    using feed_split [of buf c "concat cs"] by (simp add: fb)
  finally show ?case by simp
qed

lemma read_loop_collect:
  "read_loop h (st, buf) (map (Pair t) cs) =
     (handle_lines h t (fst (collect buf cs)) st, snd (collect buf cs))"
  by (induction cs arbitrary: st buf) (auto split: prod.splits)

lemma handle_lines_invariant:
  "(\<And>s t l. P s \<Longrightarrow> P (h s t l)) \<Longrightarrow> P st \<Longrightarrow> P (handle_lines h t ls st)"
  by (induction ls arbitrary: st) auto

lemma read_loop_invariant:
  assumes "\<And>s t l. P s \<Longrightarrow> P (h s t l)" and "P st"
  shows "P (fst (read_loop h (st, buf) cs))"
  using assms(2)
proof (induction cs arbitrary: st buf)
  case Nil
  then show ?case by simp
next
  case (Cons tc cs)
  obtain t c where tc: "tc = (t, c)" by fastforce
  obtain ls buf' where fb: "feed buf c = (ls, buf')" by fastforce
  have "P (handle_lines h t ls st)"
    using handle_lines_invariant [of P h, OF assms(1) Cons.prems] .
  then show ?case using Cons.IH by (simp add: tc fb)
qed

lemma js_split_lines:
  "\<forall>l \<in> set ls. c \<notin> set l \<Longrightarrow> js_split c (concat (map (\<lambda>l. l @ [c]) ls)) = ls @ [[]]"
proof (induction ls)
  case Nil
  show ?case by simp
next
  case (Cons a ls)
  have "concat (map (\<lambda>l. l @ [c]) (a # ls)) = a @ c # concat (map (\<lambda>l. l @ [c]) ls)"
    by simp
  with Cons show ?case by simp
qed

lemma read_loop_lines_gen:
  assumes "\<forall>l \<in> set ls. NL \<notin> set l" and "concat cs = concat (map (\<lambda>l. l @ [NL]) ls)"
  shows "read_loop h (st, []) (map (Pair t) cs) = (handle_lines h t ls st, [])"
proof -
  have "fst (collect [] cs) @ [snd (collect [] cs)] = ls @ [[]]"
    using collect_split_gen [of "[]" cs] js_split_lines [OF assms(1)] assms(2) by simp
  then show ?thesis by (simp add: read_loop_collect)
qed

lemma read_loop_no_newline:
  assumes "NL \<notin> set (concat cs)"
  shows "read_loop h (st, []) (map (Pair t) cs) = (st, concat cs)"
proof -
  have "fst (collect [] cs) @ [snd (collect [] cs)] = [] @ [concat cs]"
    using collect_split_gen [of "[]" cs] assms by simp
  then show ?thesis by (simp only: read_loop_collect append1_eq_conv) simp
qed

section \<open>Properties\<close>

text \<open>C1: whatever the chunk boundaries, the complete lines handed out by the loop
  followed by the buffer left at the end are exactly the pieces of the whole response
  text split at newlines.\<close>

theorem collect_split:
  "fst (collect [] cs) @ [snd (collect [] cs)] = js_split NL (concat cs)"
  using collect_split_gen [of "[]" cs] by simp

text \<open>C2: with the clock fixed, the read loop with any line handler ends in the same
  state and the same buffer for any two chunkings of the same text.\<close>

theorem read_loop_rechunk:
  assumes "concat cs1 = concat cs2"
  shows "read_loop h (st, []) (map (Pair t) cs1) = read_loop h (st, []) (map (Pair t) cs2)"
proof -
  have "fst (collect [] cs1) = fst (collect [] cs2) \<and> snd (collect [] cs1) = snd (collect [] cs2)"
    using collect_split_gen [of "[]" cs1] collect_split_gen [of "[]" cs2] assms
    by (metis append1_eq_conv append_Nil empty_iff empty_set)
  then show ?thesis by (simp add: read_loop_collect)
qed

theorem read_loop_rechunk_witness:
  "concat [''a'' @ [NL] @ ''b'', ''c'' @ [NL]] = concat [''a'', [NL] @ ''bc'' @ [NL]] \<and>
   read_loop (\<lambda>s t l. s @ [l]) ([], []) (map (Pair 7) [''a'' @ [NL] @ ''b'', ''c'' @ [NL]]) =
   read_loop (\<lambda>s t l. s @ [l]) ([], []) (map (Pair 7) [''a'', [NL] @ ''bc'' @ [NL]])"
  using read_loop_rechunk [of "[''a'' @ [NL] @ ''b'', ''c'' @ [NL]]" "[''a'', [NL] @ ''bc'' @ [NL]]"
      "\<lambda>s t l. s @ [l]" "[]" 7]
  by simp

end
