(* ===== verification/Chat_Message.thy ===== *)
theory Chat_Message
  imports Line_Buffer
begin

text \<open>
  The data both chat hooks share (\<open>src/src/hooks/useChatStream.ts\<close> and
  \<open>src/src/hooks/useChatNoStream.ts\<close>, which agree line for line up to line 60):
  \<^item> \<open>chat_message\<close>, the \<open>ChatMessage\<close> interface. Every field but the id holds a
    JavaScript value: the hooks copy \<open>any\<close>-typed fields of the decoded JSON into
    them (\<open>type: data.type\<close>, \<open>toolArgs: data.tool_args\<close>), so their runtime values
    are whatever the server sent. An absent optional field is \<open>JUndef\<close>.
  \<^item> \<open>chat_state\<close>, the hook's React state (\<open>messages\<close>, \<open>inputValue\<close>,
    \<open>isLoading\<close>, \<open>threadId\<close>); each \<open>setX(prev => ...)\<close> is a function on it.
  \<^item> \<open>fetch_outcome\<close>, what the network does with the request: \<open>fetch\<close> rejects,
    or a response arrives with its status, its body (as \<open>response.json()\<close> reads it on
    the error path) and the chunks the body reader yields before it ends or fails.
  \<^item> the first half of \<open>sendMessage\<close> (\<open>send_start\<close>: the guard, the user message,
    the loading flag), the HTTP-error message, and the network-error message.
  \<open>Date.now()\<close> is an argument wherever the code reads it.
\<close>

record chat_message =
  msg_id :: string
  msg_type :: jsv
  msg_content :: jsv
  msg_tool_name :: jsv
  msg_tool_args :: jsv
  msg_output :: jsv
  msg_tool_call_id :: jsv
  msg_tool_calls :: jsv

definition mk_message :: "string \<Rightarrow> jsv \<Rightarrow> jsv \<Rightarrow> chat_message" where
  "mk_message i ty c =
     \<lparr>msg_id = i, msg_type = ty, msg_content = c, msg_tool_name = JUndef,
      msg_tool_args = JUndef, msg_output = JUndef, msg_tool_call_id = JUndef,
      msg_tool_calls = JUndef\<rparr>"

record chat_state =
  messages :: "chat_message list"
  input_value :: string
  is_loading :: bool
  thread_id :: string

record http_response =
  resp_ok :: bool
  resp_status :: nat
  resp_has_body :: bool
  resp_json :: "string + jsv"
  resp_chunks :: "(timestamp \<times> string) list"
  resp_end :: "string option"

datatype fetch_outcome = FetchRejected string | Fetched http_response

text \<open>\<open>JSON.parse\<close>, as a parameter of the hooks: \<open>None\<close> where it throws.\<close>

type_synonym json_parser = "string \<Rightarrow> jsv option"

section \<open>Session start\<close>

text \<open>\<open>localStorage.getItem('steve_chat_thread_id') || `thread-${Date.now()}`\<close>\<close>

definition init_thread_id :: "string option \<Rightarrow> timestamp \<Rightarrow> string" where
  "init_thread_id stored t =
     (case stored of Some s \<Rightarrow> if s \<noteq> [] then s else ''thread-'' @ nat_str t
      | None \<Rightarrow> ''thread-'' @ nat_str t)"

definition init_chat_state :: "string option \<Rightarrow> timestamp \<Rightarrow> chat_state" where
  "init_chat_state stored t =
     \<lparr>messages = [], input_value = [], is_loading = False,
      thread_id = init_thread_id stored t\<rparr>"

text \<open>The JSON body of the request: \<open>{ message: message.trim(), thread_id: threadId }\<close>.\<close>

definition chat_request :: "chat_state \<Rightarrow> string \<Rightarrow> (string \<times> jsv) list" where
  "chat_request st message =
     [(''message'', JStr (js_trim message)), (''thread_id'', JStr (thread_id st))]"

section \<open>Operations on the message list\<close>

definition append_msg :: "chat_message \<Rightarrow> chat_state \<Rightarrow> chat_state" where
  "append_msg m st = st\<lparr>messages := messages st @ [m]\<rparr>"

definition error_message :: "timestamp \<Rightarrow> string \<Rightarrow> chat_message" where
  "error_message t text = mk_message (''error-'' @ nat_str t) (JStr ''error'') (JStr text)"

section \<open>The start of sendMessage\<close>

definition user_message :: "timestamp \<Rightarrow> string \<Rightarrow> chat_message" where
  \<comment> \<open>\<open>{ id: `user-${Date.now()}`, type: 'user', content: message.trim() }\<close>\<close>
  "user_message t message =
     mk_message (''user-'' @ nat_str t) (JStr ''user'') (JStr (js_trim message))"

text \<open>Lines 31-38: return on a blank message or while loading; otherwise append the
  user message, clear the input and set the loading flag. \<open>None\<close> is the early return.\<close>

definition send_start :: "timestamp \<Rightarrow> string \<Rightarrow> chat_state \<Rightarrow> chat_state option" where
  "send_start t message st =
     (if js_trim message = [] \<or> is_loading st then None
      else Some (st\<lparr>messages := messages st @ [user_message t message],
                     input_value := [], is_loading := True\<rparr>))"

section \<open>Errors of the request\<close>

text \<open>The text of the \<open>TypeError\<close> a property read on \<open>null\<close> throws (V8's wording).\<close>

definition js_prop_error :: "jsv \<Rightarrow> string \<Rightarrow> string" where
  "js_prop_error v k =
     ''Cannot read properties of '' @ js_to_string v @ '' (reading '' @ [CHR 0x27] @ k @ [CHR 0x27] @ '')''"

text \<open>Lines 52-55: on \<open>!response.ok || !response.body\<close> the body is read as JSON and an
  \<open>Error\<close> is thrown; the message of whatever is thrown on this path.\<close>

definition http_error_text :: "http_response \<Rightarrow> string" where
  "http_error_text r =
     (case resp_json r of
        Inl msg \<Rightarrow> msg
      | Inr ed \<Rightarrow>
          if js_nullish ed then js_prop_error ed ''detail''
          else ''HTTP error! status: '' @ nat_str (resp_status r) @ '', detail: '' @
               js_to_string (js_or (js_get ed ''detail'') (JStr ''Unknown error'')))"

text \<open>The outer \<open>catch\<close>: one error message with the thrown error's message.\<close>

definition net_error :: "timestamp \<Rightarrow> string \<Rightarrow> chat_state \<Rightarrow> chat_state" where
  "net_error t msg st = append_msg (error_message t (''Network or API error: '' @ msg)) st"

text \<open>A successful response whose body arrives as the given chunks (used by the
  concrete scenarios).\<close>

definition demo_response :: "(timestamp \<times> string) list \<Rightarrow> http_response" where
  "demo_response cs =
     \<lparr>resp_ok = True, resp_status = 200, resp_has_body = True, resp_json = Inr JNull,
      resp_chunks = cs, resp_end = None\<rparr>"

section \<open>Lemmas\<close>

named_theorems chat_simps "unfolding rules of the chat message operations"

lemmas [chat_simps] = append_msg_def error_message_def net_error_def

lemma send_start_None_iff:
  "send_start t message st = None \<longleftrightarrow> js_trim message = [] \<or> is_loading st"
  by (simp add: send_start_def)

lemma send_start_Some:
  "send_start t message st = Some st1 \<Longrightarrow>
     messages st1 = messages st @ [user_message t message] \<and>
     is_loading st1 \<and> input_value st1 = [] \<and> thread_id st1 = thread_id st"
  by (auto simp: send_start_def split: if_splits)

lemma append_msg_messages [simp]: "messages (append_msg m st) = messages st @ [m]"
  by (simp add: append_msg_def)

lemma append_msg_other [simp]:
  "is_loading (append_msg m st) = is_loading st"
  "thread_id (append_msg m st) = thread_id st"
  "input_value (append_msg m st) = input_value st"
  by (simp_all add: append_msg_def)

lemma net_error_messages [simp]:
  "messages (net_error t msg st) = messages st @ [error_message t (''Network or API error: '' @ msg)]"
  by (simp add: net_error_def)

lemma net_error_other [simp]:
  "is_loading (net_error t msg st) = is_loading st"
  "thread_id (net_error t msg st) = thread_id st"
  by (simp_all add: net_error_def)

end
