(* ===== verification/Chat_Stream.thy ===== *)
theory Chat_Stream
  imports Chat_Message
begin

text \<open>
  \<open>useChatStream\<close> (\<open>src/src/hooks/useChatStream.ts\<close>): the token-streaming variant
  of \<open>sendMessage\<close>. After the response headers it appends one empty \<open>agent\<close>
  message with id \<open>agent-<now>\<close> and then handles each line by its \<open>type\<close>:
  \<open>token\<close> appends to an accumulator \<open>agentMessageContent\<close> and writes it into the
  message(s) with that id, \<open>final_response\<close> overwrites the accumulator,
  \<open>tool_output\<close> and \<open>agent_tool_call\<close> turn the message with that id into a message
  of their own type, \<open>error\<close> appends an error message, and any other type does
  nothing. A line that does not parse, or parses to \<open>null\<close>, appends an error message.
  The buffer left when the stream ends is handled by a different rule
  (\<open>stream_final\<close>): only \<open>final_response\<close> counts, and it is appended to the
  accumulator instead of replacing it.

  \<open>JSON.parse\<close> is the argument \<open>parse\<close> (\<open>None\<close>: it throws). The state of the
  line loop is the hook state with the accumulator.
\<close>

definition update_by_id ::
  "string \<Rightarrow> (chat_message \<Rightarrow> chat_message) \<Rightarrow> chat_state \<Rightarrow> chat_state" where
  \<comment> \<open>\<open>setMessages(prev => prev.map(msg => msg.id === id ? f(msg) : msg))\<close>\<close>
  "update_by_id aid f st =
     st\<lparr>messages := map (\<lambda>m. if msg_id m = aid then f m else m) (messages st)\<rparr>"

definition agent_msg_id :: "timestamp \<Rightarrow> string" where
  \<comment> \<open>\<open>agentMessageId = `agent-${Date.now()}`\<close>\<close>
  "agent_msg_id t = ''agent-'' @ nat_str t"

definition set_content :: "string \<Rightarrow> jsv \<Rightarrow> chat_state \<Rightarrow> chat_state" where
  "set_content aid v st = update_by_id aid (\<lambda>m. m\<lparr>msg_content := v\<rparr>) st"

definition stream_parse_error ::
  "timestamp \<Rightarrow> string \<Rightarrow> chat_state \<times> jsv \<Rightarrow> chat_state \<times> jsv" where
  "stream_parse_error t text sa = (append_msg (error_message t text) (fst sa), snd sa)"

text \<open>Lines 87-134: the branches on \<open>data.type\<close> for a value that is not \<open>null\<close>.\<close>

fun stream_event ::
  "string \<Rightarrow> timestamp \<Rightarrow> jsv \<Rightarrow> chat_state \<times> jsv \<Rightarrow> chat_state \<times> jsv" where
  "stream_event aid t data (st, acc) =
     (let ty = js_get data ''type'' in
      if ty = JStr ''token'' then
        (let acc' = js_plus acc (js_get data ''content'') in (set_content aid acc' st, acc'))
      else if ty = JStr ''final_response'' then
        (let acc' = js_or (js_get data ''content'') (JStr []) in (set_content aid acc' st, acc'))
      else if ty = JStr ''tool_output'' then
        (update_by_id aid
           (\<lambda>m. m\<lparr>msg_type := JStr ''tool_output'',
                  msg_tool_name := js_get data ''tool_name'',
                  msg_tool_args := js_get data ''tool_args'',
                  msg_output := js_get data ''output'',
                  msg_tool_call_id := js_get data ''tool_call_id''\<rparr>) st, acc)
      else if ty = JStr ''agent_tool_call'' then
        (update_by_id aid
           (\<lambda>m. m\<lparr>msg_type := JStr ''agent_tool_call'',
                  msg_tool_calls := js_get data ''tool_calls''\<rparr>) st, acc)
      else if ty = JStr ''error'' then
        (append_msg (error_message t (''Error: '' @ js_to_string (js_get data ''content''))) st, acc)
      else (st, acc))"

text \<open>Lines 81-140: one complete, non-blank line; \<open>JSON.parse\<close> failing or
  \<open>data.type\<close> on \<open>null\<close> throwing both land in the \<open>catch\<close>.\<close>

definition stream_line ::
  "json_parser \<Rightarrow> string \<Rightarrow> chat_state \<times> jsv \<Rightarrow> timestamp \<Rightarrow> string \<Rightarrow> chat_state \<times> jsv" where
  "stream_line parse aid sa t line =
     (case parse line of
        Some data \<Rightarrow>
          if js_nullish data then stream_parse_error t (''Failed to parse response: '' @ line) sa
          else stream_event aid t data sa
      | None \<Rightarrow> stream_parse_error t (''Failed to parse response: '' @ line) sa)"

text \<open>Lines 144-163: the buffer left at the end of the stream.\<close>

definition stream_final ::
  "json_parser \<Rightarrow> string \<Rightarrow> timestamp \<Rightarrow> chat_state \<times> jsv \<Rightarrow> string \<Rightarrow> chat_state \<times> jsv" where
  "stream_final parse aid t sa buf =
     (case parse buf of
        Some data \<Rightarrow>
          if js_nullish data
          then stream_parse_error t (''Failed to parse final response: '' @ buf) sa
          else if js_get data ''type'' = JStr ''final_response''
          then (let acc' = js_plus (snd sa) (js_or (js_get data ''content'') (JStr []))
                in (set_content aid acc' (fst sa), acc'))
          else sa
      | None \<Rightarrow> stream_parse_error t (''Failed to parse final response: '' @ buf) sa)"

text \<open>Lines 58-163: a response with a body. \<open>th\<close> is \<open>Date.now()\<close> after the headers,
  \<open>te\<close> at the end; a failing read leaves the loop through the outer \<open>catch\<close>.\<close>

definition stream_body ::
  "json_parser \<Rightarrow> timestamp \<Rightarrow> timestamp \<Rightarrow> http_response \<Rightarrow> chat_state \<Rightarrow> chat_state" where
  "stream_body parse th te r st =
     (let aid = agent_msg_id th;
          st1 = append_msg (mk_message aid (JStr ''agent'') (JStr [])) st;
          (sa, buf) = read_loop (stream_line parse aid) ((st1, JStr []), []) (resp_chunks r)
      in case resp_end r of
           Some msg \<Rightarrow> net_error te msg (fst sa)
         | None \<Rightarrow> fst (finish_buffer (stream_final parse aid te) sa buf))"

text \<open>Lines 40-171: the request, its error paths, and the \<open>finally\<close>.\<close>

definition stream_finish ::
  "json_parser \<Rightarrow> timestamp \<Rightarrow> timestamp \<Rightarrow> fetch_outcome \<Rightarrow> chat_state \<Rightarrow> chat_state" where
  "stream_finish parse th te out st =
     (case out of
        FetchRejected msg \<Rightarrow> net_error te msg st
      | Fetched r \<Rightarrow>
          if \<not> resp_ok r \<or> \<not> resp_has_body r then net_error te (http_error_text r) st
          else stream_body parse th te r st)\<lparr>is_loading := False\<rparr>"

definition stream_send_message ::
  "json_parser \<Rightarrow> timestamp \<Rightarrow> timestamp \<Rightarrow> timestamp \<Rightarrow> string \<Rightarrow> fetch_outcome
   \<Rightarrow> chat_state \<Rightarrow> chat_state" where
  "stream_send_message parse t th te message out st =
     (case send_start t message st of
        None \<Rightarrow> st
      | Some st1 \<Rightarrow> stream_finish parse th te out st1)"

section \<open>Lemmas\<close>

lemma update_by_id_fresh:
  "\<forall>m \<in> set xs. msg_id m \<noteq> aid \<Longrightarrow>
     map (\<lambda>m. if msg_id m = aid then f m else m) xs = xs"
  by (induction xs) auto

text \<open>The messages before the agent message survive every step of the stream when
  none of them carries its id.\<close>

definition keeps_prefix :: "chat_message list \<Rightarrow> string \<Rightarrow> chat_state \<Rightarrow> bool" where
  "keeps_prefix old aid st \<longleftrightarrow> (\<exists>ys. messages st = old @ ys)"

lemma keeps_prefix_update:
  "\<forall>m \<in> set old. msg_id m \<noteq> aid \<Longrightarrow> keeps_prefix old aid st \<Longrightarrow>
     keeps_prefix old aid (update_by_id aid f st)"
  by (auto simp: keeps_prefix_def update_by_id_def update_by_id_fresh)

lemma keeps_prefix_append:
  "keeps_prefix old aid st \<Longrightarrow> keeps_prefix old aid (append_msg m st)"
  by (auto simp: keeps_prefix_def)

lemmas keeps_prefix_steps = keeps_prefix_update keeps_prefix_append

lemma keeps_prefix_stream_line:
  "\<forall>m \<in> set old. msg_id m \<noteq> aid \<Longrightarrow> keeps_prefix old aid (fst sa) \<Longrightarrow>
     keeps_prefix old aid (fst (stream_line parse aid sa t line))"
  by (cases sa)
     (auto simp: stream_line_def stream_parse_error_def set_content_def Let_def
        keeps_prefix_steps split: option.splits)

lemma keeps_prefix_stream_final:
  "\<forall>m \<in> set old. msg_id m \<noteq> aid \<Longrightarrow> keeps_prefix old aid (fst sa) \<Longrightarrow>
     keeps_prefix old aid (fst (stream_final parse aid t sa buf))"
  by (auto simp: stream_final_def stream_parse_error_def set_content_def Let_def
        keeps_prefix_steps split: option.splits)

lemma keeps_prefix_read_loop:
  assumes "\<forall>m \<in> set old. msg_id m \<noteq> aid" and "keeps_prefix old aid (fst sa)"
  shows "keeps_prefix old aid (fst (fst (read_loop (stream_line parse aid) (sa, buf) cs)))"
proof (rule read_loop_invariant [where P = "\<lambda>sa :: chat_state \<times> jsv. keeps_prefix old aid (fst sa)"])
  show "keeps_prefix old aid (fst sa)" by (rule assms(2))
next
  fix s :: "chat_state \<times> jsv" and t l
  assume "keeps_prefix old aid (fst s)"
  then show "keeps_prefix old aid (fst (stream_line parse aid s t l))"
    by (rule keeps_prefix_stream_line [OF assms(1)])
qed

lemma keeps_prefix_stream_body:
  assumes "\<forall>m \<in> set (messages st). msg_id m \<noteq> agent_msg_id th"
  shows "keeps_prefix (messages st) (agent_msg_id th) (stream_body parse th te r st)"
proof -
  let ?aid = "agent_msg_id th"
  let ?st1 = "append_msg (mk_message ?aid (JStr ''agent'') (JStr [])) st"
  let ?P = "\<lambda>sa :: chat_state \<times> jsv. keeps_prefix (messages st) ?aid (fst sa)"
  obtain sa buf where rl: "read_loop (stream_line parse ?aid) ((?st1, JStr []), []) (resp_chunks r) = (sa, buf)"
    by fastforce
  have "?P (?st1, JStr [])" by (simp add: keeps_prefix_def)
  then have "?P (fst (read_loop (stream_line parse ?aid) ((?st1, JStr []), []) (resp_chunks r)))"
    by (rule keeps_prefix_read_loop [OF assms])
  then have sa: "?P sa" by (simp only: rl fst_conv)
  moreover have "?P (finish_buffer (stream_final parse ?aid te) sa buf)"
    using sa keeps_prefix_stream_final [OF assms] by (simp add: finish_buffer_def)
  ultimately show ?thesis
    by (auto simp: stream_body_def rl net_error_def keeps_prefix_append split: option.splits)
qed

lemma agent_msg_id_not_user: "''user-'' @ x \<noteq> agent_msg_id t"
  by (simp add: agent_msg_id_def)

lemma stream_finish_loading [simp]: "is_loading (stream_finish parse th te out st) = False"
  by (simp add: stream_finish_def)

lemma keeps_prefix_stream_finish:
  assumes "\<forall>m \<in> set (messages st). msg_id m \<noteq> agent_msg_id th"
  shows "keeps_prefix (messages st) (agent_msg_id th) (stream_finish parse th te out st)"
proof -
  have "keeps_prefix (messages st) (agent_msg_id th)
          (case out of FetchRejected msg \<Rightarrow> net_error te msg st
           | Fetched r \<Rightarrow> if \<not> resp_ok r \<or> \<not> resp_has_body r
                         then net_error te (http_error_text r) st
                         else stream_body parse th te r st)"
    using keeps_prefix_stream_body [OF assms]
    by (auto simp: keeps_prefix_def split: fetch_outcome.splits)
  then show ?thesis by (simp add: stream_finish_def keeps_prefix_def)
qed

lemma update_by_id_last:
  "\<forall>m \<in> set pre. msg_id m \<noteq> aid \<Longrightarrow> msg_id m0 = aid \<Longrightarrow>
   update_by_id aid f (st\<lparr>messages := pre @ [m0]\<rparr>) = st\<lparr>messages := pre @ [f m0]\<rparr>"
  by (simp add: update_by_id_def update_by_id_fresh)

lemma stream_body_lines:
  assumes "\<forall>l \<in> set ls. NL \<notin> set l" and "concat cs = concat (map (\<lambda>l. l @ [NL]) ls)"
    and "resp_chunks r = map (Pair tc) cs" and "resp_end r = None"
  shows "stream_body parse th te r st =
           fst (handle_lines (stream_line parse (agent_msg_id th)) tc ls
                  (append_msg (mk_message (agent_msg_id th) (JStr ''agent'') (JStr [])) st, JStr []))"
proof -
  let ?s0 = "(append_msg (mk_message (agent_msg_id th) (JStr ''agent'') (JStr [])) st, JStr [])"
  have "read_loop (stream_line parse (agent_msg_id th)) (?s0, []) (resp_chunks r) =
          (handle_lines (stream_line parse (agent_msg_id th)) tc ls ?s0, [])"
    using read_loop_lines_gen [OF assms(1,2)] assms(3) by simp
  then show ?thesis
    using assms(4) by (simp add: stream_body_def finish_buffer_def js_trim_def Let_def)
qed

lemma stream_send_body:
  assumes "js_trim message \<noteq> []" and "\<not> is_loading st" and "resp_ok r" and "resp_has_body r"
  shows "stream_send_message parse t th te message (Fetched r) st =
           (stream_body parse th te r
              (st\<lparr>messages := messages st @ [user_message t message], input_value := [],
                  is_loading := True\<rparr>))\<lparr>is_loading := False\<rparr>"
  using assms by (simp add: stream_send_message_def send_start_def stream_finish_def user_message_def)

lemma stream_tokens_handle:
  assumes "\<forall>m \<in> set pre. msg_id m \<noteq> aid"
    and "\<forall>(l, w) \<in> set toks. parse l = Some (JObj [(''type'', JStr ''token''), (''content'', JStr w)]) \<and> js_trim l \<noteq> []"
  shows "handle_lines (stream_line parse aid) tc (map fst toks)
           (s\<lparr>messages := pre @ [mk_message aid (JStr ''agent'') (JStr a)]\<rparr>, JStr a) =
         (s\<lparr>messages := pre @ [mk_message aid (JStr ''agent'') (JStr (a @ concat (map snd toks)))]\<rparr>,
          JStr (a @ concat (map snd toks)))"
  using assms(2)
proof (induction toks arbitrary: a)
  case Nil
  then show ?case by simp
next
  case (Cons lw toks)
  obtain l w where lw: "lw = (l, w)" by fastforce
  have "stream_line parse aid (s\<lparr>messages := pre @ [mk_message aid (JStr ''agent'') (JStr a)]\<rparr>, JStr a) tc l =
          (s\<lparr>messages := pre @ [mk_message aid (JStr ''agent'') (JStr (a @ w))]\<rparr>, JStr (a @ w))"
    using Cons.prems assms(1) lw
    by (simp add: stream_line_def js_nullish_def set_content_def js_simps
          update_by_id_last mk_message_def Let_def)
  then show ?case using Cons lw by simp
qed

section \<open>Properties\<close>

text \<open>C4: \<open>sendMessage\<close> of the streaming hook does nothing when the message is
  blank after \<open>trim()\<close> or a request is in flight.\<close>

theorem stream_send_guard:
  assumes "js_trim message = [] \<or> is_loading st"
  shows "stream_send_message parse t th te message out st = st"
  using assms by (simp add: stream_send_message_def send_start_def)

theorem stream_send_guard_witness:
  "stream_send_message (\<lambda>_. None) 5 6 7 ''  '' (FetchRejected ''x'') (init_chat_state None 0) =
   init_chat_state None 0"
  using stream_send_guard [of "''  ''" "init_chat_state None 0" "\<lambda>_. None" 5 6 7 "FetchRejected ''x''"]
  by (simp add: js_trim_def js_is_ws_def)

text \<open>C5: no exit path of the streaming \<open>sendMessage\<close> leaves the hook loading: after
  the call the flag is what it was before (a call that starts a request always
  clears it, whatever the network does).\<close>

theorem stream_send_loading:
  "is_loading (stream_send_message parse t th te message out st) = is_loading st"
  by (auto simp: stream_send_message_def send_start_def split: option.splits if_splits)

text \<open>C6: the streaming hook only appends to the conversation: when no earlier message
  carries the new agent message's id, the messages before the call are a prefix of
  the messages after it.\<close>

theorem stream_send_keeps_history:
  assumes "\<forall>m \<in> set (messages st). msg_id m \<noteq> agent_msg_id th"
  shows "\<exists>ys. messages (stream_send_message parse t th te message out st) = messages st @ ys"
proof (cases "send_start t message st")
  case None
  then show ?thesis by (simp add: stream_send_message_def)
next
  case (Some st1)
  have m1: "messages st1 = messages st @ [user_message t message]"
    using send_start_Some [OF Some] by simp
  have "\<forall>m \<in> set (messages st1). msg_id m \<noteq> agent_msg_id th"
    using assms agent_msg_id_not_user by (simp add: m1 user_message_def mk_message_def)
  then have "keeps_prefix (messages st1) (agent_msg_id th) (stream_finish parse th te out st1)"
    by (rule keeps_prefix_stream_finish)
  then obtain ys where "messages (stream_finish parse th te out st1) = messages st1 @ ys"
    by (auto simp: keeps_prefix_def)
  then have "messages (stream_send_message parse t th te message out st) =
               messages st @ (user_message t message # ys)"
    by (simp add: stream_send_message_def Some m1)
  then show ?thesis by (rule exI)
qed

theorem stream_send_keeps_history_witness:
  "take 2 (messages (stream_send_message (\<lambda>_. None) 5 6 7 ''hi'' (FetchRejected ''x'')
      ((init_chat_state None 0)\<lparr>messages := [user_message 1 ''earlier'', error_message 2 ''oops'']\<rparr>))) =
   [user_message 1 ''earlier'', error_message 2 ''oops''] \<and>
   2 < length (messages (stream_send_message (\<lambda>_. None) 5 6 7 ''hi'' (FetchRejected ''x'')
      ((init_chat_state None 0)\<lparr>messages := [user_message 1 ''earlier'', error_message 2 ''oops'']\<rparr>)))"
proof -
  obtain ys where ys:
    "messages (stream_send_message (\<lambda>_. None) 5 6 7 ''hi'' (FetchRejected ''x'')
       ((init_chat_state None 0)\<lparr>messages := [user_message 1 ''earlier'', error_message 2 ''oops'']\<rparr>)) =
     [user_message 1 ''earlier'', error_message 2 ''oops''] @ ys"
    using stream_send_keeps_history
      [of "(init_chat_state None 0)\<lparr>messages := [user_message 1 ''earlier'', error_message 2 ''oops'']\<rparr>"
          6 "\<lambda>_. None" 5 7 "''hi''" "FetchRejected ''x''"]
    by (auto simp: agent_msg_id_def user_message_def error_message_def mk_message_def nat_str.simps)
  have "ys \<noteq> []"
    using ys by (simp add: stream_send_message_def send_start_def init_chat_state_def js_trim_def js_is_ws_def
        stream_finish_def Let_def) (metis list.distinct(1))
  then show ?thesis using ys by simp
qed

text \<open>The end-to-end turn of the specification's scenario 6 in the streaming hook: a
  non-blank message and a response whose body is one newline-terminated
  \<open>final_response\<close> line with text \<open>c\<close>, however it is chunked, leave exactly the
  user message and one agent message with content \<open>c\<close>, and the hook idle.\<close>

theorem stream_final_response_turn:
  assumes parse: "parse line = Some (JObj [(''type'', JStr ''final_response''), (''content'', JStr c)])"
    and line: "NL \<notin> set line" "js_trim line \<noteq> []"
    and msg: "js_trim message \<noteq> []" and idle: "\<not> is_loading st"
    and fresh: "\<forall>m \<in> set (messages st). msg_id m \<noteq> agent_msg_id th"
    and body: "concat cs = line @ [NL]"
    and r: "resp_ok r" "resp_has_body r" "resp_chunks r = map (Pair tc) cs" "resp_end r = None"
  shows "messages (stream_send_message parse t th te message (Fetched r) st) =
           messages st @ [user_message t message, mk_message (agent_msg_id th) (JStr ''agent'') (JStr c)]
         \<and> \<not> is_loading (stream_send_message parse t th te message (Fetched r) st)"
proof -
  let ?aid = "agent_msg_id th"
  have fresh1: "\<forall>m \<in> set (messages st @ [user_message t message]). msg_id m \<noteq> ?aid"
    using fresh agent_msg_id_not_user by (simp add: user_message_def mk_message_def)
  have "stream_body parse th te r
          (st\<lparr>messages := messages st @ [user_message t message], input_value := [],
              is_loading := True\<rparr>) =
        fst (handle_lines (stream_line parse ?aid) tc [line]
          (append_msg (mk_message ?aid (JStr ''agent'') (JStr []))
             (st\<lparr>messages := messages st @ [user_message t message], input_value := [],
                 is_loading := True\<rparr>), JStr []))"
    using stream_body_lines [of "[line]" cs r tc] line body r by simp
  also have "\<dots> = st\<lparr>messages := messages st @ [user_message t message,
                     mk_message ?aid (JStr ''agent'') (JStr c)], input_value := [], is_loading := True\<rparr>"
    using parse line fresh1
    by (simp add: stream_line_def js_nullish_def set_content_def append_msg_def
          update_by_id_last [where pre = "messages st @ [user_message t message]", simplified]
          mk_message_def js_or_def Let_def)
  finally show ?thesis
    using stream_send_body [OF msg idle r(1,2)] by simp
qed

theorem stream_final_response_turn_witness:
  "messages (stream_send_message
      (\<lambda>s. if s = ''F'' then Some (JObj [(''type'', JStr ''final_response''), (''content'', JStr ''Hi there'')])
           else None)
      1 2 3 ''Hello'' (Fetched (demo_response [(2, ''F''), (2, [NL])])) (init_chat_state None 0)) =
   [user_message 1 ''Hello'', mk_message (agent_msg_id 2) (JStr ''agent'') (JStr ''Hi there'')]"
  using stream_final_response_turn
    [where parse = "\<lambda>s. if s = ''F'' then Some (JObj [(''type'', JStr ''final_response''), (''content'', JStr ''Hi there'')])
                       else None"
       and line = "''F''" and c = "''Hi there''" and message = "''Hello''" and st = "init_chat_state None 0"
       and th = 2 and cs = "[''F'', [NL]]" and r = "demo_response [(2, ''F''), (2, [NL])]" and tc = 2
       and t = 1 and te = 3]
  by (simp add: NL_def js_trim_def js_is_ws_def init_chat_state_def demo_response_def)

text \<open>C7: the streaming hook does not keep tool output and the final answer apart
  (scenario 7 of the specification): after a \<open>tool_output\<close> line and a
  \<open>final_response\<close> line there is no agent message; the one message the turn adds
  besides the user's is of type \<open>tool_output\<close> and carries the final text as its
  content.\<close>

theorem stream_tool_output_then_final:
  assumes p1: "parse la = Some (JObj [(''type'', JStr ''tool_output''), (''tool_name'', n), (''output'', out)])"
    and p2: "parse lb = Some (JObj [(''type'', JStr ''final_response''), (''content'', JStr c)])"
    and lines: "NL \<notin> set la" "NL \<notin> set lb" "js_trim la \<noteq> []" "js_trim lb \<noteq> []"
    and msg: "js_trim message \<noteq> []" and idle: "\<not> is_loading st"
    and fresh: "\<forall>m \<in> set (messages st). msg_id m \<noteq> agent_msg_id th"
    and body: "concat cs = la @ [NL] @ lb @ [NL]"
    and r: "resp_ok r" "resp_has_body r" "resp_chunks r = map (Pair tc) cs" "resp_end r = None"
  shows "messages (stream_send_message parse t th te message (Fetched r) st) =
           messages st @ [user_message t message,
             (mk_message (agent_msg_id th) (JStr ''tool_output'') (JStr c))
               \<lparr>msg_tool_name := n, msg_output := out\<rparr>]"
proof -
  let ?aid = "agent_msg_id th"
  let ?s1 = "st\<lparr>messages := messages st @ [user_message t message], input_value := [], is_loading := True\<rparr>"
  have fresh1: "\<forall>m \<in> set (messages st @ [user_message t message]). msg_id m \<noteq> ?aid"
    using fresh agent_msg_id_not_user by (simp add: user_message_def mk_message_def)
  have "stream_body parse th te r ?s1 =
          fst (handle_lines (stream_line parse ?aid) tc [la, lb]
            (?s1\<lparr>messages := (messages st @ [user_message t message]) @
                  [mk_message ?aid (JStr ''agent'') (JStr [])]\<rparr>, JStr []))"
    using stream_body_lines [of "[la, lb]" cs r tc] lines body r(3,4) by (simp add: append_msg_def)
  also have "\<dots> = ?s1\<lparr>messages := (messages st @ [user_message t message]) @
                  [(mk_message ?aid (JStr ''tool_output'') (JStr c))\<lparr>msg_tool_name := n, msg_output := out\<rparr>]\<rparr>"
    using p1 p2 lines fresh1
    by (simp add: stream_line_def js_nullish_def set_content_def Let_def js_or_def
          update_by_id_last [where pre = "messages st @ [user_message t message]", simplified]
          update_by_id_def [of ?aid] update_by_id_fresh mk_message_def)
  finally show ?thesis
    using stream_send_body [OF msg idle r(1,2)] by simp
qed

theorem stream_tool_output_then_final_witness:
  "messages (stream_send_message
      (\<lambda>s. if s = ''A'' then Some (JObj [(''type'', JStr ''tool_output''), (''tool_name'', JStr ''weather-data''),
                                          (''output'', JObj [(''currentTemperature'', JNum 21)])])
           else if s = ''B'' then Some (JObj [(''type'', JStr ''final_response''), (''content'', JStr ''It is 21C'')])
           else None)
      1 2 3 ''Weather?'' (Fetched (demo_response [(2, ''A'' @ [NL] @ ''B'' @ [NL])])) (init_chat_state None 0)) =
   [user_message 1 ''Weather?'',
    (mk_message (agent_msg_id 2) (JStr ''tool_output'') (JStr ''It is 21C''))
      \<lparr>msg_tool_name := JStr ''weather-data'', msg_output := JObj [(''currentTemperature'', JNum 21)]\<rparr>]"
  using stream_tool_output_then_final
    [where parse = "\<lambda>s. if s = ''A'' then Some (JObj [(''type'', JStr ''tool_output''), (''tool_name'', JStr ''weather-data''),
                                          (''output'', JObj [(''currentTemperature'', JNum 21)])])
           else if s = ''B'' then Some (JObj [(''type'', JStr ''final_response''), (''content'', JStr ''It is 21C'')])
           else None"
       and la = "''A''" and lb = "''B''" and n = "JStr ''weather-data''"
       and out = "JObj [(''currentTemperature'', JNum 21)]" and c = "''It is 21C''"
       and message = "''Weather?''" and st = "init_chat_state None 0" and th = 2
       and cs = "[''A'' @ [NL] @ ''B'' @ [NL]]" and r = "demo_response [(2, ''A'' @ [NL] @ ''B'' @ [NL])]"
       and tc = 2 and t = 1 and te = 3]
  by (simp add: NL_def js_trim_def js_is_ws_def init_chat_state_def demo_response_def)

text \<open>C8: tokens accumulate: a body of newline-terminated \<open>token\<close> lines with string
  contents \<open>w\<^sub>1, \<dots>, w\<^sub>n\<close> leaves one agent message whose content is
  \<open>w\<^sub>1 @ \<dots> @ w\<^sub>n\<close>.\<close>

theorem stream_tokens_turn:
  assumes toks: "\<forall>(l, w) \<in> set toks. parse l = Some (JObj [(''type'', JStr ''token''), (''content'', JStr w)])
                   \<and> NL \<notin> set l \<and> js_trim l \<noteq> []"
    and msg: "js_trim message \<noteq> []" and idle: "\<not> is_loading st"
    and fresh: "\<forall>m \<in> set (messages st). msg_id m \<noteq> agent_msg_id th"
    and body: "concat cs = concat (map (\<lambda>l. l @ [NL]) (map fst toks))"
    and r: "resp_ok r" "resp_has_body r" "resp_chunks r = map (Pair tc) cs" "resp_end r = None"
  shows "messages (stream_send_message parse t th te message (Fetched r) st) =
           messages st @ [user_message t message,
                          mk_message (agent_msg_id th) (JStr ''agent'') (JStr (concat (map snd toks)))]"
proof -
  let ?aid = "agent_msg_id th"
  let ?s1 = "st\<lparr>messages := messages st @ [user_message t message], input_value := [], is_loading := True\<rparr>"
  have fresh1: "\<forall>m \<in> set (messages st @ [user_message t message]). msg_id m \<noteq> ?aid"
    using fresh agent_msg_id_not_user by (simp add: user_message_def mk_message_def)
  have lines: "\<forall>l \<in> set (map fst toks). NL \<notin> set l" using toks by auto
  have toks': "\<forall>(l, w) \<in> set toks. parse l = Some (JObj [(''type'', JStr ''token''), (''content'', JStr w)])
                 \<and> js_trim l \<noteq> []"
    using toks by auto
  have "stream_body parse th te r ?s1 =
          fst (handle_lines (stream_line parse ?aid) tc (map fst toks)
            (?s1\<lparr>messages := (messages st @ [user_message t message]) @
                  [mk_message ?aid (JStr ''agent'') (JStr [])]\<rparr>, JStr []))"
    using stream_body_lines [OF lines body r(3,4)] by (simp add: append_msg_def)
  also have "\<dots> = ?s1\<lparr>messages := (messages st @ [user_message t message]) @
                  [mk_message ?aid (JStr ''agent'') (JStr (concat (map snd toks)))]\<rparr>"
    using stream_tokens_handle [OF fresh1 toks', where tc = tc and s = ?s1 and a = "[]"] by simp
  finally show ?thesis
    using stream_send_body [OF msg idle r(1,2)] by simp
qed

theorem stream_tokens_turn_witness:
  "messages (stream_send_message
      (\<lambda>s. if s = ''1'' then Some (JObj [(''type'', JStr ''token''), (''content'', JStr ''Hi'')])
           else if s = ''2'' then Some (JObj [(''type'', JStr ''token''), (''content'', JStr '' there'')])
           else None)
      1 2 3 ''Hello'' (Fetched (demo_response [(2, ''1'' @ [NL] @ ''2''), (2, [NL])])) (init_chat_state None 0)) =
   [user_message 1 ''Hello'', mk_message (agent_msg_id 2) (JStr ''agent'') (JStr ''Hi there'')]"
  using stream_tokens_turn
    [where parse = "\<lambda>s. if s = ''1'' then Some (JObj [(''type'', JStr ''token''), (''content'', JStr ''Hi'')])
           else if s = ''2'' then Some (JObj [(''type'', JStr ''token''), (''content'', JStr '' there'')])
           else None"
       and toks = "[(''1'', ''Hi''), (''2'', '' there'')]"
       and message = "''Hello''" and st = "init_chat_state None 0" and th = 2
       and cs = "[''1'' @ [NL] @ ''2'', [NL]]" and r = "demo_response [(2, ''1'' @ [NL] @ ''2''), (2, [NL])]"
       and tc = 2 and t = 1 and te = 3]
  by (simp add: NL_def js_trim_def js_is_ws_def init_chat_state_def demo_response_def)

text \<open>C9: a last line that does not end in a newline is not handled like the others:
  an unterminated \<open>token\<close> line is dropped, so the agent message stays empty.\<close>

theorem stream_unterminated_token_dropped:
  assumes parse: "parse line = Some (JObj [(''type'', JStr ''token''), (''content'', JStr w)])"
    and line: "NL \<notin> set line" "js_trim line \<noteq> []"
    and msg: "js_trim message \<noteq> []" and idle: "\<not> is_loading st"
    and body: "concat cs = line"
    and r: "resp_ok r" "resp_has_body r" "resp_chunks r = map (Pair tc) cs" "resp_end r = None"
  shows "messages (stream_send_message parse t th te message (Fetched r) st) =
           messages st @ [user_message t message, mk_message (agent_msg_id th) (JStr ''agent'') (JStr [])]"
proof -
  let ?aid = "agent_msg_id th"
  let ?s1 = "st\<lparr>messages := messages st @ [user_message t message], input_value := [], is_loading := True\<rparr>"
  let ?s2 = "append_msg (mk_message ?aid (JStr ''agent'') (JStr [])) ?s1"
  have "read_loop (stream_line parse ?aid) ((?s2, JStr []), []) (resp_chunks r) = ((?s2, JStr []), line)"
    using read_loop_no_newline [of cs] line(1) body r(3) by simp
  then have "stream_body parse th te r ?s1 = ?s2"
    using parse line r(4)
    by (simp add: stream_body_def finish_buffer_def stream_final_def js_nullish_def Let_def)
  then show ?thesis
    using stream_send_body [OF msg idle r(1,2)] by (simp add: append_msg_def)
qed

theorem stream_unterminated_token_dropped_witness:
  "messages (stream_send_message
      (\<lambda>s. if s = ''T'' then Some (JObj [(''type'', JStr ''token''), (''content'', JStr ''Hi'')]) else None)
      1 2 3 ''Hello'' (Fetched (demo_response [(2, ''T'')])) (init_chat_state None 0)) =
   [user_message 1 ''Hello'', mk_message (agent_msg_id 2) (JStr ''agent'') (JStr [])]"
  using stream_unterminated_token_dropped
    [where parse = "\<lambda>s. if s = ''T'' then Some (JObj [(''type'', JStr ''token''), (''content'', JStr ''Hi'')]) else None"
       and line = "''T''" and w = "''Hi''" and message = "''Hello''" and st = "init_chat_state None 0"
       and cs = "[''T'']" and r = "demo_response [(2, ''T'')]" and tc = 2 and t = 1 and th = 2 and te = 3]
  by (simp add: NL_def js_trim_def js_is_ws_def init_chat_state_def demo_response_def)

end
