(* ===== verification/Chat_NoStream.thy ===== *)
theory Chat_NoStream
  imports Chat_Message
begin

text \<open>
  \<open>useChatNoStream\<close> (\<open>src/src/hooks/useChatNoStream.ts\<close>), the variant the chat
  widget uses: every complete non-blank line of the response becomes one new message,
  built from the decoded object (\<open>nostream_new_message\<close>): its id is
  \<open>`${data.type}-${Date.now()}`\<close>, its type is \<open>data.type\<close> (\<open>final_response\<close>
  is renamed \<open>agent\<close>), and the fields of its type are copied. A line that does not
  parse, or parses to \<open>null\<close>, becomes an error message. The buffer left at the end
  is handled by a copy of the same code with one difference: a \<open>tool_output\<close> from
  the tool \<open>context-retriever\<close> keeps none of its tool fields.

  The main results: the messages a turn appends are the user message followed by one
  message per non-blank line of the body, in order, each a function of its line and
  the clock only (\<open>nostream_turn_messages\<close>); so a malformed line costs exactly one
  error message and nothing else.
\<close>

text \<open>Lines 81-96: \<open>newMessage\<close> for a decoded value that is not \<open>null\<close>.\<close>

definition nostream_new_message :: "timestamp \<Rightarrow> jsv \<Rightarrow> chat_message" where
  "nostream_new_message t data =
     (let ty = js_get data ''type'';
          m = mk_message (js_to_string ty @ ''-'' @ nat_str t) ty JUndef
      in if ty = JStr ''final_response'' then
           m\<lparr>msg_content := js_get data ''content'', msg_type := JStr ''agent''\<rparr>
         else if ty = JStr ''tool_output'' then
           m\<lparr>msg_tool_name := js_get data ''tool_name'', msg_tool_args := js_get data ''tool_args'',
             msg_output := js_get data ''output'', msg_tool_call_id := js_get data ''tool_call_id''\<rparr>
         else if ty = JStr ''agent_tool_call'' then
           m\<lparr>msg_tool_calls := js_get data ''tool_calls''\<rparr>
         else if ty = JStr ''error'' then
           m\<lparr>msg_content := JStr (''Error: '' @ js_to_string (js_get data ''content''))\<rparr>
         else m)"

text \<open>Lines 78-104: the message one complete, non-blank line adds.\<close>

definition nostream_line_message :: "json_parser \<Rightarrow> timestamp \<Rightarrow> string \<Rightarrow> chat_message" where
  "nostream_line_message parse t line =
     (case parse line of
        Some data \<Rightarrow>
          if js_nullish data then error_message t (''Failed to parse response: '' @ line)
          else nostream_new_message t data
      | None \<Rightarrow> error_message t (''Failed to parse response: '' @ line))"

definition nostream_line :: "json_parser \<Rightarrow> chat_state \<Rightarrow> timestamp \<Rightarrow> string \<Rightarrow> chat_state" where
  "nostream_line parse st t line = append_msg (nostream_line_message parse t line) st"

text \<open>Lines 112-125: \<open>newMessage\<close> for the final buffer.\<close>

definition nostream_final_new_message :: "timestamp \<Rightarrow> jsv \<Rightarrow> chat_message" where
  "nostream_final_new_message t data =
     (let ty = js_get data ''type'';
          m = mk_message (js_to_string ty @ ''-'' @ nat_str t) ty JUndef
      in if ty = JStr ''final_response'' then
           m\<lparr>msg_content := js_get data ''content'', msg_type := JStr ''agent''\<rparr>
         else if ty = JStr ''tool_output'' \<and> js_get data ''tool_name'' \<noteq> JStr ''context-retriever'' then
           m\<lparr>msg_tool_name := js_get data ''tool_name'', msg_tool_args := js_get data ''tool_args'',
             msg_output := js_get data ''output'', msg_tool_call_id := js_get data ''tool_call_id''\<rparr>
         else if ty = JStr ''agent_tool_call'' then
           m\<lparr>msg_tool_calls := js_get data ''tool_calls''\<rparr>
         else if ty = JStr ''error'' then
           m\<lparr>msg_content := JStr (''Error: '' @ js_to_string (js_get data ''content''))\<rparr>
         else m)"

text \<open>Lines 108-132: the message the non-blank final buffer adds.\<close>

definition nostream_final_message :: "json_parser \<Rightarrow> timestamp \<Rightarrow> string \<Rightarrow> chat_message" where
  "nostream_final_message parse t buf =
     (case parse buf of
        Some data \<Rightarrow>
          if js_nullish data then error_message t (''Failed to parse final response: '' @ buf)
          else nostream_final_new_message t data
      | None \<Rightarrow> error_message t (''Failed to parse final response: '' @ buf))"

text \<open>Lines 57-132: a response with a body; \<open>te\<close> is \<open>Date.now()\<close> at the end.\<close>

definition nostream_body ::
  "json_parser \<Rightarrow> timestamp \<Rightarrow> http_response \<Rightarrow> chat_state \<Rightarrow> chat_state" where
  "nostream_body parse te r st =
     (let (st', buf) = read_loop (nostream_line parse) (st, []) (resp_chunks r)
      in case resp_end r of
           Some msg \<Rightarrow> net_error te msg st'
         | None \<Rightarrow>
             finish_buffer (\<lambda>s b. append_msg (nostream_final_message parse te b) s) st' buf)"

text \<open>Lines 40-140: the request, its error paths and the \<open>finally\<close>.\<close>

definition nostream_finish ::
  "json_parser \<Rightarrow> timestamp \<Rightarrow> fetch_outcome \<Rightarrow> chat_state \<Rightarrow> chat_state" where
  "nostream_finish parse te out st =
     (case out of
        FetchRejected msg \<Rightarrow> net_error te msg st
      | Fetched r \<Rightarrow>
          if \<not> resp_ok r \<or> \<not> resp_has_body r then net_error te (http_error_text r) st
          else nostream_body parse te r st)\<lparr>is_loading := False\<rparr>"

definition nostream_send_message ::
  "json_parser \<Rightarrow> timestamp \<Rightarrow> timestamp \<Rightarrow> string \<Rightarrow> fetch_outcome \<Rightarrow> chat_state \<Rightarrow> chat_state" where
  "nostream_send_message parse t te message out st =
     (case send_start t message st of
        None \<Rightarrow> st
      | Some st1 \<Rightarrow> nostream_finish parse te out st1)"

section \<open>Lemmas\<close>

definition nonblank :: "string \<Rightarrow> bool" where
  "nonblank l \<longleftrightarrow> js_trim l \<noteq> []"

lemma handle_lines_nostream:
  "messages (handle_lines (nostream_line parse) t ls st) =
     messages st @ map (nostream_line_message parse t) (filter nonblank ls)"
  by (induction ls arbitrary: st) (auto simp: nostream_line_def nonblank_def)

lemma handle_lines_nostream_other:
  "is_loading (handle_lines (nostream_line parse) t ls st) = is_loading st"
  by (induction ls arbitrary: st) (auto simp: nostream_line_def)

text \<open>The pieces of the body: the complete lines and the last, unterminated one.\<close>

definition body_lines :: "(timestamp \<times> string) list \<Rightarrow> string list" where
  "body_lines cs = butlast (js_split NL (concat (map snd cs)))"

definition body_rest :: "(timestamp \<times> string) list \<Rightarrow> string" where
  "body_rest cs = last (js_split NL (concat (map snd cs)))"

lemma collect_body:
  "fst (collect [] cs) = body_lines (map (Pair t) cs) \<and> snd (collect [] cs) = body_rest (map (Pair t) cs)"
proof -
  have "fst (collect [] cs) @ [snd (collect [] cs)] = js_split NL (concat cs)"
    using collect_split_gen [of "[]" cs] by simp
  then show ?thesis
    by (simp add: body_lines_def body_rest_def comp_def snoc_eq_iff_butlast)
qed

lemma nostream_body_messages:
  assumes "resp_chunks r = map (Pair tc) cs" and "resp_end r = None"
  shows "messages (nostream_body parse te r st) =
           messages st @ map (nostream_line_message parse tc) (filter nonblank (body_lines (resp_chunks r))) @
           (if nonblank (body_rest (resp_chunks r))
            then [nostream_final_message parse te (body_rest (resp_chunks r))] else [])"
  using assms collect_body [of cs tc]
  by (simp add: nostream_body_def read_loop_collect finish_buffer_def handle_lines_nostream nonblank_def)

lemma nostream_finish_loading [simp]: "is_loading (nostream_finish parse te out st) = False"
  by (simp add: nostream_finish_def)

lemma nostream_send_body:
  assumes "js_trim message \<noteq> []" and "\<not> is_loading st" and "resp_ok r" and "resp_has_body r"
  shows "nostream_send_message parse t te message (Fetched r) st =
           (nostream_body parse te r
              (st\<lparr>messages := messages st @ [user_message t message], input_value := [],
                  is_loading := True\<rparr>))\<lparr>is_loading := False\<rparr>"
  using assms by (simp add: nostream_send_message_def send_start_def nostream_finish_def)

lemma body_of_lines:
  assumes "\<forall>l \<in> set ls. NL \<notin> set l" and "concat cs = concat (map (\<lambda>l. l @ [NL]) ls)"
  shows "body_lines (map (Pair t) cs) = ls \<and> body_rest (map (Pair t) cs) = []"
  using js_split_lines [OF assms(1)] assms(2)
  by (simp add: body_lines_def body_rest_def comp_def)

lemma msg_id_nostream_new_message:
  "msg_id (nostream_new_message t d) = js_to_string (js_get d ''type'') @ ''-'' @ nat_str t"
  by (simp add: nostream_new_message_def Let_def mk_message_def)

lemma nostream_lines_turn:
  assumes lines: "\<forall>l \<in> set ls. NL \<notin> set l \<and> js_trim l \<noteq> []"
    and body: "concat cs = concat (map (\<lambda>l. l @ [NL]) ls)"
    and msg: "js_trim message \<noteq> []" and idle: "\<not> is_loading st"
    and r: "resp_ok r" "resp_has_body r" "resp_chunks r = map (Pair tc) cs" "resp_end r = None"
  shows "messages (nostream_send_message parse t te message (Fetched r) st) =
           messages st @ [user_message t message] @ map (nostream_line_message parse tc) ls"
proof -
  have bl: "body_lines (resp_chunks r) = ls \<and> body_rest (resp_chunks r) = []"
    using body_of_lines [of ls cs tc] lines body r(3) by simp
  have "filter nonblank ls = ls"
    using lines by (simp add: nonblank_def)
  then show ?thesis
    using nostream_send_body [OF msg idle r(1,2)] nostream_body_messages [OF r(3,4)] bl
    by (simp add: nonblank_def js_trim_def)
qed

section \<open>Properties\<close>

text \<open>C10: a successful turn of the widget's hook appends the user message and then
  one message per non-blank complete line of the body, in order, each determined by its
  line and the clock alone, and one more for a non-blank unterminated last line: no line
  is dropped, none is merged, and the result depends on the chunks only through their
  concatenation.\<close>

theorem nostream_turn_messages:
  assumes "js_trim message \<noteq> []" and "\<not> is_loading st" and "resp_ok r" and "resp_has_body r"
    and "resp_chunks r = map (Pair tc) cs" and "resp_end r = None"
  shows "messages (nostream_send_message parse t te message (Fetched r) st) =
           messages st @ [user_message t message] @
           map (nostream_line_message parse tc) (filter nonblank (body_lines (resp_chunks r))) @
           (if nonblank (body_rest (resp_chunks r))
            then [nostream_final_message parse te (body_rest (resp_chunks r))] else [])"
  using nostream_send_body [OF assms(1-4)] nostream_body_messages [OF assms(5,6)] by simp

theorem nostream_turn_messages_witness:
  "messages (nostream_send_message (\<lambda>_. None) 1 3 ''Hi''
      (Fetched (demo_response [(2, ''A'' @ [NL] @ ''x''), (2, ''y'' @ [NL] @ [NL] @ ''B'')]))
      (init_chat_state None 0)) =
   [user_message 1 ''Hi'', nostream_line_message (\<lambda>_. None) 2 ''A'',
    nostream_line_message (\<lambda>_. None) 2 ''xy'', nostream_final_message (\<lambda>_. None) 3 ''B'']"
  using nostream_turn_messages [where parse = "\<lambda>_. None" and t = 1 and te = 3 and message = "''Hi''"
      and r = "demo_response [(2, ''A'' @ [NL] @ ''x''), (2, ''y'' @ [NL] @ [NL] @ ''B'')]"
      and st = "init_chat_state None 0" and tc = 2 and cs = "[''A'' @ [NL] @ ''x'', ''y'' @ [NL] @ [NL] @ ''B'']"]
  by (simp add: NL_def js_trim_def js_is_ws_def init_chat_state_def demo_response_def
        body_lines_def body_rest_def nonblank_def)

text \<open>C11: a line that is not valid JSON costs exactly one error message with the raw
  line, and the lines before and after it are handled as if it were not there.\<close>

theorem nostream_malformed_line_isolated:
  assumes bad: "parse bad = None"
    and lines: "\<forall>l \<in> set (pre @ bad # post). NL \<notin> set l \<and> js_trim l \<noteq> []"
    and body: "concat cs = concat (map (\<lambda>l. l @ [NL]) (pre @ bad # post))"
    and msg: "js_trim message \<noteq> []" and idle: "\<not> is_loading st"
    and r: "resp_ok r" "resp_has_body r" "resp_chunks r = map (Pair tc) cs" "resp_end r = None"
  shows "messages (nostream_send_message parse t te message (Fetched r) st) =
           messages st @ [user_message t message] @ map (nostream_line_message parse tc) pre @
           [error_message tc (''Failed to parse response: '' @ bad)] @
           map (nostream_line_message parse tc) post"
  using nostream_lines_turn [OF lines body msg idle r] bad
  by (simp add: nostream_line_message_def)

theorem nostream_malformed_line_isolated_witness:
  "messages (nostream_send_message
      (\<lambda>s. if s = ''B'' then None else Some (JObj [(''type'', JStr ''error''), (''content'', JStr s)]))
      1 3 ''Hi'' (Fetched (demo_response [(2, ''A'' @ [NL] @ ''B'' @ [NL] @ ''C'' @ [NL])]))
      (init_chat_state None 0)) =
   [user_message 1 ''Hi'',
    nostream_line_message (\<lambda>s. if s = ''B'' then None else Some (JObj [(''type'', JStr ''error''), (''content'', JStr s)])) 2 ''A'',
    error_message 2 (''Failed to parse response: '' @ ''B''),
    nostream_line_message (\<lambda>s. if s = ''B'' then None else Some (JObj [(''type'', JStr ''error''), (''content'', JStr s)])) 2 ''C'']"
  using nostream_malformed_line_isolated
    [where parse = "\<lambda>s. if s = ''B'' then None else Some (JObj [(''type'', JStr ''error''), (''content'', JStr s)])"
       and bad = "''B''" and pre = "[''A'']" and post = "[''C'']"
       and cs = "[''A'' @ [NL] @ ''B'' @ [NL] @ ''C'' @ [NL]]" and message = "''Hi''"
       and st = "init_chat_state None 0" and r = "demo_response [(2, ''A'' @ [NL] @ ''B'' @ [NL] @ ''C'' @ [NL])]"
       and tc = 2 and t = 1 and te = 3]
  by (simp add: NL_def js_trim_def js_is_ws_def init_chat_state_def demo_response_def)

text \<open>Scenario 6 of the specification in the widget's hook: a message answered by
  one newline-terminated \<open>final_response\<close> line with text \<open>c\<close> (any chunking) leaves
  exactly the user message and one agent message with content \<open>c\<close>, and the hook
  idle.\<close>

theorem nostream_final_response_turn:
  assumes parse: "parse line = Some (JObj [(''type'', JStr ''final_response''), (''content'', JStr c)])"
    and line: "NL \<notin> set line" "js_trim line \<noteq> []"
    and body: "concat cs = line @ [NL]"
    and msg: "js_trim message \<noteq> []" and idle: "\<not> is_loading st"
    and r: "resp_ok r" "resp_has_body r" "resp_chunks r = map (Pair tc) cs" "resp_end r = None"
  shows "messages (nostream_send_message parse t te message (Fetched r) st) =
           messages st @ [user_message t message,
                          mk_message (''final_response-'' @ nat_str tc) (JStr ''agent'') (JStr c)]
         \<and> \<not> is_loading (nostream_send_message parse t te message (Fetched r) st)"
proof -
  have "messages (nostream_send_message parse t te message (Fetched r) st) =
          messages st @ [user_message t message] @ map (nostream_line_message parse tc) [line]"
    using nostream_lines_turn [of "[line]" cs message st r tc parse t te] line body msg idle r
    by simp
  then show ?thesis
    using parse nostream_send_body [OF msg idle r(1,2)]
    by (simp add: nostream_line_message_def nostream_new_message_def js_nullish_def Let_def mk_message_def)
qed

theorem nostream_final_response_turn_witness:
  "messages (nostream_send_message
      (\<lambda>s. if s = ''F'' then Some (JObj [(''type'', JStr ''final_response''), (''content'', JStr ''Hi there'')])
           else None)
      1 3 ''Hello'' (Fetched (demo_response [(2, ''F''), (2, [NL])])) (init_chat_state None 0)) =
   [user_message 1 ''Hello'', mk_message (''final_response-'' @ nat_str 2) (JStr ''agent'') (JStr ''Hi there'')]"
  using nostream_final_response_turn
    [where parse = "\<lambda>s. if s = ''F'' then Some (JObj [(''type'', JStr ''final_response''), (''content'', JStr ''Hi there'')])
                       else None"
       and line = "''F''" and c = "''Hi there''" and message = "''Hello''" and st = "init_chat_state None 0"
       and cs = "[''F'', [NL]]" and r = "demo_response [(2, ''F''), (2, [NL])]" and tc = 2 and t = 1 and te = 3]
  by (simp add: NL_def js_trim_def js_is_ws_def init_chat_state_def demo_response_def)

text \<open>C12: scenario 7 of the specification in the widget's hook: a \<open>tool_output\<close>
  line followed by a \<open>final_response\<close> line leaves the user message, a
  \<open>tool_output\<close> message with the tool's name and output, and then an agent message
  with the final text, in that order.\<close>

theorem nostream_tool_output_then_final:
  assumes pa: "parse la = Some (JObj [(''type'', JStr ''tool_output''), (''tool_name'', n), (''output'', out)])"
    and pb: "parse lb = Some (JObj [(''type'', JStr ''final_response''), (''content'', JStr c)])"
    and lines: "NL \<notin> set la" "NL \<notin> set lb" "js_trim la \<noteq> []" "js_trim lb \<noteq> []"
    and body: "concat cs = la @ [NL] @ lb @ [NL]"
    and msg: "js_trim message \<noteq> []" and idle: "\<not> is_loading st"
    and r: "resp_ok r" "resp_has_body r" "resp_chunks r = map (Pair tc) cs" "resp_end r = None"
  shows "messages (nostream_send_message parse t te message (Fetched r) st) =
           messages st @ [user_message t message,
             (mk_message (''tool_output-'' @ nat_str tc) (JStr ''tool_output'') JUndef)
               \<lparr>msg_tool_name := n, msg_output := out\<rparr>,
             mk_message (''final_response-'' @ nat_str tc) (JStr ''agent'') (JStr c)]"
proof -
  have "messages (nostream_send_message parse t te message (Fetched r) st) =
          messages st @ [user_message t message] @ map (nostream_line_message parse tc) [la, lb]"
    using nostream_lines_turn [of "[la, lb]" cs message st r tc parse t te] lines body msg idle r
    by simp
  then show ?thesis
    using pa pb
    by (simp add: nostream_line_message_def nostream_new_message_def js_nullish_def Let_def mk_message_def)
qed

theorem nostream_tool_output_then_final_witness:
  "messages (nostream_send_message
      (\<lambda>s. if s = ''A'' then Some (JObj [(''type'', JStr ''tool_output''), (''tool_name'', JStr ''weather-data''),
                                          (''output'', JObj [(''currentTemperature'', JNum 21)])])
           else if s = ''B'' then Some (JObj [(''type'', JStr ''final_response''), (''content'', JStr ''It is 21C'')])
           else None)
      1 3 ''Weather?'' (Fetched (demo_response [(2, ''A'' @ [NL] @ ''B'' @ [NL])])) (init_chat_state None 0)) =
   [user_message 1 ''Weather?'',
    (mk_message (''tool_output-'' @ nat_str 2) (JStr ''tool_output'') JUndef)
      \<lparr>msg_tool_name := JStr ''weather-data'', msg_output := JObj [(''currentTemperature'', JNum 21)]\<rparr>,
    mk_message (''final_response-'' @ nat_str 2) (JStr ''agent'') (JStr ''It is 21C'')]"
  using nostream_tool_output_then_final
    [where parse = "\<lambda>s. if s = ''A'' then Some (JObj [(''type'', JStr ''tool_output''), (''tool_name'', JStr ''weather-data''),
                                          (''output'', JObj [(''currentTemperature'', JNum 21)])])
           else if s = ''B'' then Some (JObj [(''type'', JStr ''final_response''), (''content'', JStr ''It is 21C'')])
           else None"
       and la = "''A''" and lb = "''B''" and n = "JStr ''weather-data''"
       and out = "JObj [(''currentTemperature'', JNum 21)]" and c = "''It is 21C''"
       and message = "''Weather?''" and st = "init_chat_state None 0"
       and cs = "[''A'' @ [NL] @ ''B'' @ [NL]]" and r = "demo_response [(2, ''A'' @ [NL] @ ''B'' @ [NL])]"
       and tc = 2 and t = 1 and te = 3]
  by (simp add: NL_def js_trim_def js_is_ws_def init_chat_state_def demo_response_def)

text \<open>C13: message ids are not unique: two lines of the same type handled in the same
  millisecond (for instance two lines of one chunk) get the same id
  \<open>`${data.type}-${Date.now()}`\<close>, whatever their other contents.\<close>

theorem nostream_ids_collide:
  assumes "parse la = Some da" and "parse lb = Some db"
    and "\<not> js_nullish da" and "\<not> js_nullish db"
    and "js_get da ''type'' = js_get db ''type''"
  shows "msg_id (nostream_line_message parse t la) = msg_id (nostream_line_message parse t lb)"
  using assms by (simp add: nostream_line_message_def msg_id_nostream_new_message)

theorem nostream_ids_collide_witness:
  "msg_id (nostream_line_message
      (\<lambda>s. Some (JObj [(''type'', JStr ''tool_output''), (''tool_name'', JStr s)])) 2 ''weather-data'') =
   msg_id (nostream_line_message
      (\<lambda>s. Some (JObj [(''type'', JStr ''tool_output''), (''tool_name'', JStr s)])) 2 ''github-profile'') \<and>
   nostream_line_message (\<lambda>s. Some (JObj [(''type'', JStr ''tool_output''), (''tool_name'', JStr s)])) 2 ''weather-data'' \<noteq>
   nostream_line_message (\<lambda>s. Some (JObj [(''type'', JStr ''tool_output''), (''tool_name'', JStr s)])) 2 ''github-profile''"
  using nostream_ids_collide
    [where parse = "\<lambda>s. Some (JObj [(''type'', JStr ''tool_output''), (''tool_name'', JStr s)])"
       and la = "''weather-data''" and lb = "''github-profile''" and t = 2
       and da = "JObj [(''type'', JStr ''tool_output''), (''tool_name'', JStr ''weather-data'')]"
       and db = "JObj [(''type'', JStr ''tool_output''), (''tool_name'', JStr ''github-profile'')]"]
  by (simp add: js_nullish_def nostream_line_message_def nostream_new_message_def Let_def mk_message_def)

text \<open>C14: a line whose \<open>type\<close> is none of the four the hook knows is not turned into
  an error: it becomes a message of that unknown type with no payload.\<close>

theorem nostream_unknown_type_kept:
  assumes "parse l = Some d" and "\<not> js_nullish d"
    and "js_get d ''type'' \<notin> {JStr ''final_response'', JStr ''tool_output'', JStr ''agent_tool_call'', JStr ''error''}"
  shows "nostream_line_message parse t l =
           mk_message (js_to_string (js_get d ''type'') @ ''-'' @ nat_str t) (js_get d ''type'') JUndef"
  using assms by (simp add: nostream_line_message_def nostream_new_message_def Let_def)

theorem nostream_unknown_type_kept_witness:
  "nostream_line_message (\<lambda>s. Some (JObj [(''type'', JStr ''token''), (''content'', JStr s)])) 2 ''Hi'' =
   mk_message (''token-'' @ nat_str 2) (JStr ''token'') JUndef"
  using nostream_unknown_type_kept
    [where parse = "\<lambda>s. Some (JObj [(''type'', JStr ''token''), (''content'', JStr s)])" and l = "''Hi''"
       and d = "JObj [(''type'', JStr ''token''), (''content'', JStr ''Hi'')]" and t = 2]
  by (simp add: js_nullish_def)

text \<open>C15: output of the tool \<open>context-retriever\<close> loses its tool fields only when it
  arrives as the unterminated last line; as a complete line it keeps them.\<close>

theorem nostream_context_retriever_final_only:
  assumes "js_get d ''type'' = JStr ''tool_output''"
    and "js_get d ''tool_name'' = JStr ''context-retriever''"
  shows "nostream_final_new_message t d = mk_message (''tool_output-'' @ nat_str t) (JStr ''tool_output'') JUndef
         \<and> msg_tool_name (nostream_new_message t d) = JStr ''context-retriever''"
  using assms by (simp add: nostream_final_new_message_def nostream_new_message_def Let_def mk_message_def)

theorem nostream_context_retriever_final_only_witness:
  "nostream_final_new_message 2 (JObj [(''type'', JStr ''tool_output''), (''tool_name'', JStr ''context-retriever'')]) =
     mk_message (''tool_output-'' @ nat_str 2) (JStr ''tool_output'') JUndef \<and>
   msg_tool_name (nostream_new_message 2 (JObj [(''type'', JStr ''tool_output''), (''tool_name'', JStr ''context-retriever'')])) =
     JStr ''context-retriever''"
  using nostream_context_retriever_final_only
    [where d = "JObj [(''type'', JStr ''tool_output''), (''tool_name'', JStr ''context-retriever'')]" and t = 2]
  by simp

text \<open>C16: no exit path of the widget's \<open>sendMessage\<close> leaves the hook loading: after
  the call the flag is what it was before.\<close>

theorem nostream_send_loading:
  "is_loading (nostream_send_message parse t te message out st) = is_loading st"
  by (auto simp: nostream_send_message_def send_start_def split: option.splits if_splits)

text \<open>C17: the widget's \<open>sendMessage\<close> does nothing when the message is blank after
  \<open>trim()\<close> or a request is in flight.\<close>

theorem nostream_send_guard:
  assumes "js_trim message = [] \<or> is_loading st"
  shows "nostream_send_message parse t te message out st = st"
  using assms by (simp add: nostream_send_message_def send_start_def)

theorem nostream_send_guard_witness:
  "nostream_send_message (\<lambda>_. None) 1 3 ''Hi'' (FetchRejected ''x'')
     ((init_chat_state None 0)\<lparr>is_loading := True\<rparr>) = (init_chat_state None 0)\<lparr>is_loading := True\<rparr>"
  using nostream_send_guard [of "''Hi''" "(init_chat_state None 0)\<lparr>is_loading := True\<rparr>" "\<lambda>_. None" 1 3
      "FetchRejected ''x''"]
  by simp

end
