(* ===== verification/Rate_Limit.thy ===== *)
theory Rate_Limit
  imports Chat_Prelude
begin

text \<open>
  The message limit of the chat widget (\<open>src/src/components/ChatUI.tsx\<close>): at most
  \<open>MESSAGE_LIMIT = 10\<close> messages per window of \<open>COOLDOWN_PERIOD = 3600000\<close> ms,
  counted per network identity (the public IP, or \<open>'unknown'\<close> when the lookup
  fails) and stored in \<open>localStorage\<close> under \<open>chat-limit-<id>\<close>.

  \<^item> \<open>limiter_state\<close> holds the component's state that takes part: \<open>messageLimit\<close>,
    \<open>networkId\<close>, \<open>timeRemaining\<close>, \<open>showLimitAlert\<close>, and the stored limits (the
    \<open>JSON.stringify\<close>/\<open>JSON.parse\<close> round trip of a \<open>MessageLimit\<close> is the
    identity, so the store holds the records themselves).
  \<^item> \<open>handle_send_message\<close> is \<open>handleSendMessage\<close>; its second result says
    whether it calls \<open>sendMessage\<close>.
  \<^item> \<open>load_limit\<close> is the effect that runs when \<open>networkId\<close> changes,
    \<open>timer_tick\<close> one run of the 1-second interval, \<open>alert_timeout\<close> the 3-second
    timeout that hides the alert, \<open>remount\<close> a page reload (the component's state
    is fresh, the store survives).
  \<^item> \<open>limiter_step\<close> dispatches these events; \<open>limiter_run\<close> runs a list of them.
  \<^item> \<open>format_time_remaining\<close> is \<open>formatTimeRemaining\<close>.
  Times are JavaScript numbers holding integer milliseconds (\<open>int\<close>).
\<close>

type_synonym ms = int

definition MESSAGE_LIMIT :: int where "MESSAGE_LIMIT = 10"

definition COOLDOWN_PERIOD :: int where "COOLDOWN_PERIOD = 60 * 60 * 1000"

record msg_limit =
  ml_count :: int
  ml_timestamp :: ms
  ml_cooldown_end :: ms

record limiter_state =
  message_limit :: "msg_limit option"
  network_id :: jsv
  time_remaining :: ms
  show_limit_alert :: bool
  limit_store :: "string \<Rightarrow> msg_limit option"

text \<open>Lines 22-30: \<open>data.ip\<close> of the lookup's JSON, or \<open>'unknown'\<close> when the request or
  its decoding throws (\<open>None\<close>).\<close>

definition get_network_identifier :: "jsv option \<Rightarrow> jsv" where
  "get_network_identifier lookup =
     (case lookup of None \<Rightarrow> JStr ''unknown'' | Some data \<Rightarrow>
        if js_nullish data then JStr ''unknown'' else js_get data ''ip'')"

definition limit_key :: "limiter_state \<Rightarrow> string" where
  "limit_key st = ''chat-limit-'' @ js_to_string (network_id st)"

text \<open>Lines 46-55: the state of a freshly mounted widget (\<open>networkId = ''\<close>).\<close>

definition limiter_init :: "(string \<Rightarrow> msg_limit option) \<Rightarrow> limiter_state" where
  "limiter_init store =
     \<lparr>message_limit = None, network_id = JStr [], time_remaining = 0,
      show_limit_alert = False, limit_store = store\<rparr>"

text \<open>Lines 73-92: when the network id is known, a stored limit is removed and the state's
  limit cleared, whether its cooldown is still running (lines 79-83) or not (84-89).\<close>

definition load_limit :: "ms \<Rightarrow> limiter_state \<Rightarrow> limiter_state" where
  "load_limit now st =
     (if \<not> js_truthy (network_id st) then st
      else case limit_store st (limit_key st) of
        None \<Rightarrow> st
      | Some l \<Rightarrow>
          if now < ml_cooldown_end l
          then st\<lparr>message_limit := None, limit_store := (limit_store st)(limit_key st := None)\<rparr>
          else st\<lparr>limit_store := (limit_store st)(limit_key st := None), message_limit := None,
                  time_remaining := 0\<rparr>)"

text \<open>Lines 63-70 with the effect above: the lookup resolves and \<open>networkId\<close> is set.\<close>

definition network_resolved :: "ms \<Rightarrow> jsv option \<Rightarrow> limiter_state \<Rightarrow> limiter_state" where
  "network_resolved now lookup st =
     load_limit now (st\<lparr>network_id := get_network_identifier lookup\<rparr>)"

text \<open>Lines 95-110: one tick of the interval that runs while \<open>timeRemaining > 0\<close>.\<close>

definition timer_tick :: "limiter_state \<Rightarrow> limiter_state" where
  "timer_tick st =
     (if 0 < time_remaining st then
        (let nt = time_remaining st - 1000 in
         (if nt \<le> 0 then st\<lparr>message_limit := None, limit_store := (limit_store st)(limit_key st := None)\<rparr>
          else st)\<lparr>time_remaining := nt\<rparr>)
      else st)"

text \<open>Lines 171-214: \<open>handleSendMessage\<close> at \<open>Date.now() = now\<close>.\<close>

definition record_limit :: "ms \<Rightarrow> msg_limit \<Rightarrow> limiter_state \<Rightarrow> limiter_state" where
  \<comment> \<open>lines 201-209: set the cooldown when the limit is reached, save the limit\<close>
  "record_limit now nl st =
     (let full = MESSAGE_LIMIT \<le> ml_count nl;
          nl' = (if full then nl\<lparr>ml_cooldown_end := now + COOLDOWN_PERIOD\<rparr> else nl)
      in st\<lparr>time_remaining := (if full then COOLDOWN_PERIOD else time_remaining st),
            message_limit := Some nl',
            limit_store := (limit_store st)(limit_key st := Some nl')\<rparr>)"

definition handle_send_message :: "ms \<Rightarrow> string \<Rightarrow> limiter_state \<Rightarrow> limiter_state \<times> bool" where
  "handle_send_message now input st =
     (if js_trim input = [] then (st, False)
      else
        (let fresh = \<lparr>ml_count = 1, ml_timestamp = now, ml_cooldown_end = now\<rparr> in
         case message_limit st of
           Some l \<Rightarrow>
             if now - ml_timestamp l < COOLDOWN_PERIOD then
               (if MESSAGE_LIMIT \<le> ml_count l then (st\<lparr>show_limit_alert := True\<rparr>, False)
                else (record_limit now (l\<lparr>ml_count := ml_count l + 1\<rparr>) st, True))
             else (record_limit now fresh st, True)
         | None \<Rightarrow> (record_limit now fresh st, True)))"

definition alert_timeout :: "limiter_state \<Rightarrow> limiter_state" where
  "alert_timeout st = st\<lparr>show_limit_alert := False\<rparr>"

text \<open>A reload: the component mounts again with its initial state; only the store
  survives.\<close>

definition remount :: "limiter_state \<Rightarrow> limiter_state" where
  "remount st = limiter_init (limit_store st)"

datatype limiter_event =
    LSend ms string
  | LTick
  | LAlertTimeout
  | LNetwork ms "jsv option"
  | LRemount

fun limiter_step :: "limiter_state \<Rightarrow> limiter_event \<Rightarrow> limiter_state \<times> bool" where
  "limiter_step st (LSend now input) = handle_send_message now input st"
| "limiter_step st LTick = (timer_tick st, False)"
| "limiter_step st LAlertTimeout = (alert_timeout st, False)"
| "limiter_step st (LNetwork now lookup) = (network_resolved now lookup st, False)"
| "limiter_step st LRemount = (remount st, False)"

fun limiter_run :: "limiter_state \<Rightarrow> limiter_event list \<Rightarrow> limiter_state \<times> bool list" where
  "limiter_run st [] = (st, [])"
| "limiter_run st (e # es) =
     (let (st', sent) = limiter_step st e; (st'', sents) = limiter_run st' es in (st'', sent # sents))"

section \<open>Formatting the cooldown\<close>

text \<open>JavaScript's \<open>%\<close>: the remainder has the sign of the dividend.\<close>

definition js_rem :: "int \<Rightarrow> int \<Rightarrow> int" where
  "js_rem a b = sgn a * (\<bar>a\<bar> mod \<bar>b\<bar>)"

definition pad_start :: "nat \<Rightarrow> char \<Rightarrow> string \<Rightarrow> string" where
  "pad_start n c s = replicate (n - length s) c @ s"

text \<open>Lines 217-221: \<open>Math.floor\<close> of a quotient of integers is \<open>div\<close>.\<close>

definition format_time_remaining :: "ms \<Rightarrow> string" where
  "format_time_remaining ms =
     (let minutes = ms div 60000; seconds = js_rem ms 60000 div 1000
      in int_str minutes @ '':'' @ pad_start 2 (CHR ''0'') (int_str seconds))"

section \<open>Reachable states\<close>

inductive lim_reachable :: "limiter_state \<Rightarrow> bool" where
  start: "lim_reachable (limiter_init store)"
| step: "lim_reachable st \<Longrightarrow> lim_reachable (fst (limiter_step st e))"

definition limit_ok :: "msg_limit \<Rightarrow> bool" where
  "limit_ok l \<longleftrightarrow> 1 \<le> ml_count l \<and> ml_count l \<le> MESSAGE_LIMIT"

definition lim_inv :: "limiter_state \<Rightarrow> bool" where
  "lim_inv st \<longleftrightarrow> (\<forall>l. message_limit st = Some l \<longrightarrow> limit_ok l)"

text \<open>Lines 95-110 run to their end: the interval ticks while \<open>timeRemaining > 0\<close> (the
  effect starts it only then, and each tick re-runs the effect); the result is the state
  when it stops and the number of ticks.\<close>

function cooldown_run :: "limiter_state \<Rightarrow> limiter_state \<times> nat" where
  "cooldown_run st =
     (if 0 < time_remaining st then (let (st', n) = cooldown_run (timer_tick st) in (st', Suc n))
      else (st, 0))"
  by pat_completeness auto

termination
  by (relation "measure (\<lambda>st. nat (time_remaining st))") (auto simp: timer_tick_def Let_def)

declare cooldown_run.simps [simp del]

text \<open>Well-formed limiter states: the countdown is a whole number of seconds within one
  cooldown period.\<close>

definition lim_wf :: "limiter_state \<Rightarrow> bool" where
  "lim_wf st \<longleftrightarrow> 0 \<le> time_remaining st \<and> time_remaining st \<le> COOLDOWN_PERIOD \<and> time_remaining st mod 1000 = 0"

text \<open>The events that do not read \<open>localStorage\<close>: \<open>handleSendMessage\<close>, the interval and
  the alert's timeout.\<close>

fun local_event :: "limiter_event \<Rightarrow> bool" where
  "local_event (LSend now input) = True"
| "local_event LTick = True"
| "local_event LAlertTimeout = True"
| "local_event (LNetwork now lookup) = False"
| "local_event LRemount = False"

text \<open>What the component keeps in React state, apart from \<open>localStorage\<close>.\<close>

definition local_view :: "limiter_state \<Rightarrow> msg_limit option \<times> jsv \<times> ms \<times> bool" where
  "local_view st = (message_limit st, network_id st, time_remaining st, show_limit_alert st)"

section \<open>Lemmas\<close>

lemmas limiter_defs = handle_send_message_def record_limit_def MESSAGE_LIMIT_def COOLDOWN_PERIOD_def

lemma record_limit_message_limit:
  "message_limit (record_limit now nl st) =
     Some (if MESSAGE_LIMIT \<le> ml_count nl then nl\<lparr>ml_cooldown_end := now + COOLDOWN_PERIOD\<rparr> else nl)"
  by (simp add: record_limit_def Let_def)

lemma handle_send_lim_inv:
  assumes "lim_inv st"
  shows "lim_inv (fst (handle_send_message now input st))"
proof -
  have fresh: "limit_ok \<lparr>ml_count = 1, ml_timestamp = now, ml_cooldown_end = now\<rparr>"
    by (simp add: limit_ok_def MESSAGE_LIMIT_def)
  have incr: "limit_ok (l\<lparr>ml_count := ml_count l + 1\<rparr>)"
    if "limit_ok l" and "\<not> MESSAGE_LIMIT \<le> ml_count l" for l
    using that by (simp add: limit_ok_def)
  show ?thesis
    using assms fresh incr
    by (auto simp: lim_inv_def handle_send_message_def record_limit_message_limit limit_ok_def Let_def
             split: option.splits if_splits)
qed

lemma limiter_step_lim_inv:
  assumes "lim_inv st"
  shows "lim_inv (fst (limiter_step st e))"
proof (cases e)
  case (LSend now input)
  then show ?thesis using handle_send_lim_inv [OF assms] by simp
qed (use assms in \<open>auto simp: lim_inv_def timer_tick_def alert_timeout_def network_resolved_def
        load_limit_def remount_def limiter_init_def Let_def split: option.splits\<close>)

lemma js_rem_nonneg: "0 \<le> a \<Longrightarrow> 0 < b \<Longrightarrow> js_rem a b = a mod b"
  by (cases "a = 0") (simp_all add: js_rem_def)

lemma timer_ticks_expire:
  assumes "time_remaining st = 1000 * int (Suc k)"
  shows "(timer_tick ^^ Suc k) st =
           st\<lparr>message_limit := None, limit_store := (limit_store st)(limit_key st := None),
              time_remaining := 0\<rparr>"
  using assms
proof (induction k arbitrary: st)
  case 0
  then show ?case by (simp add: timer_tick_def fun_upd_def)
next
  case (Suc k)
  let ?st' = "st\<lparr>time_remaining := 1000 * int (Suc k)\<rparr>"
  have tick: "timer_tick st = ?st'"
    using Suc.prems by (simp add: timer_tick_def Let_def)
  have "(timer_tick ^^ Suc k) ?st' =
          ?st'\<lparr>message_limit := None, limit_store := (limit_store ?st')(limit_key ?st' := None),
               time_remaining := 0\<rparr>"
    by (rule Suc.IH) simp
  also have "\<dots> = st\<lparr>message_limit := None, limit_store := (limit_store st)(limit_key st := None),
                    time_remaining := 0\<rparr>"
    by (simp add: limit_key_def)
  finally show ?case by (simp only: funpow_Suc_right comp_apply tick)
qed

lemma timer_tick_pos:
  assumes "0 < time_remaining st"
  shows "time_remaining (timer_tick st) = time_remaining st - 1000 \<and>
         network_id (timer_tick st) = network_id st \<and>
         (time_remaining st \<le> 1000 \<longrightarrow> message_limit (timer_tick st) = None \<and>
            limit_store (timer_tick st) (limit_key st) = None)"
  using assms by (simp add: timer_tick_def Let_def limit_key_def)

lemma limit_key_tick [simp]: "limit_key (timer_tick st) = limit_key st"
  by (simp add: timer_tick_def Let_def limit_key_def)

lemma limiter_step_wf:
  assumes "lim_wf st"
  shows "lim_wf (fst (limiter_step st e))"
proof (cases e)
  case (LSend now input)
  then show ?thesis
    using assms by (auto simp: lim_wf_def limiter_defs Let_def split: option.splits)
next
  case LTick
  then show ?thesis
    using assms by (auto simp: lim_wf_def timer_tick_def Let_def)
qed (use assms in \<open>auto simp: lim_wf_def alert_timeout_def network_resolved_def load_limit_def
        remount_def limiter_init_def Let_def split: option.splits\<close>)

text \<open>These events decide from React state alone: two states that differ only in the
  store pass the same messages on and keep the same React state.\<close>

lemma lim_reachable_run:
  "lim_reachable st \<Longrightarrow> lim_reachable (fst (limiter_run st es))"
proof (induction es arbitrary: st)
  case Nil
  then show ?case by simp
next
  case (Cons e es)
  from Cons.IH [OF lim_reachable.step [OF Cons.prems, of e]] show ?case
    by (simp add: split_def Let_def)
qed

lemma limiter_step_local:
  assumes "local_event e" and "local_view st1 = local_view st2"
  shows "local_view (fst (limiter_step st1 e)) = local_view (fst (limiter_step st2 e)) \<and>
         snd (limiter_step st1 e) = snd (limiter_step st2 e)"
  using assms
  by (cases e)
     (auto simp: local_view_def handle_send_message_def record_limit_def timer_tick_def alert_timeout_def
        Let_def split: option.splits)

section \<open>Properties\<close>

text \<open>C18: the specification's scenario 3: from a state with no current limit, ten
  sends in the same millisecond are all passed on to \<open>sendMessage\<close>, the eleventh is
  refused with the limit alert shown, and the cooldown shown is one hour.\<close>

theorem rl_ten_then_reject:
  assumes "js_trim input \<noteq> []" and "message_limit st = None"
  shows "snd (limiter_run st (replicate 11 (LSend t input))) = replicate 10 True @ [False] \<and>
         time_remaining (fst (limiter_run st (replicate 11 (LSend t input)))) = COOLDOWN_PERIOD \<and>
         show_limit_alert (fst (limiter_run st (replicate 11 (LSend t input))))"
  using assms by (simp add: numeral_eq_Suc limiter_defs Let_def)

theorem rl_ten_then_reject_witness:
  "snd (limiter_run (limiter_init Map.empty) (replicate 11 (LSend 1700000000000 ''Hi''))) =
     replicate 10 True @ [False] \<and>
   time_remaining (fst (limiter_run (limiter_init Map.empty) (replicate 11 (LSend 1700000000000 ''Hi'')))) =
     3600000 \<and>
   show_limit_alert (fst (limiter_run (limiter_init Map.empty) (replicate 11 (LSend 1700000000000 ''Hi''))))"
  using rl_ten_then_reject [of "''Hi''" "limiter_init Map.empty" 1700000000000]
  by (simp add: js_trim_def js_is_ws_def limiter_init_def COOLDOWN_PERIOD_def)

text \<open>C19: the specification's scenario 4: once the window of the current limit has run
  out, a send is passed on and the count starts again at 1.\<close>

theorem rl_send_after_window:
  assumes "js_trim input \<noteq> []" and "message_limit st = Some l"
    and "ml_timestamp l + COOLDOWN_PERIOD \<le> now"
  shows "snd (handle_send_message now input st) \<and>
         message_limit (fst (handle_send_message now input st)) =
           Some \<lparr>ml_count = 1, ml_timestamp = now, ml_cooldown_end = now\<rparr>"
  using assms by (simp add: limiter_defs Let_def)

theorem rl_send_after_window_witness:
  "snd (handle_send_message 3600005 ''Hi''
          (fst (limiter_run (limiter_init Map.empty) (replicate 11 (LSend 5 ''Hi''))))) \<and>
   message_limit (fst (handle_send_message 3600005 ''Hi''
          (fst (limiter_run (limiter_init Map.empty) (replicate 11 (LSend 5 ''Hi'')))))) =
     Some \<lparr>ml_count = 1, ml_timestamp = 3600005, ml_cooldown_end = 3600005\<rparr>"
  using rl_send_after_window
    [where input = "''Hi''" and st = "fst (limiter_run (limiter_init Map.empty) (replicate 11 (LSend 5 ''Hi'')))"
       and l = "\<lparr>ml_count = 10, ml_timestamp = 5, ml_cooldown_end = 3600005\<rparr>" and now = 3600005]
  by (simp add: numeral_eq_Suc limiter_defs Let_def js_trim_def js_is_ws_def limiter_init_def)

text \<open>C20: the cooldown timer: from \<open>timeRemaining = 1000 k\<close> with \<open>k > 0\<close>, \<open>k\<close> ticks
  of the interval bring it to 0 and clear the current limit and its stored copy.\<close>

theorem rl_timer_expires:
  assumes "time_remaining st = 1000 * int k" and "0 < k"
  shows "(timer_tick ^^ k) st =
           st\<lparr>message_limit := None, limit_store := (limit_store st)(limit_key st := None),
              time_remaining := 0\<rparr>"
  using assms timer_ticks_expire [of st "k - 1"] by simp

theorem rl_timer_expires_witness:
  "(timer_tick ^^ 3) ((limiter_init Map.empty)\<lparr>time_remaining := 3000\<rparr>) =
     (limiter_init Map.empty)\<lparr>limit_store := (Map.empty)(''chat-limit-'' := None)\<rparr>"
  using rl_timer_expires [of "(limiter_init Map.empty)\<lparr>time_remaining := 3000\<rparr>" 3]
  by (simp add: limiter_init_def limit_key_def)

text \<open>C21: in every state the widget can reach, the current limit counts between 1 and
  \<open>MESSAGE_LIMIT\<close> messages.\<close>

theorem rl_count_bounded:
  assumes "lim_reachable st" and "message_limit st = Some l"
  shows "1 \<le> ml_count l \<and> ml_count l \<le> MESSAGE_LIMIT"
proof -
  from assms(1) have "lim_inv st"
  proof (induction rule: lim_reachable.induct)
    case (start store)
    then show ?case by (simp add: lim_inv_def limiter_init_def)
  next
    case (step st e)
    from step.IH show ?case by (rule limiter_step_lim_inv)
  qed
  with assms(2) show ?thesis by (simp add: lim_inv_def limit_ok_def)
qed

theorem rl_count_bounded_witness:
  "1 \<le> ml_count (the (message_limit (fst (limiter_run (limiter_init Map.empty)
          (LNetwork 0 None # replicate 12 (LSend 5 ''Hi'') @ [LRemount, LNetwork 6 None, LSend 7 ''Hi'']))))) \<and>
   ml_count (the (message_limit (fst (limiter_run (limiter_init Map.empty)
          (LNetwork 0 None # replicate 12 (LSend 5 ''Hi'') @ [LRemount, LNetwork 6 None, LSend 7 ''Hi'']))))) \<le>
     MESSAGE_LIMIT"
proof -
  let ?s = "fst (limiter_run (limiter_init Map.empty)
          (LNetwork 0 None # replicate 12 (LSend 5 ''Hi'') @ [LRemount, LNetwork 6 None, LSend 7 ''Hi'']))"
  have trim: "js_trim ''Hi'' = ''Hi''"
    by (simp add: js_trim_def js_is_ws_def)
  have r: "lim_reachable ?s"
    by (rule lim_reachable_run [OF lim_reachable.start])
  have m: "message_limit ?s = Some (the (message_limit ?s))"
    by (simp add: numeral_eq_Suc limiter_defs network_resolved_def load_limit_def remount_def
        limiter_init_def get_network_identifier_def limit_key_def Let_def trim)
  show ?thesis using rl_count_bounded [OF r m] .
qed



text \<open>C23: a refused send changes nothing but the alert flag: the current limit, the
  stored limits and the cooldown are left as they were, and \<open>sendMessage\<close> is not
  called.\<close>

theorem rl_reject_only_alert:
  assumes res: "handle_send_message now input st = (st', False)" and input: "js_trim input \<noteq> []"
  shows "st' = st\<lparr>show_limit_alert := True\<rparr>"
proof (cases "message_limit st")
  case None
  then have "snd (handle_send_message now input st)"
    using input by (simp add: handle_send_message_def Let_def)
  with res show ?thesis by simp
next
  case (Some l)
  show ?thesis
  proof (cases "now - ml_timestamp l < COOLDOWN_PERIOD \<and> MESSAGE_LIMIT \<le> ml_count l")
    case True
    then have "handle_send_message now input st = (st\<lparr>show_limit_alert := True\<rparr>, False)"
      using Some input by (simp add: handle_send_message_def)
    with res show ?thesis by simp
  next
    case False
    then have "snd (handle_send_message now input st)"
      using Some input by (auto simp: handle_send_message_def Let_def)
    with res show ?thesis by simp
  qed
qed

theorem rl_reject_only_alert_witness:
  "fst (handle_send_message 9 ''Hi'' ((limiter_init Map.empty)\<lparr>message_limit :=
      Some \<lparr>ml_count = 10, ml_timestamp = 5, ml_cooldown_end = 3600005\<rparr>\<rparr>)) =
   (limiter_init Map.empty)\<lparr>message_limit :=
      Some \<lparr>ml_count = 10, ml_timestamp = 5, ml_cooldown_end = 3600005\<rparr>, show_limit_alert := True\<rparr>"
proof -
  let ?st = "(limiter_init Map.empty)\<lparr>message_limit :=
      Some \<lparr>ml_count = 10, ml_timestamp = 5, ml_cooldown_end = 3600005\<rparr>\<rparr>"
  have h: "handle_send_message 9 ''Hi'' ?st = (fst (handle_send_message 9 ''Hi'' ?st), False)"
    by (simp add: limiter_defs Let_def js_trim_def js_is_ws_def limiter_init_def)
  have t: "js_trim ''Hi'' \<noteq> []" by (simp add: js_trim_def js_is_ws_def)
  show ?thesis by (rule rl_reject_only_alert [OF h t])
qed

text \<open>C24: the cooldown display: for a non-negative time, \<open>formatTimeRemaining\<close> shows
  whole minutes and a two-digit seconds field below 60 that together are the time
  rounded down to the second.\<close>

theorem format_time_remaining_bounds:
  assumes "0 \<le> ms"
  shows "\<exists>m s. format_time_remaining ms = int_str m @ '':'' @ pad_start 2 (CHR ''0'') (int_str s) \<and>
               0 \<le> m \<and> 0 \<le> s \<and> s < 60 \<and> m * 60000 + s * 1000 \<le> ms \<and> ms < m * 60000 + s * 1000 + 1000"
proof (intro exI conjI)
  show "format_time_remaining ms =
          int_str (ms div 60000) @ '':'' @ pad_start 2 (CHR ''0'') (int_str (ms mod 60000 div 1000))"
    using assms by (simp add: format_time_remaining_def js_rem_nonneg)
  show "ms mod 60000 div 1000 < 60" by (simp add: Euclidean_Rings.div_less_iff_less_mult)
  show "0 \<le> ms div 60000" using assms by simp
  show "0 \<le> ms mod 60000 div 1000" by simp
  have d1: "ms = ms div 60000 * 60000 + ms mod 60000" by simp
  have d2: "ms mod 60000 = ms mod 60000 div 1000 * 1000 + ms mod 60000 mod 1000" by simp
  have r: "0 \<le> ms mod 60000 mod 1000" "ms mod 60000 mod 1000 < 1000" by simp_all
  show "ms div 60000 * 60000 + ms mod 60000 div 1000 * 1000 \<le> ms" using d1 d2 r by linarith
  show "ms < ms div 60000 * 60000 + ms mod 60000 div 1000 * 1000 + 1000" using d1 d2 r by linarith
qed

theorem format_time_remaining_bounds_witness:
  "\<exists>m s. format_time_remaining 3599000 = int_str m @ '':'' @ pad_start 2 (CHR ''0'') (int_str s) \<and>
         0 \<le> m \<and> 0 \<le> s \<and> s < 60 \<and> m * 60000 + s * 1000 \<le> 3599000 \<and>
         3599000 < m * 60000 + s * 1000 + 1000"
  using format_time_remaining_bounds [of 3599000] by simp

text \<open>C36: the cooldown interval stops: started with \<open>timeRemaining > 0\<close>, it ticks
  \<open>ceil(timeRemaining / 1000)\<close> times, ends with \<open>timeRemaining\<close> in \<open>(-1000, 0]\<close>, and
  has cleared the current limit and its stored copy.\<close>

theorem cooldown_run_stops:
  assumes "0 < time_remaining st"
  shows "- 1000 < time_remaining (fst (cooldown_run st)) \<and> time_remaining (fst (cooldown_run st)) \<le> 0 \<and>
         snd (cooldown_run st) = nat ((time_remaining st + 999) div 1000) \<and>
         message_limit (fst (cooldown_run st)) = None \<and>
         limit_store (fst (cooldown_run st)) (limit_key st) = None"
  using assms
proof (induction st rule: cooldown_run.induct)
  case (1 st)
  let ?st' = "timer_tick st"
  have run: "cooldown_run st = (fst (cooldown_run ?st'), Suc (snd (cooldown_run ?st')))"
    using "1.prems" by (simp add: cooldown_run.simps [of st] split: prod.splits)
  note tick = timer_tick_pos [OF "1.prems"]
  show ?case
  proof (cases "time_remaining st \<le> 1000")
    case True
    then have "cooldown_run ?st' = (?st', 0)"
      using tick by (simp add: cooldown_run.simps [of ?st'])
    then show ?thesis
      using run tick True "1.prems" by auto
  next
    case False
    then have "0 < time_remaining ?st'" using tick by simp
    from "1.IH" [OF "1.prems" this] show ?thesis
      using run tick False by auto
  qed
qed

theorem cooldown_run_stops_witness:
  "- 1000 < time_remaining (fst (cooldown_run ((limiter_init Map.empty)\<lparr>time_remaining := 2500\<rparr>))) \<and>
   time_remaining (fst (cooldown_run ((limiter_init Map.empty)\<lparr>time_remaining := 2500\<rparr>))) \<le> 0 \<and>
   snd (cooldown_run ((limiter_init Map.empty)\<lparr>time_remaining := 2500\<rparr>)) = 3 \<and>
   message_limit (fst (cooldown_run ((limiter_init Map.empty)\<lparr>time_remaining := 2500\<rparr>))) = None \<and>
   limit_store (fst (cooldown_run ((limiter_init Map.empty)\<lparr>time_remaining := 2500\<rparr>))) ''chat-limit-'' = None"
  using cooldown_run_stops [of "(limiter_init Map.empty)\<lparr>time_remaining := 2500\<rparr>"]
  by (simp add: limiter_init_def limit_key_def)

text \<open>C37: in every reachable state of the limiter, \<open>timeRemaining\<close> is a whole number
  of seconds between 0 and the cooldown period, so the countdown ends exactly at 0.\<close>

theorem rl_time_remaining_wf:
  assumes "lim_reachable st"
  shows "0 \<le> time_remaining st \<and> time_remaining st \<le> COOLDOWN_PERIOD \<and> time_remaining st mod 1000 = 0"
proof -
  from assms have "lim_wf st"
  proof (induction rule: lim_reachable.induct)
    case (start store)
    then show ?case by (simp add: lim_wf_def limiter_init_def COOLDOWN_PERIOD_def)
  next
    case (step st e)
    from step.IH show ?case by (rule limiter_step_wf)
  qed
  then show ?thesis by (simp add: lim_wf_def)
qed

theorem rl_time_remaining_wf_witness:
  "0 \<le> time_remaining (fst (limiter_step (limiter_init Map.empty) (LSend 7 ''Hi''))) \<and>
   time_remaining (fst (limiter_step (limiter_init Map.empty) (LSend 7 ''Hi''))) \<le> COOLDOWN_PERIOD \<and>
   time_remaining (fst (limiter_step (limiter_init Map.empty) (LSend 7 ''Hi''))) mod 1000 = 0"
  by (rule rl_time_remaining_wf [OF lim_reachable.step [OF lim_reachable.start]])

end
