(* ===== verification/Chat_UI.thy ===== *)
theory Chat_UI
  imports Chat_NoStream Rate_Limit
begin

text \<open>
  The presentation half of the chat widget \<open>ChatAssistant\<close>
  (\<open>src/src/components/ChatUI.tsx\<close>) and of \<open>ToolOutputDisplay\<close>
  (\<open>src/src/components/ToolOutputDisplay.tsx\<close>):
  \<^item> \<open>ui_state\<close>, the component's own \<open>useState\<close> variables other than those of the
    message limit (modelled in \<open>Rate_Limit\<close>) and those of the hook (\<open>chat_state\<close>);
  \<^item> its handlers and effects as functions on \<open>ui_state\<close>: \<open>toggleChatExpansion\<close>,
    \<open>handleInputFocus\<close>/\<open>handleInputBlur\<close>, \<open>toggleVoiceMode\<close>, the mobile check,
    the outside-click and Escape listeners, the skeleton effect and its timeout;
  \<^item> \<open>getChatContainerStyles\<close>/\<open>getChatBoxStyles\<close>, which return class strings;
  \<^item> the render function, as a function from the three states to a view
    (\<open>chat_view\<close>) that records what the JSX shows: which parts are present, their
    texts, and which controls are disabled. Class names other than the two style
    functions, icons and the Markdown formatting are left out. Rendering throws when
    \<open>msg.toolCalls.map(...)\<close> does, so the view is \<open>Inl\<close> the error message then;
    \<open>Inr None\<close> is \<open>return null\<close>.
\<close>

record ui_state =
  is_component_rendered :: bool
  is_chat_expanded :: bool
  is_input_focused :: bool
  is_voice_mode :: bool
  is_listening :: bool
  is_mobile :: bool
  loading_tool_output_id :: "string option"
  is_skeleton_loading :: bool

text \<open>Lines 46-58: the initial values of the state variables.\<close>

definition init_ui :: ui_state where
  "init_ui =
     \<lparr>is_component_rendered = False, is_chat_expanded = False, is_input_focused = False,
      is_voice_mode = False, is_listening = False, is_mobile = False,
      loading_tool_output_id = None, is_skeleton_loading = False\<rparr>"

section \<open>Effects\<close>

text \<open>Lines 113-121: \<open>checkMobile\<close>, run on mount and on every resize.\<close>

definition check_mobile :: "int \<Rightarrow> ui_state \<Rightarrow> ui_state" where
  "check_mobile inner_width u = u\<lparr>is_mobile := inner_width < 768\<rparr>"

text \<open>Lines 154-157: the mount effect.\<close>

definition component_rendered :: "ui_state \<Rightarrow> ui_state" where
  "component_rendered u = u\<lparr>is_component_rendered := True\<rparr>"

text \<open>Lines 136-146: the latest \<open>tool_output\<close> message gets a 2-second skeleton when
  its id differs from the one shown last; \<open>skeleton_timeout\<close> is the timer's callback.\<close>

definition latest_tool_output :: "chat_message list \<Rightarrow> chat_message option" where
  "latest_tool_output ms = find (\<lambda>m. msg_type m = JStr ''tool_output'') (rev ms)"

definition skeleton_effect :: "chat_message list \<Rightarrow> ui_state \<Rightarrow> ui_state" where
  "skeleton_effect ms u =
     (case latest_tool_output ms of
        Some m \<Rightarrow>
          if Some (msg_id m) \<noteq> loading_tool_output_id u
          then u\<lparr>loading_tool_output_id := Some (msg_id m), is_skeleton_loading := True\<rparr>
          else u
      | None \<Rightarrow> u)"

definition skeleton_timeout :: "ui_state \<Rightarrow> ui_state" where
  "skeleton_timeout u = u\<lparr>is_skeleton_loading := False\<rparr>"

section \<open>Handlers\<close>

text \<open>Lines 234-241. Both setters read the state of the render the handler belongs to.\<close>

definition toggle_chat_expansion :: "ui_state \<Rightarrow> ui_state" where
  "toggle_chat_expansion u =
     u\<lparr>is_chat_expanded := \<not> is_chat_expanded u,
       is_input_focused :=
         (if \<not> is_chat_expanded u \<and> \<not> is_mobile u then True
          else if \<not> is_mobile u then False
          else is_input_focused u)\<rparr>"

definition handle_input_focus :: "ui_state \<Rightarrow> ui_state" where
  "handle_input_focus u = u\<lparr>is_input_focused := True\<rparr>"

definition handle_input_blur :: "ui_state \<Rightarrow> ui_state" where
  "handle_input_blur u =
     (if \<not> is_chat_expanded u \<and> \<not> is_mobile u then u\<lparr>is_input_focused := False\<rparr> else u)"

text \<open>Lines 250-260: voice recognition itself is a TODO of the source.\<close>

definition toggle_voice_mode :: "ui_state \<Rightarrow> ui_state" where
  "toggle_voice_mode u =
     u\<lparr>is_voice_mode := \<not> is_voice_mode u,
       is_listening := (if \<not> is_voice_mode u then True else False)\<rparr>"

text \<open>Lines 286-311: the listeners exist only off mobile. A \<open>mousedown\<close> outside the
  element \<open>#chat-container\<close> (present when the full chat is rendered) collapses an
  expanded chat, and so does the Escape key.\<close>

definition handle_outside_click :: "bool \<Rightarrow> bool \<Rightarrow> ui_state \<Rightarrow> ui_state" where
  "handle_outside_click container_present inside u =
     (if is_mobile u then u
      else if container_present \<and> \<not> inside then
        (if is_chat_expanded u then toggle_chat_expansion u else u)
      else u)"

definition handle_esc_key :: "string \<Rightarrow> ui_state \<Rightarrow> ui_state" where
  "handle_esc_key key u =
     (if is_mobile u then u
      else if key = ''Escape'' \<and> is_chat_expanded u then toggle_chat_expansion u
      else u)"

section \<open>Styles\<close>

text \<open>Lines 263-284.\<close>

definition chat_container_styles :: "ui_state \<Rightarrow> string" where
  "chat_container_styles u =
     (if is_mobile u then
        (if is_chat_expanded u then ''fixed inset-0 z-50 bg-app''
         else ''fixed bottom-4 right-4 z-40 w-16 h-16'')
      else ''fixed bottom-8 left-1/2 -translate-x-1/2 z-40 transition-all duration-300 ease-in-out '' @
           (if is_chat_expanded u then ''w-full max-w-2xl h-[85vh]'' else ''w-full max-w-lg h-auto''))"

definition chat_box_styles :: "ui_state \<Rightarrow> string" where
  "chat_box_styles u =
     (let lit = is_input_focused u \<or> is_chat_expanded u;
          base_opacity = (if lit then ''bg-app'' else ''bg-app/95'');
          base_shadow = (if lit then ''shadow-2xl shadow-glow-purple'' else ''shadow-lg'')
      in if is_mobile u \<and> \<not> is_chat_expanded u
         then base_opacity @ '' '' @ base_shadow @
              '' rounded-full border-2 border-primary/20 hover:border-primary/40 transition-all duration-300''
         else base_opacity @ '' '' @ base_shadow @
              '' rounded-xl border border-border-main transition-all duration-300'')"

section \<open>ToolOutputDisplay\<close>

text \<open>What \<open>ToolOutputDisplay\<close> renders: a card or its skeleton for the three known
  tools, nothing for \<open>github-repo\<close> (the \<open>case\<close> returns \<open>undefined\<close>), and otherwise
  the raw card with the tool name, the arguments and output (shown through
  \<open>JSON.stringify\<close>) and the call id.\<close>

datatype tool_view =
    WeatherCardSkeleton
  | WeatherCard jsv
  | GithubCardSkeleton
  | GithubCard jsv
  | LinkedInCardSkeleton
  | LinkedInCard jsv
  | NoToolView
  | RawToolCard jsv jsv jsv jsv

definition tool_output_display :: "jsv \<Rightarrow> jsv \<Rightarrow> jsv \<Rightarrow> jsv \<Rightarrow> bool \<Rightarrow> tool_view" where
  "tool_output_display tool_name tool_args output tool_call_id loading =
     (if tool_name = JStr ''weather-data'' then
        (if loading then WeatherCardSkeleton else WeatherCard output)
      else if tool_name = JStr ''github-profile'' then
        (if loading then GithubCardSkeleton else GithubCard output)
      else if tool_name = JStr ''linkedin-profile'' then
        (if loading then LinkedInCardSkeleton else LinkedInCard output)
      else if tool_name = JStr ''github-repo'' then NoToolView
      else RawToolCard tool_name tool_args output tool_call_id)"

section \<open>Rendering\<close>

text \<open>One part of a message's row (lines 418-515): the tool output, the user bubble,
  the agent's Markdown, the tool-call notice (whether its dot pulses, its text) and
  the error card. The contents are the values the JSX embeds.\<close>

datatype msg_piece =
    ToolOutputPiece tool_view
  | UserPiece jsv
  | AgentPiece jsv
  | ToolCallPiece bool string
  | ErrorPiece jsv

text \<open>A row: its React key, whether it is right-aligned, its parts in order.\<close>

datatype msg_row = MsgRow (row_key: string) (row_end: bool) (row_pieces: "msg_piece list")

text \<open>Line 487: \<open>msg.toolCalls.map(tc => tc.name).join(', ')\<close>. Only arrays have
  \<open>map\<close>; reading \<open>name\<close> of \<open>null\<close> or \<open>undefined\<close> throws; \<open>join\<close> writes
  \<open>null\<close> and \<open>undefined\<close> as the empty string.\<close>

definition tool_call_names :: "jsv \<Rightarrow> string + string" where
  "tool_call_names tcs =
     (case tcs of
        JArr xs \<Rightarrow>
          map_sum id (js_join '', '')
            (map_except (\<lambda>tc. if js_nullish tc then Inl (js_prop_error tc ''name'')
                              else Inr (js_elem_string (js_get tc ''name''))) xs)
      | _ \<Rightarrow> Inl ''msg.toolCalls.map is not a function'')"

text \<open>Lines 414-517: the row of one message.\<close>

definition render_message :: "ui_state \<Rightarrow> chat_message \<Rightarrow> string + msg_row" where
  "render_message u m =
     (let ty = msg_type m;
          tool = (if ty = JStr ''tool_output'' \<and> js_truthy (msg_tool_name m) \<and> js_truthy (msg_output m)
                  then [ToolOutputPiece
                          (tool_output_display (msg_tool_name m) (msg_tool_args m) (msg_output m)
                             (js_or (msg_tool_call_id m) (JStr []))
                             (loading_tool_output_id u = Some (msg_id m) \<and> is_skeleton_loading u))]
                  else []);
          user = (if ty = JStr ''user'' then [UserPiece (msg_content m)] else []);
          agent = (if ty = JStr ''agent'' then [AgentPiece (msg_content m)] else []);
          err = (if ty = JStr ''error'' then [ErrorPiece (msg_content m)] else []);
          row = MsgRow (msg_id m) (ty = JStr ''user'')
      in if ty = JStr ''agent_tool_call'' \<and> js_truthy (msg_tool_calls m) then
           map_sum id
             (\<lambda>names. row (tool @ user @ agent @
                 [ToolCallPiece (\<not> is_component_rendered u)
                    ((if is_component_rendered u then ''Used'' else ''Using'') @ '' '' @ names @ ''...'')] @
                 err))
             (tool_call_names (msg_tool_calls m))
         else Inr (row (tool @ user @ agent @ err)))"

text \<open>Lines 391-544: the welcome card when there are no messages, the rows, and the
  typing indicator while loading.\<close>

datatype body_view =
  BodyView (body_welcome: bool) (body_rows: "msg_row list") (body_typing: bool)

definition render_body :: "ui_state \<Rightarrow> chat_state \<Rightarrow> string + body_view" where
  "render_body u hs =
     map_sum id (\<lambda>rs. BodyView (messages hs = []) rs (is_loading hs))
       (map_except (render_message u) (messages hs))"

text \<open>Lines 349-388: the status line, the voice badge, the close button's tooltip.\<close>

datatype header_view =
  HeaderView (header_status: string) (header_voice_badge: "string option") (header_close: string)

definition render_header :: "ui_state \<Rightarrow> chat_state \<Rightarrow> header_view" where
  "render_header u hs =
     HeaderView (if is_loading hs then ''Typing...'' else ''Online'')
       (if is_voice_mode u then Some (if is_listening u then ''Listening...'' else ''Voice Mode'') else None)
       (if is_mobile u then ''Minimize'' else ''Close'')"

text \<open>Lines 546-690: the input section.\<close>

record input_view =
  limit_alert :: "string option"
  expand_button :: bool
  placeholder :: string
  input_shown :: string
  input_disabled :: bool
  voice_badge :: bool
  mic_variant :: string
  mic_off_icon :: bool
  mic_tooltip :: string
  send_disabled :: bool
  collapse_button :: bool
  limit_counter :: "(string \<times> string option) option"

definition input_placeholder :: "ui_state \<Rightarrow> chat_state \<Rightarrow> limiter_state \<Rightarrow> string" where
  "input_placeholder u hs ls =
     (if 0 < time_remaining ls then
        ''Please wait '' @ format_time_remaining (time_remaining ls) @ '' before sending more messages''
      else if is_listening u then ''Listening...''
      else if is_loading hs then ''Steve is thinking...''
      else ''Ask Steve anything...'')"

definition render_input :: "ui_state \<Rightarrow> chat_state \<Rightarrow> limiter_state \<Rightarrow> input_view" where
  "render_input u hs ls =
     \<lparr>limit_alert =
        (if show_limit_alert ls
         then Some (''Message limit reached. Please wait '' @ format_time_remaining (time_remaining ls) @
                    '' before sending more messages.'')
         else None),
      expand_button = (\<not> is_mobile u \<and> \<not> is_chat_expanded u \<and> messages hs \<noteq> []),
      placeholder = input_placeholder u hs ls,
      input_shown = input_value hs,
      input_disabled = (is_loading hs \<or> is_listening u \<or> 0 < time_remaining ls),
      voice_badge = is_voice_mode u,
      mic_variant = (if is_voice_mode u then ''default'' else ''outline''),
      mic_off_icon = is_listening u,
      mic_tooltip = (if is_voice_mode u then ''Disable voice mode'' else ''Enable voice mode''),
      send_disabled =
        (js_trim (input_value hs) = [] \<or> is_loading hs \<or> is_listening u \<or> 0 < time_remaining ls),
      collapse_button = (\<not> is_mobile u \<and> is_chat_expanded u),
      limit_counter =
        (case message_limit ls of
           None \<Rightarrow> None
         | Some l \<Rightarrow>
             Some (''Messages: '' @ int_str (ml_count l) @ ''/'' @ int_str MESSAGE_LIMIT,
                   if 0 < time_remaining ls
                   then Some (''Cooldown: '' @ format_time_remaining (time_remaining ls)) else None))\<rparr>"

text \<open>Lines 313-694: \<open>null\<close> when hidden, the round button with the number of agent
  messages on mobile while collapsed, otherwise the card: header and messages only when
  expanded, the input section always.\<close>

datatype chat_view =
    MobileBubble string string "nat option"
  | FullChat string string "header_view option" "body_view option" input_view

definition agent_count :: "chat_message list \<Rightarrow> nat" where
  "agent_count ms = length (filter (\<lambda>m. msg_type m = JStr ''agent'') ms)"

definition render_chat ::
  "bool \<Rightarrow> ui_state \<Rightarrow> chat_state \<Rightarrow> limiter_state \<Rightarrow> string + chat_view option" where
  "render_chat is_visible u hs ls =
     (if \<not> is_visible then Inr None
      else if is_mobile u \<and> \<not> is_chat_expanded u then
        Inr (Some (MobileBubble (chat_container_styles u) (chat_box_styles u)
                     (if messages hs \<noteq> [] then Some (agent_count (messages hs)) else None)))
      else if is_chat_expanded u then
        map_sum id
          (\<lambda>b. Some (FullChat (chat_container_styles u) (chat_box_styles u)
                       (Some (render_header u hs)) (Some b) (render_input u hs ls)))
          (render_body u hs)
      else Inr (Some (FullChat (chat_container_styles u) (chat_box_styles u) None None
                        (render_input u hs ls))))"

text \<open>A conversation the scenarios below render: a question, a tool output and the answer.\<close>

definition demo_messages :: "chat_message list" where
  "demo_messages =
     [mk_message ''user-1'' (JStr ''user'') (JStr ''weather?''),
      (mk_message ''tool_output-2'' (JStr ''tool_output'') JUndef)
         \<lparr>msg_tool_name := JStr ''weather-data'', msg_output := JObj [(''city'', JStr ''Manila'')]\<rparr>,
      mk_message ''agent-3'' (JStr ''agent'') (JStr ''Sunny'')]"

section \<open>Lemmas\<close>

lemma render_message_row:
  "render_message u m = Inr r \<Longrightarrow> row_key r = msg_id m \<and> row_end r = (msg_type m = JStr ''user'')"
  by (auto simp: render_message_def Let_def split: if_splits sum.splits)

lemma tool_call_names_not_array:
  "(\<forall>xs. tcs \<noteq> JArr xs) \<Longrightarrow> tool_call_names tcs = Inl ''msg.toolCalls.map is not a function''"
  by (cases tcs) (auto simp: tool_call_names_def)

lemma render_message_crash:
  assumes "msg_type m = JStr ''agent_tool_call''" and "js_truthy (msg_tool_calls m)"
    and "\<forall>xs. msg_tool_calls m \<noteq> JArr xs"
  shows "render_message u m = Inl ''msg.toolCalls.map is not a function''"
  using assms by (simp add: render_message_def tool_call_names_not_array Let_def)

text \<open>C30: when every message renders, the message list shows one row per message, in
  order, keyed by the message id, right-aligned exactly for the user's messages; the
  welcome card shows exactly when there are no messages and the typing indicator exactly
  while a request is pending.\<close>

theorem render_body_rows:
  assumes "\<forall>m \<in> set (messages hs). \<not> isl (render_message u m)"
  shows "\<exists>b. render_body u hs = Inr b \<and> map row_key (body_rows b) = map msg_id (messages hs) \<and>
             map row_end (body_rows b) = map (\<lambda>m. msg_type m = JStr ''user'') (messages hs) \<and>
             body_welcome b = (messages hs = []) \<and> body_typing b = is_loading hs"
proof -
  obtain rs where rs: "map_except (render_message u) (messages hs) = Inr rs"
    using map_except_not_Inl [OF assms] by blast
  have "list_all2 (\<lambda>m r. render_message u m = Inr r) (messages hs) rs"
    by (rule map_except_Inr_map [OF rs])
  then have "map row_key rs = map msg_id (messages hs) \<and>
             map row_end rs = map (\<lambda>m. msg_type m = JStr ''user'') (messages hs)"
    by (induction rule: list_all2_induct) (auto dest: render_message_row)
  then show ?thesis by (simp add: render_body_def rs)
qed

theorem render_body_rows_witness:
  "\<exists>b. render_body init_ui (init_chat_state None 0\<lparr>messages := demo_messages\<rparr>) = Inr b \<and>
       map row_key (body_rows b) = [''user-1'', ''tool_output-2'', ''agent-3''] \<and>
       map row_end (body_rows b) = [True, False, False] \<and>
       body_welcome b = False \<and> body_typing b = False"
  using render_body_rows [of "init_chat_state None 0\<lparr>messages := demo_messages\<rparr>" init_ui]
  by (simp add: demo_messages_def render_message_def mk_message_def init_chat_state_def Let_def)

text \<open>C31: rendering throws, and the widget disappears, as soon as one message of an
  expanded chat is an \<open>agent_tool_call\<close> whose \<open>toolCalls\<close> is truthy but not an
  array: \<open>useChatNoStream\<close> copies \<open>tool_calls\<close> from the server unchecked.\<close>

theorem render_chat_crash:
  assumes "m \<in> set (messages hs)" and "msg_type m = JStr ''agent_tool_call''"
    and "js_truthy (msg_tool_calls m)" and "\<forall>xs. msg_tool_calls m \<noteq> JArr xs"
    and "is_chat_expanded u"
  shows "\<exists>e. render_chat True u hs ls = Inl e"
proof -
  have "isl (map_except (render_message u) (messages hs))"
    by (rule map_except_isl [OF assms(1)]) (simp add: render_message_crash [OF assms(2-4)])
  then show ?thesis
    using assms(5) by (auto simp: render_chat_def render_body_def isl_def)
qed

theorem render_chat_crash_witness:
  "\<exists>e. render_chat True (init_ui\<lparr>is_chat_expanded := True\<rparr>)
         (init_chat_state None 0\<lparr>messages :=
            [nostream_line_message
               (\<lambda>_. Some (JObj [(''type'', JStr ''agent_tool_call''), (''tool_calls'', JStr ''search'')]))
               7 ''{...}'']\<rparr>)
         (limiter_init (\<lambda>_. None)) = Inl e"
  by (rule render_chat_crash [where m = "nostream_line_message
               (\<lambda>_. Some (JObj [(''type'', JStr ''agent_tool_call''), (''tool_calls'', JStr ''search'')]))
               7 ''{...}''"])
     (simp_all add: nostream_line_message_def nostream_new_message_def js_nullish_def mk_message_def
        init_chat_state_def Let_def)

text \<open>After the skeleton effect has seen a new latest tool output, a tool-output
  row shows the skeleton exactly when its id is that message's id.\<close>

theorem skeleton_marks_latest:
  assumes "latest_tool_output ms = Some m" and "Some (msg_id m) \<noteq> loading_tool_output_id u"
    and "msg_type m' = JStr ''tool_output''" and "js_truthy (msg_tool_name m')"
    and "js_truthy (msg_output m')"
  shows "render_message (skeleton_effect ms u) m' =
           Inr (MsgRow (msg_id m') False
                 [ToolOutputPiece (tool_output_display (msg_tool_name m') (msg_tool_args m')
                    (msg_output m') (js_or (msg_tool_call_id m') (JStr [])) (msg_id m = msg_id m'))])"
  using assms by (auto simp: render_message_def skeleton_effect_def Let_def)

theorem skeleton_marks_latest_witness:
  "render_message (skeleton_effect (demo_messages @ [(demo_messages ! 1)\<lparr>msg_id := ''tool_output-9''\<rparr>]) init_ui)
     (demo_messages ! 1) =
   Inr (MsgRow ''tool_output-2'' False [ToolOutputPiece (WeatherCard (JObj [(''city'', JStr ''Manila'')]))])"
  using skeleton_marks_latest
    [of "demo_messages @ [(demo_messages ! 1)\<lparr>msg_id := ''tool_output-9''\<rparr>]"
        "(demo_messages ! 1)\<lparr>msg_id := ''tool_output-9''\<rparr>" init_ui "demo_messages ! 1"]
  by (simp add: demo_messages_def latest_tool_output_def init_ui_def mk_message_def tool_output_display_def)

text \<open>On a phone, the collapsed widget is the round button, with a badge counting
  the agent's messages once there is any message at all.\<close>

theorem render_mobile_bubble:
  assumes "is_mobile u" and "\<not> is_chat_expanded u"
  shows "render_chat True u hs ls =
           Inr (Some (MobileBubble ''fixed bottom-4 right-4 z-40 w-16 h-16'' (chat_box_styles u)
              (if messages hs = [] then None
               else Some (length (filter (\<lambda>m. msg_type m = JStr ''agent'') (messages hs))))))"
  using assms by (simp add: render_chat_def chat_container_styles_def agent_count_def)

theorem render_mobile_bubble_witness:
  "render_chat True (init_ui\<lparr>is_mobile := True\<rparr>) (init_chat_state None 0\<lparr>messages := demo_messages\<rparr>)
     (limiter_init (\<lambda>_. None)) =
   Inr (Some (MobileBubble ''fixed bottom-4 right-4 z-40 w-16 h-16''
                 ''bg-app/95 shadow-lg rounded-full border-2 border-primary/20 hover:border-primary/40 transition-all duration-300''
                 (Some 1)))"
  using render_mobile_bubble [of "init_ui\<lparr>is_mobile := True\<rparr>" "init_chat_state None 0\<lparr>messages := demo_messages\<rparr>"]
  by (simp add: init_ui_def chat_box_styles_def demo_messages_def mk_message_def init_chat_state_def)

text \<open>Toggling the chat twice restores it; on a desktop the input's focus flag then
  equals the expansion flag (each toggle sets it to the new expansion).\<close>

theorem toggle_chat_expansion_twice:
  "toggle_chat_expansion (toggle_chat_expansion u) =
     (if is_mobile u then u else u\<lparr>is_input_focused := is_chat_expanded u\<rparr>)"
  by (simp add: toggle_chat_expansion_def)

text \<open>On a desktop, Escape and a click outside the chat collapse an expanded chat
  and drop the focus flag; a click inside changes nothing.\<close>

theorem desktop_dismiss:
  assumes "\<not> is_mobile u" and "is_chat_expanded u"
  shows "handle_esc_key ''Escape'' u = u\<lparr>is_chat_expanded := False, is_input_focused := False\<rparr> \<and>
         handle_outside_click True False u = u\<lparr>is_chat_expanded := False, is_input_focused := False\<rparr> \<and>
         handle_outside_click True True u = u"
  using assms by (simp add: handle_esc_key_def handle_outside_click_def toggle_chat_expansion_def)

theorem desktop_dismiss_witness:
  "handle_esc_key ''Escape'' (init_ui\<lparr>is_chat_expanded := True\<rparr>) = init_ui \<and>
   handle_outside_click True False (init_ui\<lparr>is_chat_expanded := True\<rparr>) = init_ui \<and>
   handle_outside_click True True (init_ui\<lparr>is_chat_expanded := True\<rparr>) = init_ui\<lparr>is_chat_expanded := True\<rparr>"
  using desktop_dismiss [of "init_ui\<lparr>is_chat_expanded := True\<rparr>"] by (simp add: init_ui_def)

end
