(* ===== verification/Chat_Widget.thy ===== *)
theory Chat_Widget
  imports Chat_UI
begin

text \<open>
  The whole chat widget \<open>ChatAssistant\<close> (\<open>src/src/components/ChatUI.tsx\<close>) as a
  state machine over the three states it combines: its own UI state (\<open>Chat_UI\<close>), the
  state of \<open>useChatNoStream\<close> (\<open>Chat_NoStream\<close>) and the message limit
  (\<open>Rate_Limit\<close>). One \<open>widget_event\<close> is one DOM event, timer or network
  completion; \<open>widget_step\<close> is \<open>None\<close> when the event cannot happen in the state,
  because its control is not rendered or is disabled (a disabled input receives no
  keys), or because no request or interval is pending.

  \<open>sendMessage\<close> is asynchronous: \<open>WSendClick\<close> and the Enter key run
  \<open>handleSendMessage\<close>, which (when the limit allows) runs the synchronous start of
  \<open>sendMessage\<close> (\<open>send_start\<close>); the request then completes in a later event
  \<open>WResponse\<close>, which runs the rest of the hook (\<open>nostream_finish\<close>). The hook's
  \<open>isLoading\<close> flag says that a request is pending. After an event that changes the
  messages, the skeleton effect (which depends on \<open>messages\<close>) runs.
\<close>

record widget =
  w_visible :: bool
  w_ui :: ui_state
  w_hook :: chat_state
  w_lim :: limiter_state

text \<open>Mounting: the state's initial values, then the mount effects (lines 113-121,
  154-157); the network lookup resolves later (\<open>WNetwork\<close>).\<close>

definition init_widget ::
  "bool \<Rightarrow> string option \<Rightarrow> timestamp \<Rightarrow> (string \<Rightarrow> msg_limit option) \<Rightarrow> int \<Rightarrow> widget" where
  "init_widget visible stored t store inner_width =
     \<lparr>w_visible = visible, w_ui = check_mobile inner_width (component_rendered init_ui),
      w_hook = init_chat_state stored t, w_lim = limiter_init store\<rparr>"

datatype widget_event =
    WType string
  | WFocus
  | WBlur
  | WKeyDown string timestamp
  | WSendClick timestamp
  | WToggle
  | WVoice
  | WMouseDown bool
  | WDocKey string
  | WResize int
  | WResponse timestamp fetch_outcome
  | WSkeletonTimeout
  | WTick
  | WAlertTimeout
  | WNetwork timestamp "jsv option"

section \<open>What the view offers\<close>

text \<open>The full card (not the mobile bubble) is on screen, and the input and the send
  button are enabled (lines 604 and 645, through \<open>render_input\<close>).\<close>

definition full_shown :: "widget \<Rightarrow> bool" where
  "full_shown w \<longleftrightarrow> w_visible w \<and> \<not> (is_mobile (w_ui w) \<and> \<not> is_chat_expanded (w_ui w))"

definition input_enabled :: "widget \<Rightarrow> bool" where
  "input_enabled w \<longleftrightarrow>
     full_shown w \<and> \<not> input_disabled (render_input (w_ui w) (w_hook w) (w_lim w))"

definition send_enabled :: "widget \<Rightarrow> bool" where
  "send_enabled w \<longleftrightarrow>
     full_shown w \<and> \<not> send_disabled (render_input (w_ui w) (w_hook w) (w_lim w))"

text \<open>One of the four buttons that call \<open>toggleChatExpansion\<close> is on screen: the
  mobile bubble (line 323), the header's close button (375), the desktop expand button
  (562-580, only with messages) or the desktop collapse button (657-675).\<close>

definition toggle_shown :: "widget \<Rightarrow> bool" where
  "toggle_shown w \<longleftrightarrow>
     w_visible w \<and> (is_mobile (w_ui w) \<or> is_chat_expanded (w_ui w) \<or> messages (w_hook w) \<noteq> [])"

section \<open>Handlers that span the components\<close>

text \<open>Lines 171-214 with line 212: \<open>handleSendMessage\<close> updates the limit and, when it
  allows the message, calls \<open>sendMessage(inputValue)\<close>, whose synchronous part is
  \<open>send_start\<close> (\<open>Date.now()\<close> is the same instant for both).\<close>

definition widget_send :: "timestamp \<Rightarrow> widget \<Rightarrow> widget" where
  "widget_send t w =
     (let (lim', go) = handle_send_message (int t) (input_value (w_hook w)) (w_lim w);
          hook' = (if go then
                     (case send_start t (input_value (w_hook w)) (w_hook w) of
                        None \<Rightarrow> w_hook w
                      | Some h \<Rightarrow> h)
                   else w_hook w)
      in w\<lparr>w_lim := lim', w_hook := hook'\<rparr>)"

text \<open>Lines 223-232: \<open>handleEnterPress\<close>.\<close>

definition handle_enter_press :: "string \<Rightarrow> timestamp \<Rightarrow> widget \<Rightarrow> widget" where
  "handle_enter_press key t w =
     (if key = ''Enter'' \<and> js_trim (input_value (w_hook w)) \<noteq> [] then
        widget_send t
          (if \<not> is_chat_expanded (w_ui w) \<and> \<not> is_mobile (w_ui w)
           then w\<lparr>w_ui := (w_ui w)\<lparr>is_chat_expanded := True\<rparr>\<rparr> else w)
      else w)"

text \<open>The effect on \<open>messages\<close> (lines 136-146), after a render that changed them.\<close>

definition settle :: "widget \<Rightarrow> widget" where
  "settle w = w\<lparr>w_ui := skeleton_effect (messages (w_hook w)) (w_ui w)\<rparr>"

definition widget_step :: "json_parser \<Rightarrow> widget \<Rightarrow> widget_event \<Rightarrow> widget option" where
  "widget_step parse w e =
     (case e of
        WType s \<Rightarrow>
          if input_enabled w then Some (w\<lparr>w_hook := (w_hook w)\<lparr>input_value := s\<rparr>\<rparr>) else None
      | WFocus \<Rightarrow>
          if input_enabled w then Some (w\<lparr>w_ui := handle_input_focus (w_ui w)\<rparr>) else None
      | WBlur \<Rightarrow>
          if full_shown w then Some (w\<lparr>w_ui := handle_input_blur (w_ui w)\<rparr>) else None
      | WKeyDown key t \<Rightarrow>
          if input_enabled w
          then Some (settle (let w' = handle_enter_press key t w
                             in w'\<lparr>w_ui := handle_esc_key key (w_ui w')\<rparr>))
          else None
      | WSendClick t \<Rightarrow>
          if send_enabled w then Some (settle (widget_send t w)) else None
      | WToggle \<Rightarrow>
          if toggle_shown w then Some (w\<lparr>w_ui := toggle_chat_expansion (w_ui w)\<rparr>) else None
      | WVoice \<Rightarrow>
          if full_shown w then Some (w\<lparr>w_ui := toggle_voice_mode (w_ui w)\<rparr>) else None
      | WMouseDown inside \<Rightarrow>
          Some (w\<lparr>w_ui := handle_outside_click (full_shown w) inside (w_ui w)\<rparr>)
      | WDocKey key \<Rightarrow> Some (w\<lparr>w_ui := handle_esc_key key (w_ui w)\<rparr>)
      | WResize width \<Rightarrow> Some (w\<lparr>w_ui := check_mobile width (w_ui w)\<rparr>)
      | WResponse te out \<Rightarrow>
          if is_loading (w_hook w)
          then Some (settle (w\<lparr>w_hook := nostream_finish parse te out (w_hook w)\<rparr>))
          else None
      | WSkeletonTimeout \<Rightarrow> Some (w\<lparr>w_ui := skeleton_timeout (w_ui w)\<rparr>)
      | WTick \<Rightarrow>
          if 0 < time_remaining (w_lim w) then Some (w\<lparr>w_lim := timer_tick (w_lim w)\<rparr>) else None
      | WAlertTimeout \<Rightarrow> Some (w\<lparr>w_lim := alert_timeout (w_lim w)\<rparr>)
      | WNetwork now lookup \<Rightarrow>
          Some (w\<lparr>w_lim := network_resolved (int now) lookup (w_lim w)\<rparr>))"

fun widget_run :: "json_parser \<Rightarrow> widget \<Rightarrow> widget_event list \<Rightarrow> widget option" where
  "widget_run parse w [] = Some w"
| "widget_run parse w (e # es) =
     (case widget_step parse w e of None \<Rightarrow> None | Some w' \<Rightarrow> widget_run parse w' es)"

inductive widget_reach :: "json_parser \<Rightarrow> widget \<Rightarrow> bool" for parse where
  start: "widget_reach parse (init_widget visible stored t store inner_width)"
| step: "widget_reach parse w \<Longrightarrow> widget_step parse w e = Some w' \<Longrightarrow> widget_reach parse w'"

definition user_count :: "chat_message list \<Rightarrow> nat" where
  "user_count ms = length (filter (\<lambda>m. msg_type m = JStr ''user'') ms)"

text \<open>The scenarios below start from a visible widget on a 1024-pixel-wide screen, with an
  empty store, and a server whose lines never parse.\<close>

definition demo_widget :: widget where
  "demo_widget = init_widget True None 0 (\<lambda>_. None) 1024"

definition no_parse :: json_parser where
  "no_parse s = None"

text \<open>The number of messages the limit counts, and the invariant that relates it to
  the conversation.\<close>

definition lim_count :: "limiter_state \<Rightarrow> int" where
  "lim_count ls = (case message_limit ls of None \<Rightarrow> 0 | Some l \<Rightarrow> ml_count l)"

definition count_inv :: "widget \<Rightarrow> bool" where
  "count_inv w \<longleftrightarrow> 0 \<le> lim_count (w_lim w) \<and> lim_count (w_lim w) \<le> int (user_count (messages (w_hook w)))"

section \<open>Lemmas\<close>

lemma settle_simps [simp]:
  "w_hook (settle w) = w_hook w" "w_lim (settle w) = w_lim w" "w_visible (settle w) = w_visible w"
  "is_chat_expanded (w_ui (settle w)) = is_chat_expanded (w_ui w)"
  "is_voice_mode (w_ui (settle w)) = is_voice_mode (w_ui w)"
  "is_listening (w_ui (settle w)) = is_listening (w_ui w)"
  by (simp_all add: settle_def skeleton_effect_def split: option.splits)

lemma widget_send_ui [simp]: "w_ui (widget_send t w) = w_ui w" "w_visible (widget_send t w) = w_visible w"
  by (simp_all add: widget_send_def split: prod.splits)

lemma enter_press_voice [simp]:
  "is_voice_mode (w_ui (handle_enter_press k t w)) = is_voice_mode (w_ui w)"
  "is_listening (w_ui (handle_enter_press k t w)) = is_listening (w_ui w)"
  by (simp_all add: handle_enter_press_def)

lemma voice_ops [simp]:
  "is_voice_mode (toggle_chat_expansion u) = is_voice_mode u"
  "is_listening (toggle_chat_expansion u) = is_listening u"
  "is_voice_mode (handle_esc_key k u) = is_voice_mode u"
  "is_listening (handle_esc_key k u) = is_listening u"
  "is_voice_mode (handle_outside_click c i u) = is_voice_mode u"
  "is_listening (handle_outside_click c i u) = is_listening u"
  "is_voice_mode (toggle_voice_mode u) = (\<not> is_voice_mode u)"
  "is_listening (toggle_voice_mode u) = (\<not> is_voice_mode u)"
  by (simp_all add: toggle_chat_expansion_def handle_esc_key_def handle_outside_click_def
      toggle_voice_mode_def)

lemma widget_run_reach:
  "widget_reach parse w \<Longrightarrow> widget_run parse w es = Some w' \<Longrightarrow> widget_reach parse w'"
proof (induction es arbitrary: w)
  case Nil
  then show ?case by simp
next
  case (Cons e es)
  then obtain w1 where s: "widget_step parse w e = Some w1" and r: "widget_run parse w1 es = Some w'"
    by (auto split: option.splits)
  show ?case by (rule Cons.IH [OF widget_reach.step [OF Cons.prems(1) s] r])
qed

lemma demo_reach: "widget_run parse demo_widget es = Some w' \<Longrightarrow> widget_reach parse w'"
  by (rule widget_run_reach [OF widget_reach.start [of parse True None 0 "\<lambda>_. None" 1024]])
     (simp add: demo_widget_def)

lemma widget_step_voice:
  assumes "widget_step parse w e = Some w'" and "is_listening (w_ui w) = is_voice_mode (w_ui w)"
  shows "is_listening (w_ui w') = is_voice_mode (w_ui w')"
  using assms
  by (cases e) (auto simp: widget_step_def Let_def handle_input_focus_def handle_input_blur_def
      check_mobile_def skeleton_timeout_def split: if_splits)

lemma widget_voice_inv:
  "widget_reach parse w \<Longrightarrow> is_listening (w_ui w) = is_voice_mode (w_ui w)"
proof (induction rule: widget_reach.induct)
  case (start visible stored t store inner_width)
  then show ?case by (simp add: init_widget_def check_mobile_def component_rendered_def init_ui_def)
next
  case (step w e w')
  show ?case by (rule widget_step_voice [OF step.hyps(2) step.IH])
qed

lemma nostream_finish_prefix:
  "\<exists>ys. messages (nostream_finish parse te out st) = messages st @ ys"
proof -
  let ?P = "\<lambda>s. \<exists>ys. messages s = messages st @ ys"
  have loop: "?P (fst (read_loop (nostream_line parse) (st, []) cs))" for cs
    by (rule read_loop_invariant) (auto simp: nostream_line_def)
  have body: "?P (nostream_body parse te r st)" for r
    using loop [of "resp_chunks r"]
    by (auto simp: nostream_body_def finish_buffer_def split: prod.splits option.splits)
  show ?thesis
    using body by (auto simp: nostream_finish_def split: fetch_outcome.splits)
qed

lemma user_count_append [simp]: "user_count (xs @ ys) = user_count xs + user_count ys"
  by (simp add: user_count_def)

lemma user_count_user_message [simp]: "user_count [user_message t m] = 1"
  by (simp add: user_count_def user_message_def mk_message_def)

lemma handle_send_refused:
  "\<not> snd (handle_send_message now inp st) \<Longrightarrow>
     message_limit (fst (handle_send_message now inp st)) = message_limit st"
  by (auto simp: handle_send_message_def Let_def split: option.splits if_splits)

lemma handle_send_accepted:
  "snd (handle_send_message now inp st) \<Longrightarrow> 0 \<le> lim_count st \<Longrightarrow>
     js_trim inp \<noteq> [] \<and> 0 \<le> lim_count (fst (handle_send_message now inp st)) \<and>
     lim_count (fst (handle_send_message now inp st)) \<le> lim_count st + 1"
  by (auto simp: handle_send_message_def lim_count_def record_limit_message_limit Let_def
           split: option.splits if_splits)

lemma limiter_events_count:
  "lim_count (timer_tick ls) \<in> {lim_count ls, 0}"
  "lim_count (alert_timeout ls) = lim_count ls"
  "lim_count (network_resolved now lookup ls) \<in> {lim_count ls, 0}"
  by (auto simp: lim_count_def timer_tick_def alert_timeout_def network_resolved_def load_limit_def
           Let_def split: option.splits)

lemma widget_send_count_inv:
  assumes "count_inv w" and "\<not> is_loading (w_hook w)"
  shows "count_inv (widget_send t w)"
proof (cases "snd (handle_send_message (int t) (input_value (w_hook w)) (w_lim w))")
  case True
  then show ?thesis
    using assms handle_send_accepted [OF True] unfolding count_inv_def
    by (auto simp: count_inv_def widget_send_def send_start_def split: prod.splits)
next
  case False
  then show ?thesis
    using assms handle_send_refused [OF False]
    by (auto simp: count_inv_def widget_send_def lim_count_def split: prod.splits)
qed

lemma enter_press_count_inv:
  assumes "count_inv w" and "\<not> is_loading (w_hook w)"
  shows "count_inv (handle_enter_press k t w)"
  using assms widget_send_count_inv [of "w\<lparr>w_ui := (w_ui w)\<lparr>is_chat_expanded := True\<rparr>\<rparr>" t]
    widget_send_count_inv [of w t]
  by (auto simp: handle_enter_press_def count_inv_def)

lemma count_inv_settle [simp]: "count_inv (settle w) = count_inv w"
  by (simp add: count_inv_def)

lemma input_enabled_iff:
  "input_enabled w \<longleftrightarrow>
     full_shown w \<and> \<not> is_loading (w_hook w) \<and> \<not> is_listening (w_ui w) \<and> \<not> 0 < time_remaining (w_lim w)"
  by (auto simp: input_enabled_def render_input_def)

lemma send_enabled_iff:
  "send_enabled w \<longleftrightarrow>
     full_shown w \<and> js_trim (input_value (w_hook w)) \<noteq> [] \<and> \<not> is_loading (w_hook w) \<and>
     \<not> is_listening (w_ui w) \<and> \<not> 0 < time_remaining (w_lim w)"
  by (auto simp: send_enabled_def render_input_def)

lemma widget_step_count_inv:
  assumes "widget_step parse w e = Some w'" and "count_inv w"
  shows "count_inv w'"
proof (cases e)
  case (WKeyDown k t)
  then show ?thesis
    using assms enter_press_count_inv [OF assms(2)] input_enabled_iff
    by (auto simp: widget_step_def count_inv_def Let_def split: if_splits)
next
  case (WSendClick t)
  then show ?thesis
    using assms widget_send_count_inv [OF assms(2)] send_enabled_iff
    by (auto simp: widget_step_def split: if_splits)
next
  case (WResponse te out)
  obtain ys where "messages (nostream_finish parse te out (w_hook w)) = messages (w_hook w) @ ys"
    using nostream_finish_prefix by blast
  then show ?thesis
    using assms WResponse by (auto simp: widget_step_def count_inv_def split: if_splits)
next
  case WTick
  then show ?thesis
    using assms limiter_events_count(1) [of "w_lim w"]
    by (auto simp: widget_step_def count_inv_def split: if_splits)
next
  case (WNetwork now lookup)
  then show ?thesis
    using assms limiter_events_count(3) [of "int now" lookup "w_lim w"]
    by (auto simp: widget_step_def count_inv_def)
qed (use assms in \<open>auto simp: widget_step_def count_inv_def limiter_events_count(2) split: if_splits\<close>)

lemma widget_send_accepted:
  assumes "\<not> is_loading (w_hook w)"
    and "snd (handle_send_message (int t) (input_value (w_hook w)) (w_lim w))"
  shows "w_hook (widget_send t w) =
           (w_hook w)\<lparr>messages := messages (w_hook w) @ [user_message t (input_value (w_hook w))],
                      input_value := [], is_loading := True\<rparr> \<and>
         w_lim (widget_send t w) = fst (handle_send_message (int t) (input_value (w_hook w)) (w_lim w))"
proof -
  have "js_trim (input_value (w_hook w)) \<noteq> []"
    using assms(2) by (auto simp: handle_send_message_def)
  then show ?thesis
    using assms by (auto simp: widget_send_def send_start_def split: prod.splits)
qed

lemmas demo_simps = demo_widget_def init_widget_def init_ui_def check_mobile_def component_rendered_def
  init_chat_state_def init_thread_id_def limiter_init_def widget_step_def full_shown_def
  input_enabled_iff send_enabled_iff toggle_shown_def js_trim_def js_is_ws_def

text \<open>C25: in every reachable state of the widget the message counter never exceeds the
  number of user messages in the conversation: \<open>handleSendMessage\<close> counts a message
  only when \<open>sendMessage\<close> really sends it, because the input and the send button are
  disabled while a request is pending.\<close>

theorem widget_limit_counts_sent:
  assumes "widget_reach parse w" and "message_limit (w_lim w) = Some l"
  shows "ml_count l \<le> int (user_count (messages (w_hook w)))"
proof -
  have "count_inv w"
    using assms(1)
  proof (induction rule: widget_reach.induct)
    case (start visible stored t store inner_width)
    then show ?case by (simp add: count_inv_def init_widget_def limiter_init_def lim_count_def)
  next
    case (step w e w')
    show ?case by (rule widget_step_count_inv [OF step.hyps(2) step.IH])
  qed
  then show ?thesis using assms(2) by (simp add: count_inv_def lim_count_def)
qed

theorem widget_limit_counts_sent_witness:
  "ml_count \<lparr>ml_count = 1, ml_timestamp = 5, ml_cooldown_end = 5\<rparr> \<le>
     int (user_count (messages (w_hook (the (widget_run no_parse demo_widget [WType ''hi'', WSendClick 5])))))"
proof -
  have r: "widget_run no_parse demo_widget [WType ''hi'', WSendClick 5] =
             Some (the (widget_run no_parse demo_widget [WType ''hi'', WSendClick 5]))"
    by (simp add: demo_simps)
  show ?thesis
    by (rule widget_limit_counts_sent [OF demo_reach [OF r]])
       (simp add: demo_simps widget_send_def handle_send_message_def record_limit_def
          MESSAGE_LIMIT_def COOLDOWN_PERIOD_def settle_def send_start_def Let_def)
qed

text \<open>C26: sending from the widget refines the hook: when the send button is enabled and
  the limit allows the message, the click and the completion of the request are both
  possible, and together they change the conversation exactly as \<open>sendMessage\<close> of
  \<open>useChatNoStream\<close> does in one piece, while the limit is updated as
  \<open>handleSendMessage\<close> says.\<close>

theorem widget_send_refines_hook:
  assumes "send_enabled w" and "snd (handle_send_message (int t) (input_value (w_hook w)) (w_lim w))"
  shows "\<exists>w1 w2. widget_step parse w (WSendClick t) = Some w1 \<and>
           widget_step parse w1 (WResponse te out) = Some w2 \<and>
           w_hook w2 = nostream_send_message parse t te (input_value (w_hook w)) out (w_hook w) \<and>
           w_lim w2 = fst (handle_send_message (int t) (input_value (w_hook w)) (w_lim w))"
proof -
  have nl: "\<not> is_loading (w_hook w)" and nb: "js_trim (input_value (w_hook w)) \<noteq> []"
    using assms(1) by (simp_all add: send_enabled_iff)
  note sent = widget_send_accepted [OF nl assms(2)]
  let ?w1 = "settle (widget_send t w)"
  let ?w2 = "settle (?w1\<lparr>w_hook := nostream_finish parse te out (w_hook ?w1)\<rparr>)"
  have "widget_step parse w (WSendClick t) = Some ?w1"
    using assms(1) by (simp add: widget_step_def)
  moreover have "widget_step parse ?w1 (WResponse te out) = Some ?w2"
    using sent by (simp add: widget_step_def)
  moreover have "w_hook ?w2 = nostream_send_message parse t te (input_value (w_hook w)) out (w_hook w)"
    using sent nl nb by (simp add: nostream_send_message_def send_start_def)
  ultimately show ?thesis using sent by auto
qed

theorem widget_send_refines_hook_witness:
  "\<exists>w1 w2. widget_step no_parse (the (widget_step no_parse demo_widget (WType ''hi''))) (WSendClick 5) = Some w1 \<and>
     widget_step no_parse w1 (WResponse 6 (FetchRejected ''offline'')) = Some w2 \<and>
     w_hook w2 = nostream_send_message no_parse 5 6 ''hi'' (FetchRejected ''offline'')
                   (init_chat_state None 0\<lparr>input_value := ''hi''\<rparr>) \<and>
     w_lim w2 = fst (handle_send_message 5 ''hi'' (limiter_init (\<lambda>_. None)))"
  using widget_send_refines_hook [of "the (widget_step no_parse demo_widget (WType ''hi''))" 5 no_parse 6
      "FetchRejected ''offline''"]
  by (simp add: demo_simps handle_send_message_def Let_def)

text \<open>C27: while a request is pending the user can neither type, nor press a key in the
  input, nor click send: the guard \<open>isLoading\<close> of \<open>sendMessage\<close> is never the one
  that stops a second request.\<close>

theorem widget_pending_blocks_send:
  assumes "is_loading (w_hook w)"
  shows "widget_step parse w (WType s) = None \<and> widget_step parse w (WKeyDown k t) = None \<and>
         widget_step parse w (WSendClick t) = None"
  using assms by (simp add: input_enabled_iff send_enabled_iff widget_step_def)

theorem widget_pending_blocks_send_witness:
  "widget_step no_parse (the (widget_run no_parse demo_widget [WType ''hi'', WSendClick 5])) (WType ''x'') = None \<and>
   widget_step no_parse (the (widget_run no_parse demo_widget [WType ''hi'', WSendClick 5])) (WKeyDown ''Enter'' 6) = None \<and>
   widget_step no_parse (the (widget_run no_parse demo_widget [WType ''hi'', WSendClick 5])) (WSendClick 6) = None"
  by (rule widget_pending_blocks_send)
     (simp add: demo_simps widget_send_def handle_send_message_def record_limit_def
          MESSAGE_LIMIT_def COOLDOWN_PERIOD_def settle_def send_start_def Let_def)

text \<open>C28: voice mode locks the text input. \<open>toggleVoiceMode\<close> sets \<open>isListening\<close>
  with \<open>isVoiceMode\<close>, and voice recognition is not implemented, so in every reachable
  state with voice mode on the input and the send button are disabled and no message can
  be typed or sent until voice mode is switched off.\<close>

theorem widget_voice_locks_input:
  assumes "widget_reach parse w" and "is_voice_mode (w_ui w)"
  shows "\<not> input_enabled w \<and> \<not> send_enabled w \<and> widget_step parse w (WType s) = None \<and>
         widget_step parse w (WKeyDown k t) = None \<and> widget_step parse w (WSendClick t) = None"
  using assms widget_voice_inv [OF assms(1)]
  by (simp add: input_enabled_iff send_enabled_iff widget_step_def)

theorem widget_voice_locks_input_witness:
  "\<not> input_enabled (the (widget_run no_parse demo_widget [WType ''hi'', WVoice])) \<and>
   \<not> send_enabled (the (widget_run no_parse demo_widget [WType ''hi'', WVoice])) \<and>
   widget_step no_parse (the (widget_run no_parse demo_widget [WType ''hi'', WVoice])) (WType ''x'') = None \<and>
   widget_step no_parse (the (widget_run no_parse demo_widget [WType ''hi'', WVoice])) (WKeyDown ''Enter'' 6) = None \<and>
   widget_step no_parse (the (widget_run no_parse demo_widget [WType ''hi'', WVoice])) (WSendClick 6) = None"
proof -
  have r: "widget_run no_parse demo_widget [WType ''hi'', WVoice] =
             Some (the (widget_run no_parse demo_widget [WType ''hi'', WVoice]))"
    by (simp add: demo_simps)
  show ?thesis
    by (rule widget_voice_locks_input [OF demo_reach [OF r]]) (simp add: demo_simps toggle_voice_mode_def)
qed

text \<open>On a desktop, Enter in the enabled input with a non-blank text that the limit
  allows expands the chat and sends: the user message is appended, the input cleared and
  a request is pending.\<close>

theorem widget_enter_sends:
  assumes "input_enabled w" and "js_trim (input_value (w_hook w)) \<noteq> []" and "\<not> is_mobile (w_ui w)"
    and "snd (handle_send_message (int t) (input_value (w_hook w)) (w_lim w))"
  shows "\<exists>w'. widget_step parse w (WKeyDown ''Enter'' t) = Some w' \<and> is_chat_expanded (w_ui w') \<and>
           messages (w_hook w') = messages (w_hook w) @ [user_message t (input_value (w_hook w))] \<and>
           is_loading (w_hook w') \<and> input_value (w_hook w') = []"
proof -
  have nl: "\<not> is_loading (w_hook w)"
    using assms(1) by (simp add: input_enabled_iff)
  define we where "we = (if \<not> is_chat_expanded (w_ui w)
                         then w\<lparr>w_ui := (w_ui w)\<lparr>is_chat_expanded := True\<rparr>\<rparr> else w)"
  have e: "handle_enter_press ''Enter'' t w = widget_send t we"
    using assms(2,3) by (simp add: handle_enter_press_def we_def)
  have hw: "w_hook we = w_hook w" "w_lim we = w_lim w" "is_chat_expanded (w_ui we)"
    by (simp_all add: we_def)
  have s: "w_hook (widget_send t we) =
           (w_hook w)\<lparr>messages := messages (w_hook w) @ [user_message t (input_value (w_hook w))],
                      input_value := [], is_loading := True\<rparr>"
    using widget_send_accepted [of we t] hw nl assms(4) by simp
  have x: "is_chat_expanded (w_ui (widget_send t we))"
    using hw(3) by simp
  show ?thesis
    using assms(1) s x by (simp add: widget_step_def e handle_esc_key_def Let_def)
qed

theorem widget_enter_sends_witness:
  "\<exists>w'. widget_step no_parse (the (widget_step no_parse demo_widget (WType ''hi''))) (WKeyDown ''Enter'' 5) = Some w' \<and>
     is_chat_expanded (w_ui w') \<and> messages (w_hook w') = [user_message 5 ''hi''] \<and>
     is_loading (w_hook w') \<and> input_value (w_hook w') = []"
  using widget_enter_sends [of "the (widget_step no_parse demo_widget (WType ''hi''))" 5 no_parse]
  by (simp add: demo_simps handle_send_message_def Let_def)

end
