(* ===== verification/Project_Card.thy ===== *)
theory Project_Card
  imports Chat_Prelude
begin

text \<open>
  \<open>ProjectCard\<close> (\<open>src/src/components/ProjectCard.tsx\<close>), the one portfolio component
  with state: its \<open>isExpanded\<close> flag, and the image element whose \<open>src\<close> and \<open>alt\<close>
  the \<open>onError\<close> handler rewrites. The card's texts, links and the placeholder image
  URL are computed from the \<open>Project\<close> record (\<open>src/src/types/index.ts\<close>, lines 3-13);
  the placeholder percent-encodes the title with \<open>encodeURIComponent\<close>, modelled on
  the model's 8-bit characters as Latin-1 code points (each encoded as its UTF-8 bytes).
\<close>

section \<open>Data\<close>

text \<open>\<open>Project\<close>; the optional URLs are \<open>None\<close> when absent.\<close>

record project =
  p_id :: string
  p_title :: string
  p_category :: string
  p_description :: string
  p_key_features :: "string list"
  p_tech_stack :: "string list"
  p_image_url :: "string option"
  p_github_url :: "string option"
  p_live_url :: "string option"

section \<open>encodeURIComponent\<close>

text \<open>The characters \<open>encodeURIComponent\<close> leaves alone: ASCII letters and digits and
  \<open>- _ . ! ~ * ' ( )\<close>.\<close>

definition uri_unreserved :: "char \<Rightarrow> bool" where
  "uri_unreserved c \<longleftrightarrow>
     (let n = of_char c :: nat
      in (48 \<le> n \<and> n \<le> 57) \<or> (65 \<le> n \<and> n \<le> 90) \<or> (97 \<le> n \<and> n \<le> 122) \<or>
         n \<in> {45, 95, 46, 33, 126, 42, 39, 40, 41})"

definition hex_digit :: "nat \<Rightarrow> char" where
  "hex_digit n = (if n < 10 then char_of (48 + n) else char_of (55 + n))"

definition pct_byte :: "nat \<Rightarrow> string" where
  "pct_byte b = [CHR ''%'', hex_digit (b div 16), hex_digit (b mod 16)]"

definition uri_encode_char :: "char \<Rightarrow> string" where
  "uri_encode_char c =
     (let n = of_char c :: nat
      in if uri_unreserved c then [c]
         else if n < 128 then pct_byte n
         else pct_byte (192 + n div 64) @ pct_byte (128 + n mod 64))"

definition encode_uri_component :: "string \<Rightarrow> string" where
  "encode_uri_component s = concat (map uri_encode_char s)"

section \<open>The card\<close>

text \<open>Line 15: the image, or a placeholder naming the project.\<close>

definition image_src :: "project \<Rightarrow> string" where
  "image_src p =
     (case p_image_url p of
        Some u \<Rightarrow> if u \<noteq> [] then u
                  else ''https://placehold.co/600x400/B8A9FF/6320EE?text='' @ encode_uri_component (p_title p)
      | None \<Rightarrow> ''https://placehold.co/600x400/B8A9FF/6320EE?text='' @ encode_uri_component (p_title p))"

record card_state =
  is_expanded :: bool
  img_src :: string
  img_alt :: string

text \<open>Lines 10-16: the initial state and the image's attributes.\<close>

definition card_init :: "project \<Rightarrow> card_state" where
  "card_init p = \<lparr>is_expanded = False, img_src = image_src p, img_alt = p_title p @ '' preview''\<rparr>"

text \<open>Lines 18-22: \<open>onError\<close> of the image.\<close>

definition image_error :: "project \<Rightarrow> card_state \<Rightarrow> card_state" where
  "image_error p st =
     st\<lparr>img_src := ''https://placehold.co/600x400/B3C0A4/505168?text=Image+Not+Found'',
        img_alt := p_title p @ '' image not found''\<rparr>"

text \<open>Line 76: the button's \<open>onClick\<close>.\<close>

definition toggle_expanded :: "card_state \<Rightarrow> card_state" where
  "toggle_expanded st = st\<lparr>is_expanded := \<not> is_expanded st\<rparr>"

text \<open>Lines 24-85: what the card shows: title, category, description, the key features
  only when expanded, the tech stack, the GitHub and live links when present and
  non-empty, and the button's label.\<close>

record project_view =
  pv_title :: string
  pv_category :: string
  pv_description :: string
  pv_features :: "string list option"
  pv_tech :: "string list"
  pv_github :: "string option"
  pv_live :: "string option"
  pv_button :: string

definition truthy_url :: "string option \<Rightarrow> string option" where
  "truthy_url u = (case u of Some s \<Rightarrow> if s \<noteq> [] then Some s else None | None \<Rightarrow> None)"

definition render_project_card :: "project \<Rightarrow> card_state \<Rightarrow> project_view" where
  "render_project_card p st =
     \<lparr>pv_title = p_title p, pv_category = p_category p, pv_description = p_description p,
      pv_features = (if is_expanded st then Some (p_key_features p) else None),
      pv_tech = p_tech_stack p, pv_github = truthy_url (p_github_url p),
      pv_live = truthy_url (p_live_url p),
      pv_button = (if is_expanded st then ''Show Less'' else ''Learn More'')\<rparr>"

section \<open>Lemmas\<close>

text \<open>The placeholder URL's query is well formed: the encoded title consists of
  unreserved characters and percent escapes with upper-case hexadecimal digits.\<close>

definition uri_safe_char :: "char \<Rightarrow> bool" where
  "uri_safe_char c \<longleftrightarrow>
     (let n = of_char c :: nat
      in uri_unreserved c \<or> n = 37 \<or> (48 \<le> n \<and> n \<le> 57) \<or> (65 \<le> n \<and> n \<le> 70))"

lemma hex_digit_safe:
  assumes "n < 16"
  shows "(48 \<le> (of_char (hex_digit n) :: nat) \<and> (of_char (hex_digit n) :: nat) \<le> 57) \<or>
         (65 \<le> (of_char (hex_digit n) :: nat) \<and> (of_char (hex_digit n) :: nat) \<le> 70)"
  using assms by (simp add: hex_digit_def of_char_of)

lemma pct_byte_safe: "b < 256 \<Longrightarrow> \<forall>c \<in> set (pct_byte b). uri_safe_char c"
  using hex_digit_safe [of "b div 16"] hex_digit_safe [of "b mod 16"]
  by (auto simp: pct_byte_def uri_safe_char_def Let_def)

lemma uri_encode_char_safe: "\<forall>d \<in> set (uri_encode_char c). uri_safe_char d"
proof -
  have n: "of_char c < (256 :: nat)" by (rule nat_of_char_less_256)
  have "of_char c div 64 < (4 :: nat)"
    using n by (simp add: Euclidean_Rings.div_less_iff_less_mult)
  then have hi: "192 + of_char c div 64 < (256 :: nat)" by simp
  have lo: "128 + of_char c mod 64 < (256 :: nat)" by simp
  have un: "uri_unreserved c \<Longrightarrow> uri_safe_char c" by (simp add: uri_safe_char_def)
  show ?thesis
    using pct_byte_safe [OF n] pct_byte_safe [OF hi] pct_byte_safe [OF lo] un
    by (auto simp: uri_encode_char_def Let_def)
qed

lemma encode_uri_component_safe: "\<forall>c \<in> set (encode_uri_component s). uri_safe_char c"
  using uri_encode_char_safe by (auto simp: encode_uri_component_def)

lemma toggle_expanded_twice [simp]: "toggle_expanded (toggle_expanded st) = st"
  by (simp add: toggle_expanded_def)

lemma render_features:
  "pv_features (render_project_card p st) = Some fs \<longleftrightarrow> is_expanded st \<and> fs = p_key_features p"
  by (auto simp: render_project_card_def)

end
