(* ===== verification/Portfolio.thy ===== *)
theory Portfolio
  imports Project_Card
begin

text \<open>
  The portfolio's data (\<open>src/src/data/portfolioData.ts\<close>, with the interfaces of
  \<open>src/src/types/index.ts\<close>) and the sections that render it: \<open>HeroSection\<close>,
  \<open>AboutSection\<close>, \<open>ProjectsSection\<close> (one \<open>ProjectCard\<close> of \<open>Project_Card\<close> per
  project, each with its own state), \<open>SkillsSection\<close>, \<open>ExperienceSection\<close>,
  \<open>ContactSection\<close> and \<open>Footer\<close>. A section is a function from the data to the texts,
  links and keys it shows; lucide icons are the constructors of \<open>icon\<close>. The only
  state is that of the project cards, a list aligned with \<open>projectsData\<close>: React keeps
  a card's state under its key \<open>project.id\<close>, and the keys are distinct
  (proved below), so the i-th state belongs to the i-th project.
\<close>

section \<open>Data\<close>

text \<open>The lucide icons \<open>portfolioData.ts\<close> imports (lines 7-19).\<close>

datatype icon = Lightbulb | Code | Users | Briefcase | Brain | Zap | Database | Network
  | Cloud | Github | ExternalLink

text \<open>\<open>ProfessionalProfile\<close> (\<open>types/index.ts\<close> lines 32-40).\<close>

record professional_profile =
  pp_name :: string
  pp_headline :: string
  pp_summary :: string
  pp_email :: string
  pp_linkedin :: string
  pp_github :: string
  pp_cv_url :: string

text \<open>\<open>professionalProfile.name\<close> and \<open>.cvUrl\<close> (lines 22 and 28), which \<open>NavBar\<close> and
  \<open>Layout\<close> read too.\<close>

definition professional_name :: string where
  "professional_name = ''Jomar Talambayan''"

definition cv_url :: string where
  "cv_url = ''(MAY-STX)_talambayan_jomar_CV.pdf''"

definition professional_profile_data :: professional_profile where
  "professional_profile_data =
     \<lparr>pp_name = professional_name,
      pp_headline = ''Generative AI Engineer | Building Smarter AI for Healthcare & Beyond'',
      pp_summary = ''Bridging cutting-edge AI with real-world challenges, especially in healthcare. Focused on innovative EHR solutions powered by Multi-Agent Systems, automated patient note summarization, and advanced RAG chatbots.'',
      pp_email = ''talambayanjomar037@gmail.com'',
      pp_linkedin = ''https://www.linkedin.com/in/jomar-talambayan-52730227a'',
      pp_github = ''https://github.com/rhyliieee'',
      pp_cv_url = cv_url\<rparr>"

text \<open>\<open>ValuePropositionItem\<close> (lines 26-30) and \<open>valuePropositionData\<close> (31-47).\<close>

record value_prop =
  vp_title :: string
  vp_description :: string
  vp_icon :: icon

definition value_proposition_data :: "value_prop list" where
  "value_proposition_data =
     [\<lparr>vp_title = ''AI Expertise for Impact'',
       vp_description = ''Deep expertise in Generative AI, NLP, and Multi-Agent Systems with a strong focus on creating practical healthcare applications and scalable, human-centered tools.'',
       vp_icon = Lightbulb\<rparr>,
      \<lparr>vp_title = ''Full-Stack Development'',
       vp_description = ''Proficient in building end-to-end solutions, from Python-based AI backends (FastAPI, LangGraph) to modern frontends (React, TypeScript).'',
       vp_icon = Code\<rparr>,
      \<lparr>vp_title = ''Collaborative Innovator'',
       vp_description = ''A curious and proactive team player dedicated to data privacy, compliance, and turning ambitious ideas into intelligent, real-world solutions.'',
       vp_icon = Users\<rparr>]"

text \<open>\<open>projectsData\<close> (lines 49-95); no project has a \<open>liveUrl\<close>.\<close>

definition projects_data :: "project list" where
  "projects_data =
     [\<lparr>p_id = ''jobjigsaw'', p_title = ''JobJigSaw Suite'',
       p_category = ''AI-Powered Recruitment Automation'',
       p_description = ''An intelligent suite featuring an AI Resume Analyzer (RAR) to rank candidates against job descriptions and a Job Description Writer (JDW) to generate compelling job postings, streamlining the recruitment lifecycle.'',
       p_key_features = [''AI-driven resume scoring and ranking (RAR)'',
         ''Automated, professional job description generation (JDW)'',
         ''Multi-LLM Support (Groq, Mistral, OpenAI)'', ''FastAPI backend with Streamlit UI''],
       p_tech_stack = [''Python'', ''FastAPI'', ''LangGraph'', ''Pydantic'', ''Streamlit'', ''Docker'', ''LLMs''],
       p_image_url = Some ''https://placehold.co/600x400/505168/EAEFD3?text=JobJigSaw+Suite'',
       p_github_url = Some ''https://github.com/rhyliieee/JobJigSaw'', p_live_url = None\<rparr>,
      \<lparr>p_id = ''eyomnai'', p_title = ''EyomnAI'',
       p_category = ''Intelligent EMR for Ophthalmology'',
       p_description = ''Advanced Electronic Medical Records (EMR) software for eye clinics, leveraging LLMs and multi-agent systems for intelligent assistance, SOAP note summarization, and automated data extraction from IDs.'',
       p_key_features = [''RAG Chatbot for medical queries'', ''Automated SOAP note summarization'',
         ''Intelligent data extraction from identification cards'', ''Multi-Agent System Architecture''],
       p_tech_stack = [''Python'', ''FastAPI'', ''LangGraph'', ''Mistral LLM'', ''Docker'', ''Google Cloud Firestore'', ''RAG''],
       p_image_url = Some ''https://placehold.co/600x400/505168/EAEFD3?text=EyomnAI'',
       p_github_url = Some ''https://github.com/csharpmastr/EyomnAI'', p_live_url = None\<rparr>,
      \<lparr>p_id = ''jobjigsaw-lark'', p_title = ''JobJigSaw - Lark Base Frontend'',
       p_category = ''Enterprise Integration'',
       p_description = ''A responsive frontend interface (React, TypeScript) enabling seamless interaction with the JobJigSaw backend directly within the Lark Base environment for efficient job and candidate management.'',
       p_key_features = [''Manage job openings within Lark Base'', ''Upload resumes & trigger AI analysis (RAR)'',
         ''View and save candidate rankings and insights'', ''Built with Vite and Tailwind CSS''],
       p_tech_stack = [''React'', ''TypeScript'', ''Vite'', ''Tailwind CSS'', ''Lark Base SDK'', ''Node.js''],
       p_image_url = Some ''https://placehold.co/600x400/505168/EAEFD3?text=Lark+Frontend'',
       p_github_url = Some ''https://github.com/rhyliieee/JobJigSaw-Lark'', p_live_url = None\<rparr>]"

text \<open>\<open>Skill\<close> and \<open>SkillCategory\<close> (lines 15-24) and \<open>skillCategoriesData\<close> (97-136).\<close>

record skill =
  sk_name :: string
  sk_level :: int
  sk_icon :: "icon option"

record skill_category =
  sc_name :: string
  sc_skills :: "skill list"

definition mk_skill :: "string \<Rightarrow> int \<Rightarrow> icon \<Rightarrow> skill" where
  "mk_skill n l i = \<lparr>sk_name = n, sk_level = l, sk_icon = Some i\<rparr>"

definition skill_categories_data :: "skill_category list" where
  "skill_categories_data =
     [\<lparr>sc_name = ''AI & Machine Learning'',
       sc_skills = [mk_skill ''Generative AI'' 95 Brain, mk_skill ''Multi-Agent Systems'' 90 Users,
         mk_skill ''LangChain/LangGraph'' 90 Code, mk_skill ''Transformers & LLMs'' 85 Zap,
         mk_skill ''RAG & Vector DBs'' 85 Database]\<rparr>,
      \<lparr>sc_name = ''Programming'',
       sc_skills = [mk_skill ''Python'' 95 Code, mk_skill ''JavaScript/TypeScript'' 80 Code,
         mk_skill ''C#'' 85 Code, mk_skill ''React'' 80 Code, mk_skill ''ASP.NET'' 75 Code]\<rparr>,
      \<lparr>sc_name = ''Cloud & Tools'',
       sc_skills = [mk_skill ''Modal Deployment'' 85 Cloud, mk_skill ''Google Colab'' 90 Cloud,
         mk_skill ''Git/GitHub'' 85 Github, mk_skill ''API Integration'' 85 ExternalLink]\<rparr>,
      \<lparr>sc_name = ''Databases & Data'',
       sc_skills = [mk_skill ''SQL (PostgreSQL, MySQL)'' 85 Database,
         mk_skill ''NoSQL (Firebase, MongoDB)'' 90 Cloud,
         mk_skill ''VectorDB (ChromaDB, Pinecone)'' 90 Database, mk_skill ''GraphDB (Neo4j)'' 80 Network]\<rparr>]"

text \<open>\<open>Experience\<close> and \<open>Education\<close> (lines 51-65), \<open>experienceData\<close> (138-164),
  \<open>educationData\<close> (166-171) and \<open>certificationData\<close> (173-179).\<close>

record experience =
  ex_title :: string
  ex_company :: string
  ex_location :: string
  ex_period :: string
  ex_type :: string
  ex_achievements :: "string list"

record education =
  ed_degree :: string
  ed_specialization :: string
  ed_institution :: string
  ed_period :: string

definition experience_data :: "experience list" where
  "experience_data =
     [\<lparr>ex_title = ''Artificial Intelligence Intern'', ex_company = ''Direc Business Technologies Inc.'',
       ex_location = ''Quezon City, Philippines'', ex_period = ''February 2025 - April 2025'',
       ex_type = ''Internship'',
       ex_achievements = [''Developed Resume Analyzer and Reranker (RAR) tool with 85% accuracy'',
         ''Implemented full-stack AI integrations and API enhancements'',
         ''Delivered AI literacy sessions to R&D team'', ''Explored QA automation with low-code platforms'']\<rparr>,
      \<lparr>ex_title = ''Social Media Manager'', ex_company = ''Kombe Kontracting'',
       ex_location = ''Ontario, Canada (Remote)'', ex_period = ''February 2021 - April 2023'',
       ex_type = ''Full-time'',
       ex_achievements = [''Managed social media accounts and client database'',
         ''Created engaging content and graphics'', ''Collaborated with executive and development teams'']\<rparr>]"

definition education_data :: education where
  "education_data =
     \<lparr>ed_degree = ''Bachelor of Science in Computer Science'', ed_specialization = ''Data Science'',
      ed_institution = ''Laguna University'', ed_period = ''2021 - 2024''\<rparr>"

definition certification_data :: "string list" where
  "certification_data =
     [''How Transformer LLMs Work - DeepLearning.AI (Feb 2025)'',
      ''Introduction to LangGraph - LangChain Academy (Jan 2025)'',
      ''Multi AI Agent Systems with crewAI - DeepLearning.AI (Nov 2024)'',
      ''Generative AI with Large Language Models - DeepLearning.AI (Jul 2024)'',
      ''Google Data Analytics Professional Certificate'']"

section \<open>Sections\<close>

text \<open>\<open>HeroSection\<close> (\<open>components/HeroSection.tsx\<close>, lines 17-81): the profile's
  name, headline and summary, the two buttons and the three quick stats. The buttons'
  and the chevron's targets are \<open>hero_targets\<close> of \<open>Site\<close>.\<close>

record hero_view =
  hv_name :: string
  hv_headline :: string
  hv_summary :: string
  hv_buttons :: "string list"
  hv_stats :: "(string \<times> string) list"

definition render_hero :: "professional_profile \<Rightarrow> hero_view" where
  "render_hero pp =
     \<lparr>hv_name = pp_name pp, hv_headline = pp_headline pp, hv_summary = pp_summary pp,
      hv_buttons = [''Explore My Work'', ''Connect with Me''],
      hv_stats = [(''15+'', ''AI/ML Certifications''), (''3+'', ''Featured Projects''),
                  (''Healthcare'', ''AI Specialization'')]\<rparr>"

text \<open>\<open>AboutSection\<close> (\<open>components/AboutSection.tsx\<close>, lines 103-112): one card per
  value proposition, keyed by its index, with its icon, title and description.\<close>

definition render_about :: "value_prop list \<Rightarrow> (icon \<times> string \<times> string) list" where
  "render_about vs = map (\<lambda>v. (vp_icon v, vp_title v, vp_description v)) vs"

text \<open>\<open>ProjectsSection\<close> (\<open>components/ProjectsSection.tsx\<close>, lines 20-24): one
  \<open>ProjectCard\<close> per project, keyed by \<open>project.id\<close>. Each card's state starts as
  \<open>card_init\<close>; the card's two handlers are its events: the button's \<open>onClick\<close>
  (\<open>ProjectCard.tsx\<close> line 76) and the image's \<open>onError\<close> (lines 18-22). An event
  names the card by its position in the grid; a position past the last card names no
  card and changes nothing.\<close>

datatype card_event = CardToggle | CardImageError

definition card_step :: "project \<Rightarrow> card_event \<Rightarrow> card_state \<Rightarrow> card_state" where
  "card_step p e st = (case e of CardToggle \<Rightarrow> toggle_expanded st | CardImageError \<Rightarrow> image_error p st)"

definition projects_mount :: "project list \<Rightarrow> card_state list" where
  "projects_mount ps = map card_init ps"

definition projects_event :: "project list \<Rightarrow> nat \<Rightarrow> card_event \<Rightarrow> card_state list \<Rightarrow> card_state list" where
  "projects_event ps i e sts =
     (if i < length sts \<and> i < length ps then sts[i := card_step (ps ! i) e (sts ! i)] else sts)"

fun projects_run :: "project list \<Rightarrow> (nat \<times> card_event) list \<Rightarrow> card_state list \<Rightarrow> card_state list" where
  "projects_run ps [] sts = sts"
| "projects_run ps ((i, e) # es) sts = projects_run ps es (projects_event ps i e sts)"

text \<open>What the grid shows: per card its key, the image's \<open>src\<close> and \<open>alt\<close>, and the
  card's texts.\<close>

definition render_projects ::
  "project list \<Rightarrow> card_state list \<Rightarrow> (string \<times> (string \<times> string) \<times> project_view) list" where
  "render_projects ps sts =
     map2 (\<lambda>p st. (p_id p, (img_src st, img_alt st), render_project_card p st)) ps sts"

text \<open>\<open>SkillsSection\<close> (\<open>components/SkillsSection.tsx\<close>, lines 20-46): one card per
  category keyed by its name, one row per skill with its icon (when it has one), its
  name, the bar's \<open>width: `${skill.level}%`\<close> and the label \<open>{skill.level}%\<close>.\<close>

record skill_row =
  sr_icon :: "icon option"
  sr_name :: string
  sr_width :: string
  sr_label :: string

definition skill_percent :: "int \<Rightarrow> string" where
  "skill_percent l = int_str l @ ''%''"

definition render_skill :: "skill \<Rightarrow> skill_row" where
  "render_skill s =
     \<lparr>sr_icon = sk_icon s, sr_name = sk_name s, sr_width = skill_percent (sk_level s),
      sr_label = skill_percent (sk_level s)\<rparr>"

definition render_skills :: "skill_category list \<Rightarrow> (string \<times> skill_row list) list" where
  "render_skills cs = map (\<lambda>c. (sc_name c, map render_skill (sc_skills c))) cs"

text \<open>\<open>ExperienceSection\<close> (\<open>components/ExperienceSection.tsx\<close>, lines 28-98): a card
  per experience with the badge whose class depends on the type (lines 45-49), the
  education card and the certifications.\<close>

definition badge_class :: "string \<Rightarrow> string" where
  "badge_class ty =
     ''px-2 py-1 rounded text-xs font-semibold font-actor '' @
     (if ty = ''Internship'' then ''bg-primary/10 text-primary'' else ''bg-tertiary/10 text-tertiary'')"

record experience_view =
  ev_title :: string
  ev_company :: string
  ev_location :: string
  ev_period :: string
  ev_badge :: "string \<times> string"
  ev_achievements :: "string list"

definition render_experience :: "experience \<Rightarrow> experience_view" where
  "render_experience e =
     \<lparr>ev_title = ex_title e, ev_company = ex_company e, ev_location = ex_location e,
      ev_period = ex_period e, ev_badge = (badge_class (ex_type e), ex_type e),
      ev_achievements = ex_achievements e\<rparr>"

definition render_education :: "education \<Rightarrow> string list" where
  "render_education ed =
     [ed_degree ed, ''Specialization: '' @ ed_specialization ed, ed_institution ed, ed_period ed]"

definition render_experience_section ::
  "experience list \<Rightarrow> education \<Rightarrow> string list \<Rightarrow> experience_view list \<times> string list \<times> string list" where
  "render_experience_section es ed certs = (map render_experience es, render_education ed, certs)"

text \<open>\<open>ContactSection\<close> (\<open>components/ContactSection.tsx\<close>, lines 17-51): the three
  links with their \<open>href\<close> and \<open>title\<close>, and the CV download link.\<close>

record contact_view =
  ct_mail :: "string \<times> string"
  ct_linkedin :: "string \<times> string"
  ct_github :: "string \<times> string"
  ct_download :: string

definition render_contact :: "professional_profile \<Rightarrow> contact_view" where
  "render_contact pp =
     \<lparr>ct_mail = (''mailto:'' @ pp_email pp, ''Email '' @ pp_name pp),
      ct_linkedin = (pp_linkedin pp, pp_name pp @ '' on LinkedIn''),
      ct_github = (pp_github pp, pp_name pp @ '' on GitHub''),
      ct_download = pp_cv_url pp\<rparr>"

text \<open>\<open>Footer\<close> (\<open>components/Footer.tsx\<close>, lines 14-19); the year
  (\<open>new Date().getFullYear()\<close>) is an argument, the copyright sign is the Latin-1
  character 0xA9.\<close>

definition render_footer :: "int \<Rightarrow> professional_profile \<Rightarrow> string list" where
  "render_footer year pp =
     [[CHR 0xA9, CHR '' ''] @ int_str year @ '' '' @ pp_name pp @ ''. All rights reserved.'',
      ''Built with React, TypeScript, Tailwind CSS & Vite.'']"

text \<open>The keys React needs distinct: the project cards' \<open>project.id\<close> and the skill
  categories' \<open>category.name\<close>; and the skill bars, whose widths must be percentages
  between 0 and 100.\<close>

definition percent_in_range :: "string \<Rightarrow> bool" where
  "percent_in_range w \<longleftrightarrow> (\<exists>l \<in> set [0..100]. w = skill_percent l)"

section \<open>Lemmas\<close>

lemma card_step_fields [simp]:
  "is_expanded (card_step p e st) = (if e = CardToggle then \<not> is_expanded st else is_expanded st)"
  "img_src (card_step p e st) =
     (if e = CardImageError then ''https://placehold.co/600x400/B3C0A4/505168?text=Image+Not+Found'' else img_src st)"
  "img_alt (card_step p e st) = (if e = CardImageError then p_title p @ '' image not found'' else img_alt st)"
  by (cases e; simp add: card_step_def toggle_expanded_def image_error_def)+

lemma projects_event_length [simp]: "length (projects_event ps i e sts) = length sts"
  by (simp add: projects_event_def)

lemma projects_run_length [simp]: "length (projects_run ps es sts) = length sts"
  by (induction es arbitrary: sts) auto

lemma projects_event_nth:
  "j < length sts \<Longrightarrow> length sts = length ps \<Longrightarrow>
   projects_event ps i e sts ! j = (if j = i then card_step (ps ! j) e (sts ! j) else sts ! j)"
  by (auto simp: projects_event_def nth_list_update)

lemma projects_run_expanded:
  "i < length sts \<Longrightarrow> length sts = length ps \<Longrightarrow>
   is_expanded (projects_run ps es sts ! i) = (is_expanded (sts ! i) \<noteq> odd (count_list es (i, CardToggle)))"
proof (induction es arbitrary: sts)
  case Nil
  then show ?case by simp
next
  case (Cons a es)
  obtain j e where a: "a = (j, e)" by (cases a)
  show ?case
    using Cons.IH [of "projects_event ps j e sts"] Cons.prems
    by (cases e) (auto simp: a projects_event_nth)
qed

lemma projects_run_img:
  "i < length sts \<Longrightarrow> length sts = length ps \<Longrightarrow>
   (img_src (projects_run ps es sts ! i), img_alt (projects_run ps es sts ! i)) =
     (if (i, CardImageError) \<in> set es
      then (''https://placehold.co/600x400/B3C0A4/505168?text=Image+Not+Found'', p_title (ps ! i) @ '' image not found'')
      else (img_src (sts ! i), img_alt (sts ! i)))"
proof (induction es arbitrary: sts)
  case Nil
  then show ?case by simp
next
  case (Cons a es)
  obtain j e where a: "a = (j, e)" by (cases a)
  show ?case
    using Cons.IH [of "projects_event ps j e sts"] Cons.prems
    by (cases e) (auto simp: a projects_event_nth)
qed

lemma render_project_card_expanded:
  "is_expanded st = is_expanded st' \<Longrightarrow> render_project_card p st = render_project_card p st'"
  by (simp add: render_project_card_def)

lemma render_projects_nth:
  "i < length ps \<Longrightarrow> i < length sts \<Longrightarrow>
   render_projects ps sts ! i = (p_id (ps ! i), (img_src (sts ! i), img_alt (sts ! i)), render_project_card (ps ! i) (sts ! i))"
  by (simp add: render_projects_def)

lemma render_projects_keys:
  "length sts = length ps \<Longrightarrow> map fst (render_projects ps sts) = map p_id ps"
  by (induction sts ps rule: list_induct2) (simp_all add: render_projects_def)

lemma skill_percent_in_range:
  "0 \<le> l \<Longrightarrow> l \<le> 100 \<Longrightarrow> percent_in_range (skill_percent l)"
  by (auto simp: percent_in_range_def)

lemma render_skills_widths:
  "list_all (\<lambda>c. list_all (\<lambda>s. 0 \<le> sk_level s \<and> sk_level s \<le> 100) (sc_skills c)) cs \<Longrightarrow>
   list_all (\<lambda>(n, rows). list_all (\<lambda>r. percent_in_range (sr_width r)) rows) (render_skills cs)"
  by (induction cs) (auto simp: render_skills_def render_skill_def list_all_iff skill_percent_in_range)

section \<open>Properties\<close>

text \<open>C38: the project cards are independent: after any sequence of clicks and image
  errors from the mount, card \<open>i\<close> shows its key, the fallback image exactly when its own
  image failed (a later toggle does not bring the original back), and its key features
  exactly when its own button was clicked an odd number of times.\<close>

theorem projects_card_state:
  assumes "i < length ps"
  shows "render_projects ps (projects_run ps es (projects_mount ps)) ! i =
           (p_id (ps ! i),
            (if (i, CardImageError) \<in> set es
             then (''https://placehold.co/600x400/B3C0A4/505168?text=Image+Not+Found'',
                   p_title (ps ! i) @ '' image not found'')
             else (image_src (ps ! i), p_title (ps ! i) @ '' preview'')),
            render_project_card (ps ! i) ((card_init (ps ! i))\<lparr>is_expanded := odd (count_list es (i, CardToggle))\<rparr>))"
proof -
  have len: "i < length (projects_mount ps)" "length (projects_mount ps) = length ps"
    using assms by (simp_all add: projects_mount_def)
  have m: "projects_mount ps ! i = card_init (ps ! i)"
    using assms by (simp add: projects_mount_def)
  have img: "(img_src (projects_run ps es (projects_mount ps) ! i), img_alt (projects_run ps es (projects_mount ps) ! i)) =
     (if (i, CardImageError) \<in> set es
      then (''https://placehold.co/600x400/B3C0A4/505168?text=Image+Not+Found'', p_title (ps ! i) @ '' image not found'')
      else (image_src (ps ! i), p_title (ps ! i) @ '' preview''))"
    using projects_run_img [OF len, of es] by (simp add: m card_init_def)
  have card: "render_project_card (ps ! i) (projects_run ps es (projects_mount ps) ! i) =
     render_project_card (ps ! i) ((card_init (ps ! i))\<lparr>is_expanded := odd (count_list es (i, CardToggle))\<rparr>)"
    by (rule render_project_card_expanded) (simp add: projects_run_expanded [OF len] m card_init_def)
  show ?thesis
    using assms len img card by (simp add: render_projects_nth)
qed

theorem projects_card_state_witness:
  "render_projects projects_data
     (projects_run projects_data [(1, CardToggle), (1, CardImageError), (0, CardToggle), (1, CardToggle), (1, CardToggle)]
        (projects_mount projects_data)) ! 1 =
   (''eyomnai'', (''https://placehold.co/600x400/B3C0A4/505168?text=Image+Not+Found'', ''EyomnAI image not found''),
    render_project_card (projects_data ! 1) ((card_init (projects_data ! 1))\<lparr>is_expanded := True\<rparr>))"
  using projects_card_state [of 1 projects_data "[(1, CardToggle), (1, CardImageError), (0, CardToggle), (1, CardToggle), (1, CardToggle)]"]
  by (simp add: projects_data_def)

end
