(* ===== verification/Site.thy ===== *)
theory Site
  imports Chat_Widget Portfolio
begin

text \<open>
  The page around the chat widget: \<open>App\<close> (\<open>src/src/App.tsx\<close>, the theme and its
  class on the document element), \<open>Layout\<close> (\<open>src/src/components/Layout.tsx\<close>, the CV
  preload link and the two intersection observers), \<open>Navbar\<close>
  (\<open>src/src/components/NavBar.tsx\<close>, the links, the mobile menu and the theme button)
  and \<open>scrollToRef\<close> (\<open>src/src/utils/scrollUtils.ts\<close>). \<open>site_step\<close> composes them
  with the widget of \<open>Chat_Widget\<close>: \<open>Layout\<close> passes \<open>isChatUiVisible\<close> to the widget
  as \<open>isVisible\<close>, which is the widget's \<open>w_visible\<close>.
  The projects section of \<open>Layout\<close> (line 83) contributes the states of its cards,
  \<open>s_cards\<close>, changed only by the cards' own events (\<open>projects_event\<close> of
  \<open>Portfolio\<close>).

  The browser is abstracted to what the code reads and writes: the \<open>offsetTop\<close> of each
  section that is mounted, the position last requested from \<open>window.scrollTo\<close> (the
  browser's clamping of it to the page is not modelled), the links in the document's
  head, and whether the document element has the class \<open>dark\<close>. The \<open>md\<close>
  breakpoint of the navbar's classes (768 pixels) is the widget's \<open>isMobile\<close> test, so
  both read \<open>is_mobile\<close>.
\<close>

section \<open>Data\<close>

text \<open>\<open>'light' | 'dark'\<close> (\<open>App.tsx\<close> line 7).\<close>

datatype theme = Light | Dark

text \<open>The sections of \<open>SectionRefs\<close> (\<open>src/src/types/index.ts\<close>, lines 42-49).\<close>

datatype page_section = Hero | About | Projects | Skills | Experience | Contact

text \<open>\<open>navLinks\<close> (\<open>NavBar.tsx\<close>, lines 16-23).\<close>

definition nav_links :: "(string \<times> page_section) list" where
  "nav_links =
     [(''Home'', Hero), (''Why Me?'', About), (''Projects'', Projects), (''Skills'', Skills),
      (''Experience'', Experience), (''Contact'', Contact)]"

text \<open>The targets of the hero's buttons (\<open>src/src/components/HeroSection.tsx\<close>):
  \<open>Explore My Work\<close> (line 35), \<open>Connect with Me\<close> (line 41) and the chevron
  (line 68). They call \<open>scrollToRef\<close> directly, not the navbar's handler.\<close>

definition hero_targets :: "page_section list" where
  "hero_targets = [Projects, Contact, About]"

text \<open>Line 38: \<open>professionalProfile.name.split(' ')[0]\<close>.\<close>

definition brand_label :: string where
  "brand_label = hd (js_split (CHR '' '') professional_name)"

section \<open>State\<close>

record site =
  s_theme :: theme
  s_doc_dark :: bool
  s_head_links :: "string list"
  s_hero_in_view :: bool
  s_nav_open :: bool
  s_offsets :: "page_section \<Rightarrow> int option"
  s_scroll_request :: "int option"
  s_widget :: widget
  s_cards :: "card_state list"
  s_thread_store :: "string option"

section \<open>Operations\<close>

text \<open>\<open>App.tsx\<close> lines 9-11: the effect on \<open>theme\<close> puts the class \<open>dark\<close> on the document
  element exactly in the dark theme.\<close>

definition theme_effect :: "site \<Rightarrow> site" where
  "theme_effect s = s\<lparr>s_doc_dark := (s_theme s = Dark)\<rparr>"

text \<open>\<open>NavBar.tsx\<close> lines 52 and 83: \<open>setTheme(theme === 'dark' ? 'light' : 'dark')\<close>.\<close>

definition toggle_theme :: "theme \<Rightarrow> theme" where
  "toggle_theme t = (if t = Dark then Light else Dark)"

text \<open>\<open>scrollUtils.ts\<close> lines 8-16 with the default offset 60: scroll to the section's
  top minus the navbar's height, when the section is mounted.\<close>

definition scroll_to_ref :: "(page_section \<Rightarrow> int option) \<Rightarrow> page_section \<Rightarrow> int \<Rightarrow> int option \<Rightarrow> int option" where
  "scroll_to_ref offsets sec offset req =
     (case offsets sec of Some y \<Rightarrow> Some (y - offset) | None \<Rightarrow> req)"

text \<open>\<open>NavBar.tsx\<close> lines 25-28.\<close>

definition handle_scroll_to_ref :: "page_section \<Rightarrow> site \<Rightarrow> site" where
  "handle_scroll_to_ref sec s =
     s\<lparr>s_scroll_request := scroll_to_ref (s_offsets s) sec 60 (s_scroll_request s),
       s_nav_open := (if s_nav_open s then False else s_nav_open s)\<rparr>"

text \<open>The mount of \<open>App\<close> and \<open>Layout\<close>: the initial theme and its effect, the CV
  preload link (\<open>Layout.tsx\<close> lines 34-47), the hero in view and the widget mounted
  visible (lines 22-23, 87), the menu closed (\<open>NavBar.tsx\<close> line 15).\<close>

text \<open>\<open>useChatNoStream.ts\<close> lines 25-27: the effect on \<open>threadId\<close> writes it to
  \<open>localStorage\<close> under \<open>steve_chat_thread_id\<close> (\<open>s_thread_store\<close>); the thread id
  never changes after the mount, so the effect runs once.\<close>

definition thread_effect :: "site \<Rightarrow> site" where
  "thread_effect s = s\<lparr>s_thread_store := Some (thread_id (w_hook (s_widget s)))\<rparr>"

definition init_site ::
  "(page_section \<Rightarrow> int option) \<Rightarrow> string option \<Rightarrow> timestamp \<Rightarrow> (string \<Rightarrow> msg_limit option) \<Rightarrow>
   int \<Rightarrow> site" where
  "init_site offsets stored t store inner_width =
     thread_effect (theme_effect
       \<lparr>s_theme = Light, s_doc_dark = False, s_head_links = [cv_url], s_hero_in_view = True,
        s_nav_open = False, s_offsets = offsets, s_scroll_request = None,
        s_widget = init_widget True stored t store inner_width,
        s_cards = projects_mount projects_data, s_thread_store = stored\<rparr>)"

section \<open>Events\<close>

datatype site_event =
    SThemeToggle
  | SMenuToggle
  | SNavLink nat
  | SBrand
  | SHeroButton nat
  | SHeroObserved bool
  | SFooterObserved bool
  | SWidget widget_event
  | SProjectCard nat card_event

text \<open>What the navbar offers: it is invisible while the hero is in view
  (\<open>NavBar.tsx\<close> line 31); the link row and its theme button show from the \<open>md\<close>
  breakpoint up (line 40), the menu button below it (line 58) and the menu's links and
  theme button when the menu is open (lines 69-90).\<close>

definition nav_visible :: "site \<Rightarrow> bool" where
  "nav_visible s \<longleftrightarrow> \<not> s_hero_in_view s"

definition links_shown :: "site \<Rightarrow> bool" where
  "links_shown s \<longleftrightarrow>
     nav_visible s \<and> (\<not> is_mobile (w_ui (s_widget s)) \<or> s_nav_open s)"

definition menu_button_shown :: "site \<Rightarrow> bool" where
  "menu_button_shown s \<longleftrightarrow> nav_visible s \<and> is_mobile (w_ui (s_widget s))"

text \<open>One event: a click in the navbar or on a button of the hero (possible while the
  hero is in view), an observer callback (\<open>Layout.tsx\<close> lines 50-53
  for the hero, 59-64 for the footer, whose negation is the widget's \<open>isVisible\<close>,
  line 87), an event of the widget, or one of a project card (\<open>ProjectsSection\<close>,
  line 83, with the cards' state as in \<open>Portfolio\<close>).\<close>

definition site_step :: "json_parser \<Rightarrow> site \<Rightarrow> site_event \<Rightarrow> site option" where
  "site_step parse s e =
     (case e of
        SThemeToggle \<Rightarrow>
          if links_shown s then Some (theme_effect (s\<lparr>s_theme := toggle_theme (s_theme s)\<rparr>)) else None
      | SMenuToggle \<Rightarrow>
          if menu_button_shown s then Some (s\<lparr>s_nav_open := \<not> s_nav_open s\<rparr>) else None
      | SNavLink i \<Rightarrow>
          if links_shown s \<and> i < length nav_links
          then Some (handle_scroll_to_ref (snd (nav_links ! i)) s) else None
      | SBrand \<Rightarrow> if nav_visible s then Some (handle_scroll_to_ref Hero s) else None
      | SHeroButton i \<Rightarrow>
          if s_hero_in_view s \<and> i < length hero_targets
          then Some (s\<lparr>s_scroll_request :=
                         scroll_to_ref (s_offsets s) (hero_targets ! i) 60 (s_scroll_request s)\<rparr>)
          else None
      | SHeroObserved b \<Rightarrow> Some (s\<lparr>s_hero_in_view := b\<rparr>)
      | SFooterObserved b \<Rightarrow> Some (s\<lparr>s_widget := (s_widget s)\<lparr>w_visible := \<not> b\<rparr>\<rparr>)
      | SWidget we \<Rightarrow>
          (case widget_step parse (s_widget s) we of
             None \<Rightarrow> None
           | Some w' \<Rightarrow> Some (s\<lparr>s_widget := w'\<rparr>))
      | SProjectCard i ce \<Rightarrow> Some (s\<lparr>s_cards := projects_event projects_data i ce (s_cards s)\<rparr>))"

fun site_run :: "json_parser \<Rightarrow> site \<Rightarrow> site_event list \<Rightarrow> site option" where
  "site_run parse s [] = Some s"
| "site_run parse s (e # es) =
     (case site_step parse s e of None \<Rightarrow> None | Some s' \<Rightarrow> site_run parse s' es)"

text \<open>A reload of the page at time \<open>t\<close> with a window \<open>inner_width\<close> pixels wide:
  everything is mounted afresh; only \<open>localStorage\<close> survives, with the thread id and
  the stored message limits, and the layout of the sections is the same.\<close>

definition site_reload :: "site \<Rightarrow> timestamp \<Rightarrow> int \<Rightarrow> site" where
  "site_reload s t inner_width =
     init_site (s_offsets s) (s_thread_store s) t (limit_store (w_lim (s_widget s))) inner_width"

inductive site_reach :: "json_parser \<Rightarrow> site \<Rightarrow> bool" for parse where
  start: "site_reach parse (init_site offsets stored t store inner_width)"
| step: "site_reach parse s \<Longrightarrow> site_step parse s e = Some s' \<Longrightarrow> site_reach parse s'"
| reload: "site_reach parse s \<Longrightarrow> site_reach parse (site_reload s t inner_width)"

text \<open>A page on a 1024-pixel-wide screen whose sections are all mounted at the top.\<close>

definition demo_site :: site where
  "demo_site = init_site (\<lambda>_. Some 0) None 0 (\<lambda>_. None) 1024"

text \<open>The events of a run that reach the project cards, in order.\<close>

fun card_events :: "site_event list \<Rightarrow> (nat \<times> card_event) list" where
  "card_events [] = []"
| "card_events (SProjectCard i ce # es) = (i, ce) # card_events es"
| "card_events (_ # es) = card_events es"

section \<open>Lemmas\<close>

subsection \<open>The thread id\<close>

text \<open>No line handler, no request and no event of the widget changes \<open>threadId\<close>.\<close>

lemma read_loop_keeps:
  assumes "\<And>s t l. f (h s t l) = f s"
  shows "f (fst (read_loop h (st, buf) cs)) = f st"
proof (induction cs arbitrary: st buf)
  case Nil
  then show ?case by simp
next
  case (Cons c cs)
  obtain t x where c: "c = (t, x)" by (cases c)
  have "f (fold (\<lambda>l s. if js_trim l = [] then s else h s t l) ls st) = f st" for ls st
    by (induction ls arbitrary: st) (simp_all add: assms)
  then show ?case
    using Cons.IH by (simp add: c handle_lines_def split: prod.splits)
qed

lemma nostream_body_thread: "thread_id (nostream_body parse te r st) = thread_id st"
proof -
  obtain st' buf where rl: "read_loop (nostream_line parse) (st, []) (resp_chunks r) = (st', buf)"
    by (metis surj_pair)
  have "thread_id st' = thread_id st"
    using read_loop_keeps [of thread_id "nostream_line parse" st "[]" "resp_chunks r"] rl
    by (simp add: nostream_line_def)
  then show ?thesis
    by (simp add: nostream_body_def rl finish_buffer_def split: option.splits)
qed

lemma nostream_finish_thread [simp]: "thread_id (nostream_finish parse te out st) = thread_id st"
  by (simp add: nostream_finish_def nostream_body_thread split: fetch_outcome.splits)

lemma widget_send_thread [simp]: "thread_id (w_hook (widget_send t w)) = thread_id (w_hook w)"
proof -
  have "thread_id (case send_start t m h of None \<Rightarrow> h | Some h' \<Rightarrow> h') = thread_id h" for m h
    using send_start_Some [of t m h] by (cases "send_start t m h") auto
  then show ?thesis by (simp add: widget_send_def split: prod.splits)
qed

lemma widget_step_thread:
  "widget_step parse w e = Some w' \<Longrightarrow> thread_id (w_hook w') = thread_id (w_hook w)"
  by (cases e) (auto simp: widget_step_def settle_def handle_enter_press_def Let_def split: if_splits)

lemma init_thread_id_nonempty: "init_thread_id stored t \<noteq> []"
  by (simp add: init_thread_id_def split: option.splits)

lemma site_step_thread:
  "site_step parse s e = Some s' \<Longrightarrow>
   thread_id (w_hook (s_widget s')) = thread_id (w_hook (s_widget s)) \<and> s_thread_store s' = s_thread_store s"
  by (cases e)
     (auto simp: site_step_def theme_effect_def handle_scroll_to_ref_def dest: widget_step_thread
        split: if_splits option.splits)

lemma init_site_thread:
  "thread_id (w_hook (s_widget (init_site offsets stored t store w))) = init_thread_id stored t"
  "s_thread_store (init_site offsets stored t store w) = Some (init_thread_id stored t)"
  by (simp_all add: init_site_def thread_effect_def theme_effect_def init_widget_def init_chat_state_def)

text \<open>In every state of the page the thread id is stored, and it is not empty.\<close>

lemma site_thread_stored:
  "site_reach parse s \<Longrightarrow>
   s_thread_store s = Some (thread_id (w_hook (s_widget s))) \<and> thread_id (w_hook (s_widget s)) \<noteq> []"
proof (induction rule: site_reach.induct)
  case (start offsets stored t store inner_width)
  then show ?case by (simp add: init_site_thread init_thread_id_nonempty)
next
  case (step s e s')
  then show ?case using site_step_thread [OF step.hyps(2)] by simp
next
  case (reload s t inner_width)
  then show ?case by (simp add: site_reload_def init_site_thread init_thread_id_nonempty)
qed

subsection \<open>The page\<close>

lemma site_step_theme:
  "site_step parse s e = Some s' \<Longrightarrow> s_doc_dark s = (s_theme s = Dark) \<Longrightarrow> s_doc_dark s' = (s_theme s' = Dark)"
  by (cases e) (auto simp: site_step_def theme_effect_def handle_scroll_to_ref_def split: if_splits option.splits)

lemma site_theme_class:
  "site_reach parse s \<Longrightarrow> s_doc_dark s = (s_theme s = Dark)"
proof (induction rule: site_reach.induct)
  case (start offsets stored t store inner_width)
  then show ?case by (simp add: init_site_def theme_effect_def thread_effect_def)
next
  case (step s e s')
  show ?case by (rule site_step_theme [OF step.hyps(2) step.IH])
next
  case (reload s t inner_width)
  show ?case by (simp add: site_reload_def init_site_def theme_effect_def thread_effect_def)
qed

lemma site_nav_link:
  assumes "links_shown s" and "i < length nav_links" and "s_offsets s (snd (nav_links ! i)) = Some y"
  shows "site_step parse s (SNavLink i) = Some (s\<lparr>s_scroll_request := Some (y - 60), s_nav_open := False\<rparr>)"
  using assms by (simp add: site_step_def handle_scroll_to_ref_def scroll_to_ref_def)

lemma site_hidden_escape:
  assumes "\<not> w_visible (s_widget s)" and "\<not> is_mobile (w_ui (s_widget s))"
    and "is_chat_expanded (w_ui (s_widget s))"
  shows "\<exists>s'. site_step parse s (SWidget (WDocKey ''Escape'')) = Some s' \<and>
           \<not> is_chat_expanded (w_ui (s_widget s'))"
  using assms by (simp add: site_step_def widget_step_def handle_esc_key_def toggle_chat_expansion_def)

lemma site_step_cards:
  "site_step parse s e = Some s' \<Longrightarrow>
   s_cards s' = (case e of SProjectCard i ce \<Rightarrow> projects_event projects_data i ce (s_cards s) | _ \<Rightarrow> s_cards s)"
  by (cases e) (auto simp: site_step_def theme_effect_def handle_scroll_to_ref_def split: if_splits option.splits)

lemma site_step_head_links:
  "site_step parse s e = Some s' \<Longrightarrow> s_head_links s' = s_head_links s"
  by (cases e) (auto simp: site_step_def theme_effect_def handle_scroll_to_ref_def split: if_splits option.splits)

text \<open>The CV the contact section offers for download is the one \<open>Layout\<close> preloads, in
  every state of the page.\<close>

lemma site_cv_preloaded:
  "site_reach parse s \<Longrightarrow> ct_download (render_contact professional_profile_data) \<in> set (s_head_links s)"
proof (induction rule: site_reach.induct)
  case (start offsets stored t store inner_width)
  then show ?case
    by (simp add: init_site_def theme_effect_def thread_effect_def render_contact_def professional_profile_data_def)
next
  case (step s e s')
  then show ?case using site_step_head_links [OF step.hyps(2)] by simp
next
  case (reload s t inner_width)
  show ?case
    by (simp add: site_reload_def init_site_def theme_effect_def thread_effect_def render_contact_def
        professional_profile_data_def)
qed

text \<open>C33: the widget hidden by the footer keeps its state: a request pending when the
  footer scrolls into view completes while the widget renders nothing (line 313 returns
  \<open>null\<close>: neither the card nor the mobile bubble is on screen), and when the footer
  leaves the view the widget shows the completed conversation.\<close>

theorem site_hidden_request_completes:
  assumes "is_loading (w_hook (s_widget s))"
  shows "site_run parse s [SFooterObserved True, SWidget (WResponse te out)] =
           Some (s\<lparr>s_widget := settle ((s_widget s)\<lparr>w_visible := False,
                      w_hook := nostream_finish parse te out (w_hook (s_widget s))\<rparr>)\<rparr>) \<and>
         \<not> full_shown (settle ((s_widget s)\<lparr>w_visible := False,
                      w_hook := nostream_finish parse te out (w_hook (s_widget s))\<rparr>)) \<and>
         \<not> toggle_shown (settle ((s_widget s)\<lparr>w_visible := False,
                      w_hook := nostream_finish parse te out (w_hook (s_widget s))\<rparr>)) \<and>
         site_run parse s [SFooterObserved True, SWidget (WResponse te out), SFooterObserved False] =
           Some (s\<lparr>s_widget := settle ((s_widget s)\<lparr>w_visible := True,
                      w_hook := nostream_finish parse te out (w_hook (s_widget s))\<rparr>)\<rparr>)"
  using assms by (simp add: site_step_def widget_step_def settle_def full_shown_def toggle_shown_def)

theorem site_hidden_request_completes_witness:
  "site_run (\<lambda>_. None) (the (site_run (\<lambda>_. None) demo_site [SWidget (WType ''hi''), SWidget (WSendClick 5)]))
     [SFooterObserved True, SWidget (WResponse 6 (FetchRejected ''offline''))] =
   Some ((the (site_run (\<lambda>_. None) demo_site [SWidget (WType ''hi''), SWidget (WSendClick 5)]))
     \<lparr>s_widget := settle ((s_widget (the (site_run (\<lambda>_. None) demo_site [SWidget (WType ''hi''), SWidget (WSendClick 5)])))
        \<lparr>w_visible := False,
         w_hook := nostream_finish (\<lambda>_. None) 6 (FetchRejected ''offline'')
                     (w_hook (s_widget (the (site_run (\<lambda>_. None) demo_site [SWidget (WType ''hi''), SWidget (WSendClick 5)]))))\<rparr>)\<rparr>) \<and>
   \<not> full_shown (settle ((s_widget (the (site_run (\<lambda>_. None) demo_site [SWidget (WType ''hi''), SWidget (WSendClick 5)])))
        \<lparr>w_visible := False,
         w_hook := nostream_finish (\<lambda>_. None) 6 (FetchRejected ''offline'')
                     (w_hook (s_widget (the (site_run (\<lambda>_. None) demo_site [SWidget (WType ''hi''), SWidget (WSendClick 5)]))))\<rparr>)) \<and>
   \<not> toggle_shown (settle ((s_widget (the (site_run (\<lambda>_. None) demo_site [SWidget (WType ''hi''), SWidget (WSendClick 5)])))
        \<lparr>w_visible := False,
         w_hook := nostream_finish (\<lambda>_. None) 6 (FetchRejected ''offline'')
                     (w_hook (s_widget (the (site_run (\<lambda>_. None) demo_site [SWidget (WType ''hi''), SWidget (WSendClick 5)]))))\<rparr>)) \<and>
   site_run (\<lambda>_. None) (the (site_run (\<lambda>_. None) demo_site [SWidget (WType ''hi''), SWidget (WSendClick 5)]))
     [SFooterObserved True, SWidget (WResponse 6 (FetchRejected ''offline'')), SFooterObserved False] =
   Some ((the (site_run (\<lambda>_. None) demo_site [SWidget (WType ''hi''), SWidget (WSendClick 5)]))
     \<lparr>s_widget := settle ((s_widget (the (site_run (\<lambda>_. None) demo_site [SWidget (WType ''hi''), SWidget (WSendClick 5)])))
        \<lparr>w_visible := True,
         w_hook := nostream_finish (\<lambda>_. None) 6 (FetchRejected ''offline'')
                     (w_hook (s_widget (the (site_run (\<lambda>_. None) demo_site [SWidget (WType ''hi''), SWidget (WSendClick 5)]))))\<rparr>)\<rparr>)"
  by (rule site_hidden_request_completes)
     (simp add: demo_site_def init_site_def theme_effect_def thread_effect_def site_step_def demo_simps widget_send_def
        handle_send_message_def record_limit_def MESSAGE_LIMIT_def COOLDOWN_PERIOD_def settle_def
        send_start_def Let_def)

text \<open>C39: the rest of the page never touches the project cards: after any run of
  the page (navbar, hero, observers, the chat widget and the cards), the cards are in
  the state the projects section alone reaches from the same card events.\<close>

theorem site_cards_isolated:
  assumes "site_run parse s es = Some s'"
  shows "s_cards s' = projects_run projects_data (card_events es) (s_cards s)"
  using assms
proof (induction es arbitrary: s)
  case Nil
  then show ?case by simp
next
  case (Cons e es)
  then obtain s1 where s1: "site_step parse s e = Some s1" and r: "site_run parse s1 es = Some s'"
    by (auto split: option.splits)
  show ?case
    using Cons.IH [OF r] site_step_cards [OF s1] by (cases e) simp_all
qed

theorem site_cards_isolated_witness:
  "s_cards (the (site_run (\<lambda>_. None) demo_site
     [SProjectCard 0 CardToggle, SHeroObserved False, SThemeToggle, SProjectCard 2 CardImageError])) =
   projects_run projects_data [(0, CardToggle), (2, CardImageError)] (s_cards demo_site)"
  using site_cards_isolated [of "\<lambda>_. None" demo_site
     "[SProjectCard 0 CardToggle, SHeroObserved False, SThemeToggle, SProjectCard 2 CardImageError]"
     "the (site_run (\<lambda>_. None) demo_site
        [SProjectCard 0 CardToggle, SHeroObserved False, SThemeToggle, SProjectCard 2 CardImageError])"]
  by (simp add: demo_site_def init_site_def theme_effect_def thread_effect_def site_step_def links_shown_def nav_visible_def demo_simps)

text \<open>C32: the session's thread survives a reload: from any state of the page, a
  reload reads back the thread id the hook stored and sends it with the next request,
  while the conversation restarts empty, the theme is light again and the project cards
  are collapsed.\<close>

theorem site_reload_keeps_thread:
  assumes "site_reach parse s"
  shows "thread_id (w_hook (s_widget (site_reload s t w))) = thread_id (w_hook (s_widget s)) \<and>
         s_thread_store (site_reload s t w) = s_thread_store s \<and>
         messages (w_hook (s_widget (site_reload s t w))) = [] \<and>
         s_theme (site_reload s t w) = Light \<and>
         s_cards (site_reload s t w) = projects_mount projects_data"
proof -
  from site_thread_stored [OF assms]
  have st: "s_thread_store s = Some (thread_id (w_hook (s_widget s)))"
    and ne: "thread_id (w_hook (s_widget s)) \<noteq> []" by simp_all
  show ?thesis
    using st ne
    by (simp add: site_reload_def init_site_thread init_thread_id_def)
       (simp add: init_site_def thread_effect_def theme_effect_def init_widget_def init_chat_state_def)
qed

theorem site_reload_keeps_thread_witness:
  "thread_id (w_hook (s_widget (site_reload demo_site 5000 390))) = ''thread-0'' \<and>
   s_thread_store (site_reload demo_site 5000 390) = Some ''thread-0'' \<and>
   messages (w_hook (s_widget (site_reload demo_site 5000 390))) = [] \<and>
   s_theme (site_reload demo_site 5000 390) = Light \<and>
   s_cards (site_reload demo_site 5000 390) = projects_mount projects_data"
  using site_reload_keeps_thread [OF site_reach.start [of "\<lambda>_. None" "\<lambda>_. Some 0" None 0 "\<lambda>_. None" 1024], of 5000 390]
  by (simp add: demo_site_def init_site_thread init_thread_id_def nat_str.simps char_of_def bit_0)

end
