(* ===== verification/Tool_Cards.thy ===== *)
theory Tool_Cards
  imports Chat_UI
begin

text \<open>
  The cards \<open>ToolOutputDisplay\<close> shows for the three known tools
  (\<open>src/src/components/tools/WeatherCard.tsx\<close>, \<open>GithubCard.tsx\<close>,
  \<open>LinkedInCard.tsx\<close>) and the raw card of its fallback, rendered from the tool's
  \<open>output\<close> as the server sent it. Each card is a function from that value to the
  texts it shows (\<open>Inr\<close>) or to the message of the exception its render throws
  (\<open>Inl\<close>): a \<open>TypeError\<close> of the card's own expressions (\<open>toUpperCase\<close> of a
  field that is not a string), or React's refusal to render an object as a child
  (\<open>react_text\<close>). The skeletons are static markup. \<open>render_tree\<close> completes
  \<open>render_chat\<close>: the widget renders when its own JSX and every card on screen do.

  \<open>toLocaleString\<close> of \<open>formatDate\<close> is a parameter \<open>fmt\<close> of the model (the
  \<open>Intl\<close> library). \<open>toUpperCase\<close> is exact on the 8-bit characters the model's
  strings hold, except the micro sign (0xB5) and y with diaeresis (0xFF), whose capitals
  lie outside them (\<open>js_upper\<close> leaves those two unchanged).
\<close>

section \<open>React children and string methods\<close>

text \<open>The text React renders for a value used as a child: strings and numbers as
  text, \<open>null\<close>, \<open>undefined\<close> and booleans as nothing, arrays element by element;
  a plain object throws.\<close>

fun react_text :: "jsv \<Rightarrow> string + string" and react_texts :: "jsv list \<Rightarrow> string + string" where
  "react_text JUndef = Inr []"
| "react_text JNull = Inr []"
| "react_text (JBool b) = Inr []"
| "react_text (JNum i) = Inr (int_str i)"
| "react_text JNaN = Inr ''NaN''"
| "react_text (JStr s) = Inr s"
| "react_text (JArr xs) = react_texts xs"
| "react_text (JObj kvs) = Inl ''Objects are not valid as a React child''"
| "react_texts [] = Inr []"
| "react_texts (x # xs) =
     (case react_text x of
        Inl e \<Rightarrow> Inl e
      | Inr s \<Rightarrow> (case react_texts xs of Inl e \<Rightarrow> Inl e | Inr s' \<Rightarrow> Inr (s @ s')))"

text \<open>\<open>String.prototype.toUpperCase\<close> on 8-bit characters: ASCII and Latin-1 letters,
  \<open>\<ss>\<close> becoming \<open>SS\<close>.\<close>

definition js_upper_char :: "char \<Rightarrow> string" where
  "js_upper_char c =
     (let n = of_char c :: nat
      in if (97 \<le> n \<and> n \<le> 122) \<or> (224 \<le> n \<and> n \<le> 254 \<and> n \<noteq> 247) then [char_of (n - 32)]
         else if n = 223 then ''SS'' else [c])"

definition js_upper :: "string \<Rightarrow> string" where
  "js_upper s = concat (map js_upper_char s)"

text \<open>\<open>v.toUpperCase()\<close>: only strings have the method; reading it from \<open>null\<close> or
  \<open>undefined\<close> throws, and so does calling the \<open>undefined\<close> read from any other value.\<close>

definition js_to_upper_case :: "string \<Rightarrow> jsv \<Rightarrow> string + string" where
  "js_to_upper_case expr v =
     (case v of
        JStr s \<Rightarrow> Inr (js_upper s)
      | _ \<Rightarrow> if js_nullish v then Inl (js_prop_error v ''toUpperCase'')
             else Inl (expr @ ''.toUpperCase is not a function''))"

section \<open>WeatherCard\<close>

text \<open>Lines 19-69. The degree sign of line 45 is stored in the file as the bytes
  C3 82 C2 B0, the UTF-8 encoding of the two characters 0xC2 0xB0 (the degree sign
  encoded twice), so the text after the temperature is those two characters and \<open>C\<close>.\<close>

definition degree_c :: string where
  "degree_c = [CHR 0xC2, CHR 0xB0, CHR ''C'']"

record weather_view =
  wv_temperature :: string
  wv_rain :: string
  wv_place :: string
  wv_updated :: string

definition weather_card :: "(jsv \<Rightarrow> string) \<Rightarrow> jsv \<Rightarrow> string + weather_view" where
  "weather_card fmt output =
     (if js_nullish output then Inl (js_prop_error output ''currentTemperature'')
      else
        (let g = js_get output in
         bind_ex (js_to_upper_case ''output.region'' (g ''region'')) (\<lambda>region.
         bind_ex (js_to_upper_case ''output.country'' (g ''country'')) (\<lambda>country.
         bind_ex (react_text (g ''currentTemperature'')) (\<lambda>temp.
         bind_ex (react_text (g ''currentRain'')) (\<lambda>rain.
         bind_ex (react_text (g ''city'')) (\<lambda>city.
           Inr \<lparr>wv_temperature = temp @ degree_c, wv_rain = rain @ ''% rain'',
                wv_place = city @ '', '' @ region @ '', '' @ country,
                wv_updated = ''Updated: '' @ fmt (g ''currentTime'')\<rparr>)))))))"

section \<open>GithubCard\<close>

text \<open>Lines 35-88: the name (or the user name), \<open>@user\<close>, the bio and the location when
  truthy, the number of repositories, the featured repository's link and the profile URL
  the button opens.\<close>

text \<open>What \<open>{v && <p>{v}</p>}\<close> renders: for a truthy \<open>v\<close> the element with \<open>v\<close> as its
  child; for a falsy one the value of \<open>v &&\<close> itself, which React shows as text when
  it is a number (\<open>0\<close>, \<open>NaN\<close>) and not at all otherwise.\<close>

datatype opt_child = Absent | Bare string | Shown string

record github_view =
  gv_title :: string
  gv_handle :: string
  gv_bio :: opt_child
  gv_location :: opt_child
  gv_repos :: string
  gv_repo_href :: jsv
  gv_profile_url :: jsv

definition react_opt :: "jsv \<Rightarrow> string + opt_child" where
  \<comment> \<open>\<open>{v && <p>{v}</p>}\<close>\<close>
  "react_opt v =
     (if js_truthy v then map_sum id Shown (react_text v)
      else (case v of JNum i \<Rightarrow> Inr (Bare (int_str i)) | JNaN \<Rightarrow> Inr (Bare ''NaN'') | _ \<Rightarrow> Inr Absent))"

definition github_card :: "jsv \<Rightarrow> string + github_view" where
  "github_card output =
     (if js_nullish output then Inl (js_prop_error output ''name'')
      else
        (let g = js_get output in
         bind_ex (react_text (js_or (g ''name'') (g ''username''))) (\<lambda>title.
         bind_ex (react_text (g ''username'')) (\<lambda>user.
         bind_ex (react_opt (g ''bio'')) (\<lambda>bio.
         bind_ex (react_opt (g ''location'')) (\<lambda>loc.
         bind_ex (react_text (g ''num_repos'')) (\<lambda>repos.
           Inr \<lparr>gv_title = title, gv_handle = ''@'' @ user, gv_bio = bio, gv_location = loc,
                gv_repos = repos @ '' repositories'', gv_repo_href = g ''repo'',
                gv_profile_url = g ''profile_url''\<rparr>)))))))"

section \<open>LinkedInCard\<close>

text \<open>Lines 19-60.\<close>

record linkedin_view =
  lv_name :: string
  lv_headline :: string
  lv_location :: opt_child
  lv_connections :: opt_child
  lv_profile_url :: jsv

definition linkedin_card :: "jsv \<Rightarrow> string + linkedin_view" where
  "linkedin_card output =
     (if js_nullish output then Inl (js_prop_error output ''name'')
      else
        (let g = js_get output in
         bind_ex (react_text (g ''name'')) (\<lambda>name.
         bind_ex (react_text (g ''headline'')) (\<lambda>headline.
         bind_ex (react_opt (g ''location'')) (\<lambda>loc.
         bind_ex (react_opt (g ''connections'')) (\<lambda>conn.
           Inr \<lparr>lv_name = name, lv_headline = headline, lv_location = loc,
                lv_connections = (case conn of Shown c \<Rightarrow> Shown (c @ '' connections'') | c \<Rightarrow> c),
                lv_profile_url = g ''profile_url''\<rparr>))))))"

section \<open>The cards on screen\<close>

text \<open>What a tool's part of a row finally shows (\<open>ToolOutputDisplay.tsx\<close>, lines
  17-39, with the card components): a card, a skeleton, nothing, or the raw card, whose
  \<open>{toolName}\<close> and \<open>{toolCallId}\<close> are React children (the arguments and the output
  go through \<open>JSON.stringify\<close>, which does not throw on these values).\<close>

datatype card_view =
    WeatherView weather_view
  | GithubView github_view
  | LinkedInView linkedin_view
  | SkeletonView
  | NoCard
  | RawView string jsv jsv string

fun render_tool_view :: "(jsv \<Rightarrow> string) \<Rightarrow> tool_view \<Rightarrow> string + card_view" where
  "render_tool_view fmt (WeatherCard out) = map_sum id WeatherView (weather_card fmt out)"
| "render_tool_view fmt (GithubCard out) = map_sum id GithubView (github_card out)"
| "render_tool_view fmt (LinkedInCard out) = map_sum id LinkedInView (linkedin_card out)"
| "render_tool_view fmt NoToolView = Inr NoCard"
| "render_tool_view fmt (RawToolCard n a out c) =
     bind_ex (react_text n) (\<lambda>ns. bind_ex (react_text c) (\<lambda>cs. Inr (RawView ns a out cs)))"
| "render_tool_view fmt _ = Inr SkeletonView"

text \<open>The parts of the message rows in tree order: the cards of the tool outputs, and
  the \<open>{msg.content}\<close> children of the user and error bubbles (the agent's content goes
  to the Markdown renderer, which is not modelled).\<close>

fun piece_cards :: "(jsv \<Rightarrow> string) \<Rightarrow> msg_piece \<Rightarrow> string + card_view list" where
  "piece_cards fmt (ToolOutputPiece tv) = map_sum id (\<lambda>c. [c]) (render_tool_view fmt tv)"
| "piece_cards fmt (UserPiece c) = map_sum id (\<lambda>_. []) (react_text c)"
| "piece_cards fmt (ErrorPiece c) = map_sum id (\<lambda>_. []) (react_text c)"
| "piece_cards fmt _ = Inr []"

fun view_pieces :: "chat_view \<Rightarrow> msg_piece list" where
  "view_pieces (FullChat cs bs h (Some b) i) = concat (map row_pieces (body_rows b))"
| "view_pieces _ = []"

text \<open>The whole tree: the widget's own JSX, then its children in tree order.\<close>

definition render_tree ::
  "(jsv \<Rightarrow> string) \<Rightarrow> bool \<Rightarrow> ui_state \<Rightarrow> chat_state \<Rightarrow> limiter_state \<Rightarrow>
   string + (chat_view \<times> card_view list) option" where
  "render_tree fmt is_visible u hs ls =
     bind_ex (render_chat is_visible u hs ls) (\<lambda>v.
       case v of
         None \<Rightarrow> Inr None
       | Some cv \<Rightarrow> map_sum id (\<lambda>cs. Some (cv, concat cs)) (map_except (piece_cards fmt) (view_pieces cv)))"

text \<open>A server whose every line is a \<open>weather-data\<close> tool output with the given output.\<close>

definition weather_line :: "jsv \<Rightarrow> json_parser" where
  "weather_line out l = Some (JObj [(''type'', JStr ''tool_output''), (''tool_name'', JStr ''weather-data''),
                                    (''output'', out)])"

section \<open>Lemmas\<close>

lemma list_all2_in_set:
  "list_all2 P xs ys \<Longrightarrow> x \<in> set xs \<Longrightarrow> \<exists>y \<in> set ys. P x y"
  by (induction rule: list_all2_induct) auto

lemma weather_card_region:
  "\<not> js_is_string (js_get out ''region'') \<Longrightarrow> isl (weather_card fmt out)"
  by (cases "js_get out ''region''")
     (auto simp: weather_card_def js_to_upper_case_def Let_def)

lemma render_message_tool:
  assumes "msg_type m = JStr ''tool_output''" and "js_truthy (msg_tool_name m)" and "js_truthy (msg_output m)"
  shows "render_message u m =
           Inr (MsgRow (msg_id m) False
                 [ToolOutputPiece (tool_output_display (msg_tool_name m) (msg_tool_args m) (msg_output m)
                    (js_or (msg_tool_call_id m) (JStr []))
                    (loading_tool_output_id u = Some (msg_id m) \<and> is_skeleton_loading u))])"
  using assms by (simp add: render_message_def Let_def)

lemma render_chat_expanded:
  assumes "is_chat_expanded u" and "render_body u hs = Inr b"
  shows "\<exists>cs bs ih. render_chat True u hs ls = Inr (Some (FullChat cs bs ih (Some b) (render_input u hs ls)))"
  using assms by (simp add: render_chat_def)

lemma row_in_body:
  assumes "render_body u hs = Inr b" and "m \<in> set (messages hs)"
  shows "\<exists>r \<in> set (body_rows b). render_message u m = Inr r"
proof -
  obtain rs where rs: "map_except (render_message u) (messages hs) = Inr rs" and b: "body_rows b = rs"
    using assms(1) by (auto simp: render_body_def)
  show ?thesis
    using list_all2_in_set [OF map_except_Inr_map [OF rs] assms(2)] b by simp
qed

lemma tool_line_message:
  assumes "parse line = Some data" and "\<not> js_nullish data"
    and "js_get data ''type'' = JStr ''tool_output''"
  shows "msg_type (nostream_line_message parse t line) = JStr ''tool_output'' \<and>
         msg_tool_name (nostream_line_message parse t line) = js_get data ''tool_name'' \<and>
         msg_output (nostream_line_message parse t line) = js_get data ''output''"
  using assms by (simp add: nostream_line_message_def nostream_new_message_def mk_message_def Let_def)

text \<open>C34: one \<open>weather-data\<close> tool output whose \<open>region\<close> is not a string takes
  the whole widget down: while its skeleton is not showing, rendering an expanded chat
  that contains it throws (\<open>output.region.toUpperCase()\<close> in \<open>WeatherCard\<close>).\<close>

theorem render_tree_weather_crash:
  assumes "m \<in> set (messages hs)" and "msg_type m = JStr ''tool_output''"
    and "msg_tool_name m = JStr ''weather-data''" and "js_truthy (msg_output m)"
    and "\<not> js_is_string (js_get (msg_output m) ''region'')" and "is_chat_expanded u"
    and "\<not> (loading_tool_output_id u = Some (msg_id m) \<and> is_skeleton_loading u)"
  shows "\<exists>e. render_tree fmt True u hs ls = Inl e"
proof (cases "render_body u hs")
  case (Inl e)
  then show ?thesis using assms(6) by (simp add: render_tree_def render_chat_def)
next
  case (Inr b)
  obtain cs bs ih where rc: "render_chat True u hs ls = Inr (Some (FullChat cs bs ih (Some b) (render_input u hs ls)))"
    using render_chat_expanded [OF assms(6) Inr] by blast
  obtain r where r: "r \<in> set (body_rows b)" and rm: "render_message u m = Inr r"
    using row_in_body [OF Inr assms(1)] by blast
  have "r = MsgRow (msg_id m) False [ToolOutputPiece (WeatherCard (msg_output m))]"
    using rm render_message_tool [OF assms(2) _ assms(4), of u] assms(3,7)
    by (simp add: tool_output_display_def)
  then have p: "ToolOutputPiece (WeatherCard (msg_output m)) \<in> set (view_pieces (FullChat cs bs ih (Some b) (render_input u hs ls)))"
    using r by force
  have "isl (piece_cards fmt (ToolOutputPiece (WeatherCard (msg_output m))))"
    using weather_card_region [OF assms(5), of fmt] by (auto simp: isl_def)
  then have "isl (map_except (piece_cards fmt) (view_pieces (FullChat cs bs ih (Some b) (render_input u hs ls))))"
    by (rule map_except_isl [OF p])
  then show ?thesis by (auto simp: render_tree_def rc isl_def)
qed


theorem render_tree_weather_crash_witness:
  "\<exists>e. render_tree (\<lambda>_. ''9:00 AM'') True (init_ui\<lparr>is_chat_expanded := True\<rparr>)
        (init_chat_state None 0\<lparr>messages :=
           [nostream_line_message (weather_line (JObj [(''city'', JStr ''Manila'')])) 5 ''{...}'']\<rparr>)
        (limiter_init (\<lambda>_. None)) = Inl e"
  by (rule render_tree_weather_crash
        [where m = "nostream_line_message (weather_line (JObj [(''city'', JStr ''Manila'')])) 5 ''{...}''"])
     (simp_all add: nostream_line_message_def nostream_new_message_def weather_line_def js_nullish_def
        mk_message_def init_chat_state_def init_ui_def Let_def)

text \<open>C35: end to end, a complete body line that decodes to a \<open>weather-data\<close> tool
  output whose card renders becomes a message whose row shows exactly that card.\<close>

theorem tool_line_weather_card:
  assumes "parse line = Some data" and "\<not> js_nullish data"
    and "js_get data ''type'' = JStr ''tool_output''" and "js_get data ''tool_name'' = JStr ''weather-data''"
    and "js_truthy (js_get data ''output'')" and "weather_card fmt (js_get data ''output'') = Inr wv"
    and "is_chat_expanded u" and "\<not> is_skeleton_loading u"
  shows "\<exists>cv. render_tree fmt True u (hs\<lparr>messages := [nostream_line_message parse t line]\<rparr>) ls =
               Inr (Some (cv, [WeatherView wv]))"
proof -
  let ?m = "nostream_line_message parse t line"
  have m: "msg_type ?m = JStr ''tool_output''" "msg_tool_name ?m = JStr ''weather-data''"
          "msg_output ?m = js_get data ''output''"
    using tool_line_message [of parse line data t, OF assms(1-3)] assms(4) by simp_all
  have rm: "render_message u ?m = Inr (MsgRow (msg_id ?m) False [ToolOutputPiece (WeatherCard (js_get data ''output''))])"
    using render_message_tool [OF m(1) _ , of u] m assms(5,8) by (simp add: tool_output_display_def)
  show ?thesis
    using assms(6,7) rm by (simp add: render_tree_def render_chat_def render_body_def)
qed

theorem tool_line_weather_card_witness:
  "\<exists>cv. render_tree (\<lambda>_. ''9:00 AM'') True (init_ui\<lparr>is_chat_expanded := True\<rparr>)
     (init_chat_state None 0\<lparr>messages :=
        [nostream_line_message (weather_line (JObj [(''city'', JStr ''Manila''), (''region'', JStr ''Metro Manila''),
           (''country'', JStr ''ph''), (''currentTemperature'', JNum 31), (''currentRain'', JNum 20)])) 5 ''{...}'']\<rparr>)
     (limiter_init (\<lambda>_. None)) =
   Inr (Some (cv, [WeatherView \<lparr>wv_temperature = ''31'' @ degree_c, wv_rain = ''20% rain'',
                                wv_place = ''Manila, METRO MANILA, PH'', wv_updated = ''Updated: 9:00 AM''\<rparr>]))"
  by (rule tool_line_weather_card [where data = "JObj [(''type'', JStr ''tool_output''), (''tool_name'', JStr ''weather-data''),
        (''output'', JObj [(''city'', JStr ''Manila''), (''region'', JStr ''Metro Manila''),
           (''country'', JStr ''ph''), (''currentTemperature'', JNum 31), (''currentRain'', JNum 20)])]"])
     (simp_all add: weather_line_def js_nullish_def init_ui_def weather_card_def js_to_upper_case_def js_upper_def
        js_upper_char_def int_str_def nat_str.simps Let_def char_of_def bit_0)

end
