(* ===== verification/Tabs.thy ===== *)
theory Tabs
  imports Rate_Limit
begin

text \<open>
  Two tabs (or windows) of the site in one browser: each mounts its own
  \<open>ChatAssistant\<close> with its own React state, while \<open>localStorage\<close> is one store for
  both. The two limiters of \<open>Rate_Limit\<close> are composed by interleaving: an event
  belongs to one tab, runs that tab's \<open>limiter_step\<close>, and the store it leaves is the
  store both tabs see afterwards (\<open>share_store\<close>). The store is written on every
  accepted send (\<open>ChatUI.tsx\<close> line 209) but read only when the network id resolves
  (line 75), so the tabs' counts do not meet.
\<close>

section \<open>Two tabs\<close>

datatype tab = TabA | TabB

type_synonym tabs = "limiter_state \<times> limiter_state"

text \<open>After a step of one tab, the other tab reads the same \<open>localStorage\<close>.\<close>

definition share_store :: "limiter_state \<Rightarrow> limiter_state \<Rightarrow> limiter_state" where
  "share_store writer other = other\<lparr>limit_store := limit_store writer\<rparr>"

fun tabs_step :: "tabs \<Rightarrow> tab \<times> limiter_event \<Rightarrow> tabs \<times> bool" where
  "tabs_step (a, b) (TabA, e) = (let (a', sent) = limiter_step a e in ((a', share_store a' b), sent))"
| "tabs_step (a, b) (TabB, e) = (let (b', sent) = limiter_step b e in ((share_store b' a, b'), sent))"

fun tabs_run :: "tabs \<Rightarrow> (tab \<times> limiter_event) list \<Rightarrow> tabs \<times> bool list" where
  "tabs_run ts [] = (ts, [])"
| "tabs_run ts (e # es) =
     (let (ts', sent) = tabs_step ts e; (ts'', sents) = tabs_run ts' es in (ts'', sent # sents))"

text \<open>The events of one tab, in order.\<close>

fun tab_events :: "tab \<Rightarrow> (tab \<times> limiter_event) list \<Rightarrow> limiter_event list" where
  "tab_events x [] = []"
| "tab_events x ((y, e) # es) = (if y = x then e # tab_events x es else tab_events x es)"

section \<open>Lemmas\<close>

lemma snd_tabs_run_Cons [simp]:
  "snd (tabs_run ts (e # es)) = snd (tabs_step ts e) # snd (tabs_run (fst (tabs_step ts e)) es)"
  by (simp split: prod.split)

lemma snd_limiter_run_Cons [simp]:
  "snd (limiter_run st (e # es)) = snd (limiter_step st e) # snd (limiter_run (fst (limiter_step st e)) es)"
  by (simp split: prod.split)

lemma fst_tabs_run_Cons [simp]:
  "fst (tabs_run ts (e # es)) = fst (tabs_run (fst (tabs_step ts e)) es)"
  by (simp split: prod.split)

declare tabs_run.simps(2) [simp del] limiter_run.simps(2) [simp del]

lemma local_view_share [simp]: "local_view (share_store w st) = local_view st"
  by (simp add: share_store_def local_view_def)

lemma tabs_run_local:
  assumes "list_all (local_event \<circ> snd) es"
    and "local_view a = local_view a0" and "local_view b = local_view b0"
  shows "count_list (snd (tabs_run (a, b) es)) True =
         count_list (snd (limiter_run a0 (tab_events TabA es))) True +
         count_list (snd (limiter_run b0 (tab_events TabB es))) True"
  using assms
proof (induction es arbitrary: a b a0 b0)
  case Nil
  then show ?case by simp
next
  case (Cons x es)
  obtain y e where x: "x = (y, e)" by (cases x)
  show ?case
  proof (cases y)
    case TabA
    obtain a' s where a': "limiter_step a e = (a', s)" by (metis surj_pair)
    obtain a0' s0 where a0': "limiter_step a0 e = (a0', s0)" by (metis surj_pair)
    have loc: "local_event e" using Cons.prems(1) x by simp
    from limiter_step_local [OF loc Cons.prems(2)] a' a0'
    have v: "local_view a' = local_view a0'" and s: "s = s0" by simp_all
    have ih: "count_list (snd (tabs_run (a', share_store a' b) es)) True =
              count_list (snd (limiter_run a0' (tab_events TabA es))) True +
              count_list (snd (limiter_run b0 (tab_events TabB es))) True"
      using Cons.IH [where a = a' and b = "share_store a' b" and a0 = a0' and b0 = b0] Cons.prems x v by simp
    show ?thesis
      using ih a' a0' s by (simp add: x TabA)
  next
    case TabB
    obtain b' s where b': "limiter_step b e = (b', s)" by (metis surj_pair)
    obtain b0' s0 where b0': "limiter_step b0 e = (b0', s0)" by (metis surj_pair)
    have loc: "local_event e" using Cons.prems(1) x by simp
    from limiter_step_local [OF loc Cons.prems(3)] b' b0'
    have v: "local_view b' = local_view b0'" and s: "s = s0" by simp_all
    have ih: "count_list (snd (tabs_run (share_store b' a, b') es)) True =
              count_list (snd (limiter_run a0 (tab_events TabA es))) True +
              count_list (snd (limiter_run b0' (tab_events TabB es))) True"
      using Cons.IH [where a = "share_store b' a" and b = b' and a0 = a0 and b0 = b0'] Cons.prems x v by simp
    show ?thesis
      using ih b' b0' s by (simp add: x TabB)
  qed
qed

section \<open>Properties\<close>

text \<open>C29: two tabs do not share the message limit: in any interleaving of sends, ticks
  and alert timeouts of two tabs, the messages passed on to \<open>sendMessage\<close> are those
  each tab's limiter passes on alone, so two tabs together send twice the limit within
  one window, and the store keeps only the last writer's count.\<close>

theorem tabs_count_separately:
  assumes "list_all (local_event \<circ> snd) es"
  shows "count_list (snd (tabs_run (a, b) es)) True =
         count_list (snd (limiter_run a (tab_events TabA es))) True +
         count_list (snd (limiter_run b (tab_events TabB es))) True"
  by (rule tabs_run_local [OF assms]) (simp_all add: limiter_step_local)

theorem tabs_count_separately_witness:
  "count_list (snd (tabs_run (limiter_init Map.empty, limiter_init Map.empty)
      (concat (replicate 10 [(TabA, LSend 1700000000000 ''Hi''), (TabB, LSend 1700000000000 ''Hi'')])))) True = 20 \<and>
   limit_store (fst (fst (tabs_run (limiter_init Map.empty, limiter_init Map.empty)
      (concat (replicate 10 [(TabA, LSend 1700000000000 ''Hi''), (TabB, LSend 1700000000000 ''Hi'')])))))
      ''chat-limit-'' =
     Some \<lparr>ml_count = 10, ml_timestamp = 1700000000000, ml_cooldown_end = 1700003600000\<rparr>"
  using tabs_count_separately [of "concat (replicate 10 [(TabA, LSend 1700000000000 ''Hi''), (TabB, LSend 1700000000000 ''Hi'')])"
      "limiter_init Map.empty" "limiter_init Map.empty"]
  by (simp add: numeral_eq_Suc limiter_init_def limiter_defs limit_key_def share_store_def js_trim_def js_is_ws_def Let_def)

end
