(* ===== verification/Chat_Effects.thy ===== *)
theory Chat_Effects
  imports Chat_Widget
begin

text \<open>
  The two effects of \<open>ChatAssistant\<close> that act on the DOM (\<open>ChatUI.tsx\<close> lines 147-167):
  \<open>scrollToBottom\<close> runs after every change of \<open>messages\<close> and calls
  \<open>messagesEndRef.current?.scrollIntoView\<close>, and the effect on
  \<open>[isChatExpanded, isMobile]\<close> calls \<open>inputRef.current?.focus()\<close> when the chat is
  expanded on a desktop. React runs an effect after a render whose dependencies changed,
  so the effects of a transition are a function of the states before and after it
  (\<open>widget_effects\<close>); a ref is set only while its element is rendered: the end marker
  only inside the message area (lines 390-544, rendered while the card is shown and
  expanded), the input whenever the full card is shown. \<open>widget_effect_run\<close> runs the
  widget and records how many messages there were at the last scroll that took place.
\<close>

section \<open>Effects\<close>

datatype dom_effect = ScrollToBottom | FocusInput

definition message_area_mounted :: "widget \<Rightarrow> bool" where
  "message_area_mounted w \<longleftrightarrow> full_shown w \<and> is_chat_expanded (w_ui w)"

definition widget_effects :: "widget \<Rightarrow> widget \<Rightarrow> dom_effect list" where
  "widget_effects w w' =
     (if messages (w_hook w') \<noteq> messages (w_hook w) \<and> message_area_mounted w' then [ScrollToBottom] else []) @
     (if (is_chat_expanded (w_ui w'), is_mobile (w_ui w')) \<noteq> (is_chat_expanded (w_ui w), is_mobile (w_ui w)) \<and>
         is_chat_expanded (w_ui w') \<and> \<not> is_mobile (w_ui w') \<and> full_shown w'
      then [FocusInput] else [])"

fun widget_effect_run ::
  "json_parser \<Rightarrow> widget \<times> nat \<Rightarrow> widget_event list \<Rightarrow> (widget \<times> nat) option" where
  "widget_effect_run parse (w, seen) [] = Some (w, seen)"
| "widget_effect_run parse (w, seen) (e # es) =
     (case widget_step parse w e of
        None \<Rightarrow> None
      | Some w' \<Rightarrow>
          widget_effect_run parse
            (w', if ScrollToBottom \<in> set (widget_effects w w') then length (messages (w_hook w')) else seen) es)"

section \<open>Lemmas\<close>

lemma widget_run_append:
  "widget_run parse w (xs @ ys) =
     (case widget_run parse w xs of None \<Rightarrow> None | Some w' \<Rightarrow> widget_run parse w' ys)"
  by (induction xs arbitrary: w) (simp_all split: option.splits)

lemma skeleton_effect_layout [simp]:
  "is_chat_expanded (skeleton_effect ms u) = is_chat_expanded u"
  "is_mobile (skeleton_effect ms u) = is_mobile u"
  by (simp_all add: skeleton_effect_def split: option.splits)

text \<open>An answer that arrives while the chat is collapsed is not scrolled to, and
  expanding the chat does not scroll either: the effect depends on \<open>messages\<close> only.\<close>

lemma collapsed_response_not_scrolled:
  assumes "is_loading (w_hook w)" and "\<not> is_chat_expanded (w_ui w)"
    and "messages (nostream_finish parse te out (w_hook w)) \<noteq> messages (w_hook w)"
  shows "widget_step parse w (WResponse te out) = Some w' \<Longrightarrow> widget_effects w w' = []"
  using assms by (auto simp: widget_step_def settle_def widget_effects_def message_area_mounted_def)

lemma expand_not_scrolled:
  "widget_step parse w WToggle = Some w' \<Longrightarrow> ScrollToBottom \<notin> set (widget_effects w w')"
  by (auto simp: widget_step_def widget_effects_def toggle_chat_expansion_def split: if_splits)

text \<open>On a desktop: Enter sends and expands (the user message is scrolled to), Escape
  collapses, the answer arrives, the expand button opens the chat again: the message
  area is on screen with two messages, the last scroll was at one.\<close>

theorem collapsed_answer_not_scrolled:
  "\<exists>w. widget_effect_run no_parse (demo_widget, 0)
       [WType ''hi'', WKeyDown ''Enter'' 5, WDocKey ''Escape'', WResponse 6 (FetchRejected ''offline''), WToggle] =
     Some (w, 1) \<and> message_area_mounted w \<and> length (messages (w_hook w)) = 2"
  by (simp add: demo_simps widget_effects_def message_area_mounted_def widget_send_def handle_send_message_def
      record_limit_def MESSAGE_LIMIT_def COOLDOWN_PERIOD_def settle_def send_start_def Let_def
      toggle_chat_expansion_def handle_esc_key_def nostream_finish_def net_error_def handle_enter_press_def
      skeleton_effect_def latest_tool_output_def)

text \<open>C3: an answer that arrives while the chat is collapsed is never scrolled to: neither
  its arrival nor the expansion that follows runs \<open>scrollToBottom\<close> with the end marker
  mounted, although afterwards the message area is on screen (on a visible desktop
  widget) holding the answer.\<close>

theorem answer_while_collapsed_never_scrolled:
  assumes "is_loading (w_hook w)" and "\<not> is_chat_expanded (w_ui w)"
    and "messages (nostream_finish parse te out (w_hook w)) \<noteq> messages (w_hook w)"
    and "widget_step parse w (WResponse te out) = Some w1" and "widget_step parse w1 WToggle = Some w2"
  shows "ScrollToBottom \<notin> set (widget_effects w w1) \<and> ScrollToBottom \<notin> set (widget_effects w1 w2) \<and>
         messages (w_hook w2) = messages (nostream_finish parse te out (w_hook w)) \<and>
         (w_visible w \<and> \<not> is_mobile (w_ui w) \<longrightarrow> message_area_mounted w2)"
  using assms
  by (auto simp: widget_step_def settle_def widget_effects_def message_area_mounted_def full_shown_def
      toggle_chat_expansion_def split: if_splits)

theorem answer_while_collapsed_never_scrolled_witness:
  "ScrollToBottom \<notin> set (widget_effects
       (the (widget_run no_parse demo_widget [WType ''hi'', WKeyDown ''Enter'' 5, WDocKey ''Escape'']))
       (the (widget_run no_parse demo_widget [WType ''hi'', WKeyDown ''Enter'' 5, WDocKey ''Escape'',
          WResponse 6 (FetchRejected ''offline'')]))) \<and>
   ScrollToBottom \<notin> set (widget_effects
       (the (widget_run no_parse demo_widget [WType ''hi'', WKeyDown ''Enter'' 5, WDocKey ''Escape'',
          WResponse 6 (FetchRejected ''offline'')]))
       (the (widget_run no_parse demo_widget [WType ''hi'', WKeyDown ''Enter'' 5, WDocKey ''Escape'',
          WResponse 6 (FetchRejected ''offline''), WToggle]))) \<and>
   message_area_mounted (the (widget_run no_parse demo_widget [WType ''hi'', WKeyDown ''Enter'' 5, WDocKey ''Escape'',
          WResponse 6 (FetchRejected ''offline''), WToggle])) \<and>
   length (messages (w_hook (the (widget_run no_parse demo_widget [WType ''hi'', WKeyDown ''Enter'' 5, WDocKey ''Escape'',
          WResponse 6 (FetchRejected ''offline''), WToggle])))) = 2"
proof -
  obtain w where run: "widget_run no_parse demo_widget [WType ''hi'', WKeyDown ''Enter'' 5, WDocKey ''Escape''] = Some w"
      and pre: "is_loading (w_hook w) \<and> \<not> is_chat_expanded (w_ui w) \<and> w_visible w \<and> \<not> is_mobile (w_ui w) \<and>
        length (messages (w_hook w)) = 1"
    by (simp add: demo_simps widget_send_def handle_send_message_def
      record_limit_def MESSAGE_LIMIT_def COOLDOWN_PERIOD_def settle_def send_start_def Let_def
      toggle_chat_expansion_def handle_esc_key_def nostream_finish_def net_error_def handle_enter_press_def
      skeleton_effect_def latest_tool_output_def)
  obtain w1 where s1: "widget_step no_parse w (WResponse 6 (FetchRejected ''offline'')) = Some w1"
    using pre by (simp add: widget_step_def)
  have fin: "length (messages (nostream_finish no_parse 6 (FetchRejected ''offline'') (w_hook w))) = 2"
    using pre by (simp add: nostream_finish_def net_error_def Let_def)
  then have ne: "messages (nostream_finish no_parse 6 (FetchRejected ''offline'') (w_hook w)) \<noteq> []"
    by auto
  obtain w2 where s2: "widget_step no_parse w1 WToggle = Some w2"
    using s1 pre ne by (auto simp: widget_step_def settle_def toggle_shown_def)
  have "ScrollToBottom \<notin> set (widget_effects w w1) \<and> ScrollToBottom \<notin> set (widget_effects w1 w2) \<and>
      messages (w_hook w2) = messages (nostream_finish no_parse 6 (FetchRejected ''offline'') (w_hook w)) \<and>
      (w_visible w \<and> \<not> is_mobile (w_ui w) \<longrightarrow> message_area_mounted w2)"
    using pre fin s1 s2 by (intro answer_while_collapsed_never_scrolled) auto
  moreover have "widget_run no_parse demo_widget
      ([WType ''hi'', WKeyDown ''Enter'' 5, WDocKey ''Escape''] @ [WResponse 6 (FetchRejected ''offline'')]) = Some w1"
    "widget_run no_parse demo_widget
      ([WType ''hi'', WKeyDown ''Enter'' 5, WDocKey ''Escape''] @ [WResponse 6 (FetchRejected ''offline''), WToggle]) = Some w2"
    by (simp_all only: widget_run_append run) (simp_all add: s1 s2)
  ultimately show ?thesis
    using run pre fin by (simp only: append.simps option.sel) simp
qed

end
