(* ===== verification/Spec2Isabelle.thy ===== *)
theory Spec2Isabelle
  imports Chat_Stream Site Tool_Cards Tabs Chat_Effects
begin

text \<open>
  \<^bold>\<open>A verification model of the chat assistant of the portfolio site.\<close>

  The program (under \<open>src/src\<close>) is a React portfolio with a chat widget. The widget
  \<open>ChatAssistant\<close> (\<open>components/ChatUI.tsx\<close>) keeps its own UI state, enforces a
  message limit of 10 messages per hour and network identity, and talks to the
  assistant through the hook \<open>useChatNoStream\<close> (\<open>hooks/useChatNoStream.ts\<close>): the
  hook posts the message and turns every newline-terminated JSON line of the response
  body into a message of the conversation. A second hook, \<open>useChatStream\<close>
  (\<open>hooks/useChatStream.ts\<close>), streams tokens into one agent message instead; the
  widget does not use it, but it is the specification's streaming mode and is modelled
  too. Tool results are shown through \<open>ToolOutputDisplay\<close>.

  \<^bold>\<open>Theories.\<close>
  \<^item> \<open>Chat_Prelude\<close>: the JavaScript values the code handles (\<open>jsv\<close>), their
    conversions (\<open>String(v)\<close>, truthiness, \<open>||\<close>, \<open>+\<close>, property reads), \<open>trim\<close>,
    \<open>split\<close>, \<open>join\<close>, and \<open>Array.map\<close> with a throwing callback (\<open>map_except\<close>).
  \<^item> \<open>Line_Buffer\<close>: the read loop both hooks run (\<open>feed\<close>, \<open>handle_lines\<close>,
    \<open>read_loop\<close>, \<open>finish_buffer\<close>), generic over the line handler. Claims C1-C2:
    the lines and the remaining buffer are \<open>split('\n')\<close> of the whole text, however
    it is chunked.
  \<^item> \<open>Chat_Message\<close>: \<open>ChatMessage\<close> (\<open>chat_message\<close>), the hook state
    (\<open>chat_state\<close>), the network outcome, and the part of \<open>sendMessage\<close> both hooks
    share (\<open>send_start\<close>, the HTTP and network error messages).
  \<^item> \<open>Chat_Stream\<close>: the whole \<open>sendMessage\<close> of \<open>useChatStream\<close>
    (\<open>stream_send_message\<close>). C4-C9: the guard, no exit path leaves the hook loading,
    history is kept, tokens accumulate, and two divergences from the specification (tool
    output and answer merged in one message, an unterminated last token dropped).
  \<^item> \<open>Chat_NoStream\<close>: the whole \<open>sendMessage\<close> of \<open>useChatNoStream\<close>
    (\<open>nostream_send_message\<close>). C10-C17: one message per non-blank line in order, a
    malformed line isolated, a tool output then the answer, colliding ids, unknown types kept, the
    context-retriever special case of the last line only, loading cleared, the guard.
  \<^item> \<open>Rate_Limit\<close>: the message limit of \<open>ChatUI.tsx\<close> (\<open>handleSendMessage\<close>, the
    load effect, the cooldown interval, the alert timeout, a reload,
    \<open>formatTimeRemaining\<close>), with \<open>localStorage\<close> as a map, and the inductive set of
    reachable limiter states; the interval run to its end (\<open>cooldown_run\<close>, a
    \<open>function\<close> whose termination is proved with the measure \<open>timeRemaining\<close>).
    C18-C24: ten then refuse, a new window after an hour, the countdown expires, the
    count stays in 1..10 (rule induction), a reload discards even an unexpired stored
    window (against the comment at line 78), a refusal only
    shows the alert, the bounds of the formatted time. C36: the interval stops after
    \<open>ceil(timeRemaining/1000)\<close> ticks with the limit cleared. C37: \<open>timeRemaining\<close> is
    always a whole number of seconds within one cooldown period (rule induction).
  \<^item> \<open>Chat_UI\<close>: the UI state of \<open>ChatAssistant\<close>, its handlers and effects, the two
    style functions, \<open>ToolOutputDisplay\<close>, and the render function as a view value
    (\<open>render_chat\<close>; \<open>Inl\<close> when rendering throws). C30-C31: rows follow the
    messages, a malformed \<open>tool_calls\<close> crashes the render; lemmas: the skeleton marks
    the latest tool output, Escape and outside clicks, toggling twice.
  \<^item> \<open>Tool_Cards\<close>: \<open>WeatherCard\<close>, \<open>GithubCard\<close> and \<open>LinkedInCard\<close> as functions
    from the tool's output to the texts they show or the exception they throw, React's
    rendering of a value as a child (\<open>react_text\<close>), and \<open>render_tree\<close>, the widget with
    the cards on screen. C34: a weather output without a string \<open>region\<close> crashes the
    widget. C35: a server line with a weather output shows up as that card.
  \<^item> \<open>Chat_Widget\<close>: the widget as one state machine (\<open>widget_step\<close>) over the UI
    state, the hook state and the limiter, with an event per DOM event, timer and
    network completion, each possible only when its control is rendered and enabled;
    \<open>widget_reach\<close> is the set of reachable states. C25-C28: the limit counts only
    messages really sent (rule induction), the split send refines the hook's
    \<open>sendMessage\<close>, nothing can be sent while a request is pending, voice mode locks
    the input; a lemma: Enter on a desktop expands the chat and sends.
  \<^item> \<open>Chat_Effects\<close>: the widget's two DOM effects (scroll to the newest message,
    focus the input on expansion) as a function of the states before and after a
    transition (\<open>widget_effects\<close>), and a run recording the last scroll. C3: an answer
    that arrives while the chat is collapsed is never scrolled to, not even when the chat
    is expanded again.
  \<^item> \<open>Tabs\<close>: two tabs of the site sharing \<open>localStorage\<close>, composed by interleaving
    their limiters (\<open>tabs_step\<close>, \<open>share_store\<close>). C29: each tab counts its own
    sends; together they pass twice the limit in one window.
  \<^item> \<open>Project_Card\<close>: \<open>ProjectCard\<close> (\<open>ProjectCard.tsx\<close>): the expand toggle, the
    image with its \<open>onError\<close> fallback, the placeholder URL built with
    \<open>encodeURIComponent\<close> (whose output is proved to consist of URL-safe characters),
    and the texts and links the card shows.
  \<^item> \<open>Portfolio\<close>: the data of \<open>data/portfolioData.ts\<close> as records and lists, and the
    sections that render it (\<open>HeroSection\<close>, \<open>AboutSection\<close>, \<open>ProjectsSection\<close>,
    \<open>SkillsSection\<close>, \<open>ExperienceSection\<close>, \<open>ContactSection\<close>, \<open>Footer\<close>) as
    functions to the texts, links and keys they show; the project cards' states are a
    list aligned with \<open>projectsData\<close>, changed by the cards' events
    (\<open>projects_event\<close>). C38: each card's state depends only on its own events (the
    parity of its toggles, a failed image stays replaced); lemmas: the cards' keys are
    the projects' ids and a skill bar's width is a percentage in 0..100.
  \<^item> \<open>Site\<close>: the page around the widget (\<open>App.tsx\<close>, \<open>Layout.tsx\<close>,
    \<open>NavBar.tsx\<close>, \<open>scrollUtils.ts\<close>, the hero's buttons): the theme and its document
    class, the CV preload, the hero and footer observers, the navbar's menu, links and
    scrolling and the project cards, composed with the widget in \<open>site_step\<close> (the
    footer observer drives the widget's \<open>isVisible\<close>), and a reload of the page
    (\<open>site_reload\<close>, a transition of \<open>site_reach\<close>) over the same \<open>localStorage\<close>,
    where the hook stores the thread id (\<open>thread_effect\<close>). C32: a reload keeps the
    thread and restarts the conversation. C33: a request pending while the footer hides
    the widget completes while it renders nothing, and the widget shows it when it is
    visible again. C39: nothing
    but the cards' own events changes the cards. A lemma shows that the contact
    section's CV link is the URL \<open>Layout\<close> preloads in every state.

  \<^bold>\<open>Modelling choices.\<close>
  \<open>Date.now()\<close> is an argument wherever the code reads it (a natural number of
  milliseconds for the hooks, an integer for the limiter). \<open>JSON.parse\<close> of a line is a
  parameter \<open>parse :: string \<Rightarrow> jsv option\<close> (\<open>None\<close>: it throws), so every
  result holds for any parser. Numbers are integers: every number the code computes with
  (times, counts, widths) is one. \<open>trim\<close> removes the whitespace of the 8-bit range, the no-break space included. The response body is
  a finite list of chunks, each a string the \<open>TextDecoder\<close> produced, paired with the
  time it is handled; a body that never ends is outside the model, so the read loop is
  structural recursion over a list and no fuel is needed; the cooldown interval is a
  \<open>function\<close> on the limiter state that terminates because every tick lowers a positive
  \<open>timeRemaining\<close> by 1000. Strings are lists of 8-bit characters: text outside that
  range is outside the model. React's \<open>setX(prev => ...)\<close>
  updates are functions on records; \<open>sendMessage\<close>'s \<open>await\<close> splits it into a start
  and a completion event of the widget.

  \<^bold>\<open>Not modelled.\<close> \<open>BookingModal\<close> (entirely commented out, as is
  \<open>GithubRepoCard\<close>); the skeleton components of the tool cards (static markup); the
  sections' static headings and class names (except the experience badge's);
  \<open>useScrollPosition\<close>, which no component uses; the browser's layout (the offsets of
  the sections are inputs, the clamping of scroll positions is not modelled); icons and class names other than
  the two style functions and the badge; Markdown rendering of the agent's
  answers; where the browser scrolls a freshly mounted message area, and whether
  \<open>focus()\<close> succeeds (the effects are modelled as calls); the locale formatting of dates
  (\<open>toLocaleString\<close>, a parameter); the UTF-8 decoder; the IP lookup service (its
  result is an input of \<open>WNetwork\<close>); \<open>tailwind.config.js\<close> (configuration).
\<close>

end
